theory Spec2Isabelle
  imports Main
begin

section \<open>The simulated file system of \<^verbatim>\<open>filesystem.c\<close>\<close>

text \<open>
  A shallow embedding of the core of \<^verbatim>\<open>filesystem.c\<close>: the block allocator, the
  directory table, the permission check, the namespace operations, the path resolver
  and the stream layer. The global \<^verbatim>\<open>Filesystem fs\<close> of the source is passed
  explicitly and returned updated. Conventions of the embedding:

  \<^item> A C array indexed by an \<^verbatim>\<open>int\<close> is a function from \<open>int\<close>. The source checks
    almost no index; an index outside the array is undefined behaviour in C, and the
    theorems below state the ranges they rely on.
  \<^item> A C string is the list of its bytes before the terminating NUL. The 255-byte name
    field of a directory entry is followed in the struct by a padding byte, and the
    3-byte permission field of an inode likewise; both padding bytes are zero in the
    zero-initialised global and in every image saved from it, so a name or permission
    field that is full still ends there for \<^verbatim>\<open>strcmp\<close> and \<^verbatim>\<open>strchr\<close>.
  \<^item> \<^verbatim>\<open>time(NULL)\<close> is the parameter \<open>now\<close>.
  \<^item> Messages printed and logged are not part of the state. A \<^verbatim>\<open>void\<close> function
    that reports an error returns the error beside the state.
  \<^item> Cursor arithmetic mixes \<^verbatim>\<open>int\<close> and \<^verbatim>\<open>size_t\<close>; for block numbers from
    \<open>-1\<close> to \<open>1024\<close> and a non-negative cursor every intermediate value lies between
    \<open>0\<close> and \<open>2^31\<close>, so the arithmetic is that of \<open>int\<close>.
\<close>

subsection \<open>Constants and data\<close>

abbreviation MAX_FILE_NAME :: nat where "MAX_FILE_NAME \<equiv> 255"
abbreviation NUM_BLOCKS :: int where "NUM_BLOCKS \<equiv> 1024"
abbreviation BLOCK_SIZE :: int where "BLOCK_SIZE \<equiv> 512"
abbreviation NUM_INODES :: int where "NUM_INODES \<equiv> 256"
abbreviation NUM_DIRECTORY_ENTRIES :: int where "NUM_DIRECTORY_ENTRIES \<equiv> 256"
abbreviation MAX_FILE_OPEN :: int where "MAX_FILE_OPEN \<equiv> 64"

text \<open>
  \<^verbatim>\<open>sizeof(Filesystem)\<close> and \<^verbatim>\<open>sizeof(const char *)\<close> on an LP64 platform (8-byte
  pointers and \<^verbatim>\<open>time_t\<close>, 4-byte \<^verbatim>\<open>int\<close>): an inode takes 4144 bytes, a directory
  entry 260, a directory 66560, an open-file slot 8.
\<close>

abbreviation SIZEOF_FILESYSTEM :: int where "SIZEOF_FILESYSTEM \<equiv> 18171416"
abbreviation SIZEOF_CHAR_PTR :: int where "SIZEOF_CHAR_PTR \<equiv> 8"

abbreviation NUL :: char where "NUL \<equiv> CHR 0x00"

record Inode =
  type_i :: int
  size_i :: int
  creation_time :: int
  modification_time :: int
  permissions :: string
  blocks :: "int \<Rightarrow> int"
  link_count :: int
  inode_rep_parent :: int

record DirectoryEntry =
  filename :: string
  inode_index :: int

record Directory =
  entries :: "int \<Rightarrow> DirectoryEntry"

record OpenFile =
  inode :: int
  tete_lecture :: int

text \<open>
  The image file behind \<^verbatim>\<open>fs.file\<close>: its bytes and its length. \<^verbatim>\<open>init_filesystem\<close>
  writes a zero byte at every offset from \<^verbatim>\<open>sizeof(Filesystem)\<close> up to the end of the
  last block, so a formatted image is \<open>SIZEOF_FILESYSTEM + NUM_BLOCKS * BLOCK_SIZE\<close>
  bytes long.
\<close>

record Image =
  bytes :: "int \<Rightarrow> char"
  len :: int

record Filesystem =
  file_img :: Image
  inodes :: "int \<Rightarrow> Inode"
  directories :: "int \<Rightarrow> Directory"
  free_blocks :: "int \<Rightarrow> int"
  current_dir :: int
  opened_file :: "int \<Rightarrow> OpenFile"

datatype error =
  NotFound | Exists | PermissionDenied | WrongType | NoEntry | InvalidDescriptor
  | InvalidArgument | OutOfFile | EndOfFile

subsection \<open>Searching an array\<close>

text \<open>
  The source finds the first free inode, block, directory slot and descriptor with one
  loop shape: \<^verbatim>\<open>while (i < n && index == -1) { if (P(i)) index = i; i++; }\<close>, or the
  same as a \<^verbatim>\<open>for\<close> with \<^verbatim>\<open>break\<close>. \<open>first_index P i n\<close> is that loop from \<open>i\<close>.
\<close>

function first_index :: "(int \<Rightarrow> bool) \<Rightarrow> int \<Rightarrow> int \<Rightarrow> int" where
  "first_index P i n = (if i < n then (if P i then i else first_index P (i + 1) n) else -1)"
  by pat_completeness auto
termination
  by (relation "measure (\<lambda>(P, i, n). nat (n - i))") auto

declare first_index.simps [simp del]

subsection \<open>C strings\<close>

text \<open>\<^verbatim>\<open>strncpy(dst, src, n)\<close> into a field of \<open>n\<close> bytes read back as a C string.\<close>

definition strncpy_str :: "nat \<Rightarrow> string \<Rightarrow> string" where
  "strncpy_str n src = take n src"

text \<open>\<^verbatim>\<open>strncpy(dst, src, n)\<close> into a field of \<open>n\<close> raw bytes: short sources are padded with NUL.\<close>

definition strncpy_raw :: "nat \<Rightarrow> string \<Rightarrow> string" where
  "strncpy_raw n src = take n src @ replicate (n - length src) NUL"

text \<open>\<^verbatim>\<open>strchr(s, c) != NULL\<close> for \<open>c\<close> other than NUL: \<open>c\<close> occurs before the first NUL.\<close>

definition strchr :: "string \<Rightarrow> char \<Rightarrow> bool" where
  "strchr s c = (c \<in> set (takeWhile (\<lambda>x. x \<noteq> NUL) s))"

subsection \<open>Block allocator\<close>

definition allocate_block :: "Filesystem \<Rightarrow> Filesystem \<times> int" where
  "allocate_block fs =
     (let i = first_index (\<lambda>i. free_blocks fs i = 0) 0 NUM_BLOCKS
      in if i = -1 then (fs, -1)
         else (fs\<lparr>free_blocks := (free_blocks fs)(i := 1)\<rparr>, i))"

definition free_block :: "int \<Rightarrow> Filesystem \<Rightarrow> Filesystem" where
  "free_block block_index fs =
     (if block_index \<ge> 0 \<and> block_index < NUM_BLOCKS
      then fs\<lparr>free_blocks := (free_blocks fs)(block_index := 0)\<rparr>
      else fs)"

subsection \<open>Directory table\<close>

text \<open>
  \<^verbatim>\<open>rechInode\<close>: the loop runs while \<^verbatim>\<open>inode == -1\<close>, so an entry whose name matches
  but whose \<^verbatim>\<open>inode_index\<close> is \<open>-1\<close> does not stop it.
\<close>

function rechInode_loop :: "string \<Rightarrow> Directory \<Rightarrow> int \<Rightarrow> int \<Rightarrow> int" where
  "rechInode_loop fname dir i ino =
     (if i < NUM_DIRECTORY_ENTRIES \<and> ino = -1
      then rechInode_loop fname dir (i + 1)
             (if fname = filename (entries dir i) then inode_index (entries dir i) else ino)
      else ino)"
  by pat_completeness auto
termination
  by (relation "measure (\<lambda>(f, d, i, n). nat (NUM_DIRECTORY_ENTRIES - i))") auto

declare rechInode_loop.simps [simp del]

definition rechInode :: "string \<Rightarrow> Directory \<Rightarrow> int" where
  "rechInode fname dir = rechInode_loop fname dir 0 (-1)"

definition rechEntree :: "Filesystem \<Rightarrow> int \<Rightarrow> int" where
  "rechEntree fs dir_inode =
     first_index (\<lambda>i. inode_index (entries (directories fs dir_inode) i) = -1)
       0 NUM_DIRECTORY_ENTRIES"

text \<open>Writing and clearing one entry of a directory.\<close>

definition set_entry :: "int \<Rightarrow> int \<Rightarrow> string \<Rightarrow> int \<Rightarrow> Filesystem \<Rightarrow> Filesystem" where
  "set_entry d k fname ino fs =
     fs\<lparr>directories := (directories fs)
        (d := (directories fs d)\<lparr>entries := (entries (directories fs d))
           (k := \<lparr>filename = strncpy_str MAX_FILE_NAME fname, inode_index = ino\<rparr>)\<rparr>)\<rparr>"

definition clear_entry :: "int \<Rightarrow> int \<Rightarrow> Filesystem \<Rightarrow> Filesystem" where
  "clear_entry d k fs =
     fs\<lparr>directories := (directories fs)
        (d := (directories fs d)\<lparr>entries := (entries (directories fs d))
           (k := \<lparr>filename = [], inode_index = -1\<rparr>)\<rparr>)\<rparr>"

subsection \<open>Permissions\<close>

definition has_permission :: "Filesystem \<Rightarrow> int \<Rightarrow> char \<Rightarrow> int" where
  "has_permission fs ino perm =
     (if ino < 0 \<or> ino \<ge> NUM_INODES then 0
      else if perm = CHR ''r'' \<and> strchr (permissions (inodes fs ino)) (CHR ''r'') then 1
      else if perm = CHR ''w'' \<and> strchr (permissions (inodes fs ino)) (CHR ''w'') then 1
      else if perm = CHR ''x'' \<and> strchr (permissions (inodes fs ino)) (CHR ''x'') then 1
      else 0)"

definition change_permissions ::
    "int \<Rightarrow> string \<Rightarrow> string \<Rightarrow> int \<Rightarrow> Filesystem \<Rightarrow> Filesystem \<times> int" where
  "change_permissions now fname newPerms dir_inode fs =
     (let ino = rechInode fname (directories fs dir_inode)
      in if ino = -1 then (fs, -1)
         else (fs\<lparr>inodes := (inodes fs)
                 (ino := (inodes fs ino)\<lparr>permissions := strncpy_raw 3 newPerms,
                                          modification_time := now\<rparr>)\<rparr>, 0))"

subsection \<open>Creating and deleting files\<close>

definition set_inode :: "int \<Rightarrow> Inode \<Rightarrow> Filesystem \<Rightarrow> Filesystem" where
  "set_inode i v fs = fs\<lparr>inodes := (inodes fs)(i := v)\<rparr>"

definition create_file ::
    "int \<Rightarrow> string \<Rightarrow> string \<Rightarrow> int \<Rightarrow> Filesystem \<Rightarrow> Filesystem \<times> int" where
  "create_file now fname perms dir_inode fs =
     (if has_permission fs dir_inode (CHR ''w'') = 0 then (fs, -1)
      else if rechInode fname (directories fs dir_inode) \<noteq> -1 then (fs, -1)
      else
        let inode_idx = first_index (\<lambda>i. size_i (inodes fs i) = -1) 0 NUM_INODES in
        if inode_idx = -1 then (fs, -1)
        else
          let fs1 = set_inode inode_idx ((inodes fs inode_idx)\<lparr>size_i := 0\<rparr>) fs;
              fs2 = fst (allocate_block fs1);
              block = snd (allocate_block fs1)
          in
          if block = -1
          then (set_inode inode_idx ((inodes fs2 inode_idx)\<lparr>size_i := -1\<rparr>) fs2, -1)
          else
            let index_rep = rechEntree fs2 dir_inode in
            if index_rep = -1
            then (let fs3 = free_block block fs2
                  in set_inode inode_idx ((inodes fs3 inode_idx)\<lparr>size_i := -1\<rparr>) fs3, -1)
            else
              let fs3 = set_entry dir_inode index_rep fname inode_idx fs2
              in (set_inode inode_idx
                    ((inodes fs3 inode_idx)
                       \<lparr>blocks := (blocks (inodes fs3 inode_idx))(0 := block),
                        type_i := 1,
                        creation_time := now,
                        modification_time := now,
                        inode_rep_parent := dir_inode,
                        permissions := strncpy_raw 3 perms\<rparr>) fs3,
                  inode_idx))"

text \<open>
  The loop of \<^verbatim>\<open>delete_file\<close> and \<^verbatim>\<open>delete_directory\<close> that frees every block of an
  inode's block list and resets the slot to \<open>-1\<close>.
\<close>

function free_blocks_loop :: "int \<Rightarrow> int \<Rightarrow> Filesystem \<Rightarrow> Filesystem" where
  "free_blocks_loop ino i fs =
     (if i < NUM_BLOCKS
      then free_blocks_loop ino (i + 1)
             (if blocks (inodes fs ino) i \<noteq> -1
              then (let fs1 = free_block (blocks (inodes fs ino) i) fs
                    in set_inode ino
                         ((inodes fs1 ino)\<lparr>blocks := (blocks (inodes fs1 ino))(i := -1)\<rparr>) fs1)
              else fs)
      else fs)"
  by pat_completeness auto
termination
  by (relation "measure (\<lambda>(ino, i, fs). nat (NUM_BLOCKS - i))") auto

declare free_blocks_loop.simps [simp del]

text \<open>
  \<^verbatim>\<open>delete_file\<close>. The entry is matched by inode and by name. The source's loop over
  the entries has no upper bound; \<open>rechInode\<close> has found such an entry, so the search
  ends inside the array (lemma \<open>delete_file_entry_found\<close>).
\<close>

definition delete_file ::
    "int \<Rightarrow> string \<Rightarrow> int \<Rightarrow> Filesystem \<Rightarrow> Filesystem \<times> error option" where
  "delete_file now fname dir_inode fs =
     (let inode_idx = rechInode fname (directories fs dir_inode) in
      if inode_idx = -1 then (fs, Some NotFound)
      else if type_i (inodes fs inode_idx) \<noteq> 1 \<and> type_i (inodes fs inode_idx) \<noteq> 2
      then (fs, Some WrongType)
      else
        let fs1 = free_blocks_loop inode_idx 0 fs;
            fs2 = set_inode inode_idx
                    ((inodes fs1 inode_idx)
                       \<lparr>size_i := -1,
                        type_i := -1,
                        creation_time := now,
                        modification_time := now,
                        link_count := 0,
                        inode_rep_parent := -1\<rparr>) fs1;
            k = first_index
                  (\<lambda>i. inode_index (entries (directories fs2 dir_inode) i) = inode_idx \<and>
                       fname = filename (entries (directories fs2 dir_inode) i))
                  0 NUM_DIRECTORY_ENTRIES
        in (clear_entry dir_inode k fs2, None))"

subsection \<open>Creating and deleting directories\<close>

definition create_directory ::
    "int \<Rightarrow> string \<Rightarrow> int \<Rightarrow> Filesystem \<Rightarrow> Filesystem \<times> int" where
  "create_directory now dirname inode_dir fs =
     (let inode_idx = first_index (\<lambda>i. size_i (inodes fs i) = -1) 0 NUM_INODES in
      if inode_idx = -1 then (fs, -1)
      else if rechInode dirname (directories fs inode_dir) \<noteq> -1 then (fs, -1)
      else
        let idx = rechEntree fs inode_dir in
        if idx = -1 then (fs, -1)
        else
          let fs1 = set_inode inode_idx
                      ((inodes fs inode_idx)
                         \<lparr>size_i := 0,
                          type_i := 0,
                          inode_rep_parent := inode_dir,
                          creation_time := now,
                          modification_time := now,
                          permissions := strncpy_raw 3 ''rwx'',
                          link_count := 1,
                          blocks := (\<lambda>i. if 0 \<le> i \<and> i < NUM_BLOCKS then -1
                                         else blocks (inodes fs inode_idx) i)\<rparr>) fs;
              fs2 = fs1\<lparr>directories := (directories fs1)
                      (inode_idx := (directories fs1 inode_idx)
                         \<lparr>entries := (\<lambda>i. if 0 \<le> i \<and> i < NUM_DIRECTORY_ENTRIES
                                           then \<lparr>filename = [], inode_index = -1\<rparr>
                                           else entries (directories fs1 inode_idx) i)\<rparr>)\<rparr>
          in (set_entry inode_dir idx dirname inode_idx fs2, inode_idx))"

text \<open>
  \<^verbatim>\<open>delete_directory\<close> calls itself on every subdirectory and ignores what the call
  returns. The recursion follows the directory records, which need not form a tree (a
  hard link can make a directory its own descendant), so the model takes a bound on
  the recursion depth and returns \<open>None\<close> when it is exceeded. The entries of the
  directory are read afresh at each index, as the source reads them through a pointer
  into the table. Names are passed by value; the source passes a pointer into the entry,
  which the callee clears only after its last comparison.
\<close>

fun delete_directory ::
    "nat \<Rightarrow> int \<Rightarrow> string \<Rightarrow> int \<Rightarrow> Filesystem \<Rightarrow> (Filesystem \<times> int) option"
  and delete_children ::
    "nat \<Rightarrow> int \<Rightarrow> int \<Rightarrow> nat list \<Rightarrow> Filesystem \<Rightarrow> Filesystem option"
where
  "delete_directory 0 now dirname parent_dir fs = None"
| "delete_directory (Suc n) now dirname parent_dir fs =
     (let dir_inode = rechInode dirname (directories fs parent_dir) in
      if dir_inode = -1 then Some (fs, -1)
      else if type_i (inodes fs dir_inode) \<noteq> 0 then Some (fs, -1)
      else if has_permission fs dir_inode (CHR ''w'') = 0 then Some (fs, -1)
      else
        case delete_children n now dir_inode [0 ..< nat NUM_DIRECTORY_ENTRIES] fs of
          None \<Rightarrow> None
        | Some fs1 \<Rightarrow>
            let k = first_index
                      (\<lambda>i. inode_index (entries (directories fs1 parent_dir) i) = dir_inode \<and>
                           filename (entries (directories fs1 parent_dir) i) = dirname)
                      0 NUM_DIRECTORY_ENTRIES;
                fs2 = (if k = -1 then fs1 else clear_entry parent_dir k fs1);
                fs3 = set_inode dir_inode
                        ((inodes fs2 dir_inode)
                           \<lparr>size_i := -1,
                            type_i := -1,
                            creation_time := now,
                            modification_time := now,
                            inode_rep_parent := -1,
                            link_count := 0\<rparr>) fs2
            in Some (free_blocks_loop dir_inode 0 fs3, 0))"
| "delete_children n now dir_inode [] fs = Some fs"
| "delete_children n now dir_inode (i # rest) fs =
     (if inode_index (entries (directories fs dir_inode) (int i)) \<noteq> -1
      then
        let ino = inode_index (entries (directories fs dir_inode) (int i));
            nm = filename (entries (directories fs dir_inode) (int i))
        in
        case (if type_i (inodes fs ino) = 0
              then map_option fst (delete_directory n now nm dir_inode fs)
              else Some fs) of
          None \<Rightarrow> None
        | Some fs1 \<Rightarrow>
            delete_children n now dir_inode rest
              (if type_i (inodes fs1 ino) = 1 \<or> type_i (inodes fs1 ino) = 2
               then fst (delete_file now nm dir_inode fs1)
               else fs1)
      else delete_children n now dir_inode rest fs)"

subsection \<open>Hard links and moving a file\<close>

definition create_hard_link ::
    "string \<Rightarrow> string \<Rightarrow> int \<Rightarrow> int \<Rightarrow> Filesystem \<Rightarrow> Filesystem \<times> int" where
  "create_hard_link link_name fname inode_dir_source inode_dir_target fs =
     (let inode_idx = rechInode fname (directories fs inode_dir_source) in
      if inode_idx = -1 then (fs, -1)
      else if rechInode link_name (directories fs inode_dir_target) \<noteq> -1 then (fs, -1)
      else
        let idx = rechEntree fs inode_dir_target in
        if idx = -1 then (fs, -1)
        else
          let fs1 = set_entry inode_dir_target idx link_name inode_idx fs
          in (set_inode inode_idx
                ((inodes fs1 inode_idx)\<lparr>link_count := link_count (inodes fs1 inode_idx) + 1\<rparr>)
                fs1, 0))"

text \<open>
  \<^verbatim>\<open>move_file\<close> returns nothing; the model returns the error it reports. As in
  \<^verbatim>\<open>delete_file\<close>, the unbounded search for the source entry ends inside the array.
\<close>

definition move_file ::
    "int \<Rightarrow> string \<Rightarrow> int \<Rightarrow> int \<Rightarrow> Filesystem \<Rightarrow> Filesystem \<times> error option" where
  "move_file now fname inode_dir_source inode_dir_target fs =
     (let inode_idx = rechInode fname (directories fs inode_dir_source) in
      if inode_idx = -1 then (fs, Some NotFound)
      else if has_permission fs inode_dir_source (CHR ''w'') = 0
      then (fs, Some PermissionDenied)
      else if rechInode fname (directories fs inode_dir_target) \<noteq> -1 then (fs, Some Exists)
      else if has_permission fs inode_dir_target (CHR ''w'') = 0
      then (fs, Some PermissionDenied)
      else
        let idx = rechEntree fs inode_dir_target in
        if idx = -1 then (fs, Some NoEntry)
        else
          let fs1 = set_entry inode_dir_target idx fname inode_idx fs;
              k = first_index
                    (\<lambda>i. inode_index (entries (directories fs1 inode_dir_source) i) = inode_idx \<and>
                         fname = filename (entries (directories fs1 inode_dir_source) i))
                    0 NUM_DIRECTORY_ENTRIES;
              fs2 = clear_entry inode_dir_source k fs1
          in (set_inode inode_idx ((inodes fs2 inode_idx)\<lparr>modification_time := now\<rparr>) fs2,
              None))"

text \<open>
  \<^verbatim>\<open>move_directory\<close>. The search for the source entry is a \<^verbatim>\<open>for\<close> loop over the 256
  entries that stops at the first match; when none matches, no entry is cleared.
\<close>

definition move_directory ::
    "int \<Rightarrow> string \<Rightarrow> int \<Rightarrow> int \<Rightarrow> Filesystem \<Rightarrow> Filesystem \<times> int" where
  "move_directory now srcDirName srcParentDir dstParentDir fs =
     (let srcDirInode = rechInode srcDirName (directories fs srcParentDir) in
      if srcDirInode = -1 then (fs, -1)
      else if type_i (inodes fs srcDirInode) \<noteq> 0 then (fs, -1)
      else if has_permission fs srcParentDir (CHR ''w'') = 0 then (fs, -1)
      else if rechInode srcDirName (directories fs dstParentDir) \<noteq> -1 then (fs, -1)
      else if has_permission fs dstParentDir (CHR ''w'') = 0 then (fs, -1)
      else
        let dstIndex = rechEntree fs dstParentDir in
        if dstIndex = -1 then (fs, -1)
        else
          let fs1 = set_entry dstParentDir dstIndex srcDirName srcDirInode fs;
              k = first_index
                    (\<lambda>i. inode_index (entries (directories fs1 srcParentDir) i) = srcDirInode \<and>
                         filename (entries (directories fs1 srcParentDir) i) = srcDirName)
                    0 NUM_DIRECTORY_ENTRIES;
              fs2 = (if k = -1 then fs1 else clear_entry srcParentDir k fs1)
          in (set_inode srcDirInode
                ((inodes fs2 srcDirInode)
                   \<lparr>inode_rep_parent := dstParentDir, modification_time := now\<rparr>) fs2,
              0))"

subsection \<open>Path resolver\<close>

text \<open>
  One call of \<^verbatim>\<open>strtok\<close> with the delimiter \<^verbatim>\<open>"/"\<close> on the rest of the buffer: it
  skips leading slashes, returns \<^verbatim>\<open>NULL\<close> at the end of the buffer, and otherwise
  returns the token up to the next slash and resumes after that slash.
\<close>

definition strtok :: "string \<Rightarrow> (string \<times> string) option" where
  "strtok s =
     (let s1 = dropWhile (\<lambda>c. c = CHR ''/'') s in
      if s1 = [] then None
      else Some (takeWhile (\<lambda>c. c \<noteq> CHR ''/'') s1,
                 drop 1 (dropWhile (\<lambda>c. c \<noteq> CHR ''/'') s1)))"

lemma strtok_shorter: "strtok s = Some (t, r) \<Longrightarrow> length r < length s"
proof -
  assume a: "strtok s = Some (t, r)"
  let ?s1 = "dropWhile (\<lambda>c. c = CHR ''/'') s"
  have ne: "?s1 \<noteq> []"
    using a unfolding strtok_def Let_def
    by (cases "?s1 = []") (simp_all del: dropWhile_eq_Nil_conv)
  have r: "r = drop 1 (dropWhile (\<lambda>c. c \<noteq> CHR ''/'') ?s1)"
    using a ne unfolding strtok_def Let_def by (simp del: dropWhile_eq_Nil_conv)
  have 1: "length (dropWhile (\<lambda>c. c \<noteq> CHR ''/'') ?s1) \<le> length ?s1"
    by (rule length_dropWhile_le)
  have 2: "length ?s1 \<le> length s" by (rule length_dropWhile_le)
  have 3: "0 < length ?s1" using ne by simp
  have "length r \<le> length (dropWhile (\<lambda>c. c \<noteq> CHR ''/'') ?s1) - 1"
    unfolding r by simp
  then show ?thesis using 1 2 3 by linarith
qed

function path_loop :: "Filesystem \<Rightarrow> int \<Rightarrow> string \<Rightarrow> int" where
  "path_loop fs ino s =
     (case strtok s of
        None \<Rightarrow> ino
      | Some (token, rest) \<Rightarrow>
          if token = ''.'' then path_loop fs ino rest
          else if token = ''..'' then path_loop fs (inode_rep_parent (inodes fs ino)) rest
          else
            let foundInode = rechInode token (directories fs ino) in
            if foundInode = -1 then -1 else path_loop fs foundInode rest)"
  by pat_completeness auto
termination
  by (relation "measure (\<lambda>(fs, ino, s). length s)") (auto dest: strtok_shorter)

declare path_loop.simps [simp del]

text \<open>The path is copied into \<^verbatim>\<open>char tempPath[1024]\<close> with \<^verbatim>\<open>strncpy(_, _, 1023)\<close>.\<close>

definition get_inode_from_path :: "Filesystem \<Rightarrow> string \<Rightarrow> int \<Rightarrow> int" where
  "get_inode_from_path fs path cur_dir =
     path_loop fs (if take 1 path \<noteq> ''/'' then cur_dir else 0) (strncpy_str 1023 path)"

subsection \<open>The image file\<close>

text \<open>
  \<^verbatim>\<open>fseek(f, pos, SEEK_SET); fread(&c, 1, 1, f)\<close>: inside the file the byte is read and
  the position advances; at or past the end nothing is read, the buffer keeps its old
  content and the position stays. The result is the buffer's byte and the position.
\<close>

definition fread_byte :: "Image \<Rightarrow> int \<Rightarrow> char \<Rightarrow> char \<times> int" where
  "fread_byte img pos old =
     (if 0 \<le> pos \<and> pos < len img then (bytes img pos, pos + 1) else (old, pos))"

text \<open>\<^verbatim>\<open>fwrite(&c, 1, 1, f)\<close> at position \<open>pos\<close>.\<close>

definition fwrite_byte :: "Image \<Rightarrow> int \<Rightarrow> char \<Rightarrow> Image" where
  "fwrite_byte img pos c = img\<lparr>bytes := (bytes img)(pos := c), len := max (len img) (pos + 1)\<rparr>"

text \<open>Writing a string and its terminating NUL byte by byte from \<open>pos\<close> on.\<close>

fun fwrite_string :: "int \<Rightarrow> string \<Rightarrow> Image \<Rightarrow> Image" where
  "fwrite_string pos [] img = fwrite_byte img pos NUL"
| "fwrite_string pos (c # cs) img = fwrite_string (pos + 1) cs (fwrite_byte img pos c)"

subsection \<open>Symbolic links\<close>

text \<open>
  The size field is set from \<^verbatim>\<open>sizeof(targetPath)\<close>, the size of the pointer
  parameter, not from the length of the string.
\<close>

definition create_symbolic_link ::
    "int \<Rightarrow> string \<Rightarrow> string \<Rightarrow> int \<Rightarrow> Filesystem \<Rightarrow> Filesystem \<times> int" where
  "create_symbolic_link now linkName targetPath parentDir fs =
     (if rechInode linkName (directories fs parentDir) \<noteq> -1 then (fs, -1)
      else if get_inode_from_path fs targetPath parentDir = -1 then (fs, -1)
      else
        let symlinkInode = first_index (\<lambda>i. size_i (inodes fs i) = -1) 0 NUM_INODES in
        if symlinkInode = -1 then (fs, -1)
        else
          let dirIndex = rechEntree fs parentDir in
          if dirIndex = -1 then (fs, -1)
          else
            let fs1 = fst (allocate_block fs);
                blockIndex = snd (allocate_block fs)
            in
            if blockIndex = -1 then (fs1, -1)
            else
              let fs2 = set_inode symlinkInode
                          ((inodes fs1 symlinkInode)
                             \<lparr>size_i := SIZEOF_CHAR_PTR + 1,
                              type_i := 2,
                              creation_time := now,
                              modification_time := now,
                              inode_rep_parent := parentDir,
                              link_count := 1,
                              permissions := strncpy_raw 3 ''rwx'',
                              blocks := (\<lambda>i. if i = 0 then blockIndex
                                             else if 0 \<le> i \<and> i < NUM_BLOCKS then -1
                                             else blocks (inodes fs1 symlinkInode) i)\<rparr>) fs1;
                  fs3 = fs2\<lparr>file_img :=
                          fwrite_string (SIZEOF_FILESYSTEM + blockIndex * BLOCK_SIZE)
                            targetPath (file_img fs2)\<rparr>
              in (set_entry parentDir dirIndex linkName symlinkInode fs3, symlinkInode))"

subsection \<open>Stream layer\<close>

definition open_file :: "string \<Rightarrow> int \<Rightarrow> Filesystem \<Rightarrow> Filesystem \<times> int" where
  "open_file fname dir_inode fs =
     (let ino = rechInode fname (directories fs dir_inode) in
      if ino = -1 then (fs, -1)
      else if type_i (inodes fs ino) \<noteq> 1 \<and> type_i (inodes fs ino) \<noteq> 2 then (fs, -1)
      else
        let desc = first_index (\<lambda>i. inode (opened_file fs i) = -1) 0 MAX_FILE_OPEN in
        if desc = -1 then (fs, -1)
        else (fs\<lparr>opened_file := (opened_file fs)
                (desc := \<lparr>inode = ino,
                          tete_lecture =
                            SIZEOF_FILESYSTEM + blocks (inodes fs ino) 0 * BLOCK_SIZE\<rparr>)\<rparr>,
              desc))"

text \<open>\<^verbatim>\<open>close_file\<close> returns nothing; the model returns the error it reports.\<close>

definition close_file :: "int \<Rightarrow> Filesystem \<Rightarrow> Filesystem \<times> error option" where
  "close_file desc fs =
     (if desc > MAX_FILE_OPEN \<or> desc < 0 \<or> inode (opened_file fs desc) = -1
      then (fs, Some InvalidDescriptor)
      else (fs\<lparr>opened_file := (opened_file fs)(desc := \<lparr>inode = -1, tete_lecture = -1\<rparr>)\<rparr>,
            None))"

text \<open>
  The search for the block of the file that holds the cursor, shared by \<^verbatim>\<open>write_file\<close>,
  \<^verbatim>\<open>read_file\<close> and \<^verbatim>\<open>seek_file\<close>.
\<close>

definition cursor_block :: "Filesystem \<Rightarrow> int \<Rightarrow> int \<Rightarrow> int" where
  "cursor_block fs ino lecteur =
     first_index
       (\<lambda>i. SIZEOF_FILESYSTEM + blocks (inodes fs ino) i * BLOCK_SIZE \<le> lecteur \<and>
            lecteur < SIZEOF_FILESYSTEM + (blocks (inodes fs ino) i + 1) * BLOCK_SIZE)
       0 NUM_BLOCKS"

text \<open>
  One byte of \<^verbatim>\<open>write_file\<close>: seek to the cursor, read the byte there into
  \<^verbatim>\<open>texte_tmp\<close>, seek back by one, count the byte as new when \<^verbatim>\<open>texte_tmp\<close> is NUL,
  write. The state of the loops is the file system, \<^verbatim>\<open>texte_tmp[0]\<close>, \<^verbatim>\<open>maj_size\<close>,
  \<^verbatim>\<open>j\<close> and \<^verbatim>\<open>lecteur\<close>.
\<close>

type_synonym write_state = "Filesystem \<times> char \<times> int \<times> int \<times> int"

definition write_byte :: "int \<Rightarrow> char \<Rightarrow> int \<Rightarrow> Filesystem \<times> char \<times> int \<Rightarrow> Filesystem \<times> char \<times> int" where
  "write_byte ino c lecteur st =
     (case st of (fs, tmp, maj) \<Rightarrow>
        let tmp1 = fst (fread_byte (file_img fs) lecteur tmp);
            pos = snd (fread_byte (file_img fs) lecteur tmp) - 1;
            fs1 = (if tmp1 = NUL
                   then set_inode ino ((inodes fs ino)\<lparr>size_i := size_i (inodes fs ino) + 1\<rparr>) fs
                   else fs);
            maj1 = (if tmp1 = NUL then maj + 1 else maj)
        in (fs1\<lparr>file_img := fwrite_byte (file_img fs1) pos c\<rparr>, tmp1, maj1))"

function write_block :: "int \<Rightarrow> string \<Rightarrow> int \<Rightarrow> int \<Rightarrow> write_state \<Rightarrow> write_state" where
  "write_block ino texte sz num_block (fs, tmp, maj, j, lecteur) =
     (if j < sz \<and> lecteur \<le> SIZEOF_FILESYSTEM + (num_block + 1) * BLOCK_SIZE
      then
        (case write_byte ino (texte ! nat j) lecteur (fs, tmp, maj) of
           (fs1, tmp1, maj1) \<Rightarrow>
             write_block ino texte sz num_block (fs1, tmp1, maj1, j + 1, lecteur + 1))
      else (fs, tmp, maj, j, lecteur))"
  by pat_completeness auto
termination
  by (relation "measure (\<lambda>(ino, texte, sz, nb, fs, tmp, maj, j, lecteur). nat (sz - j))") auto

declare write_block.simps [simp del]

definition ws_j :: "write_state \<Rightarrow> int" where
  "ws_j st = (case st of (fs, tmp, maj, j, lecteur) \<Rightarrow> j)"

lemma write_block_j_mono:
  "j \<le> ws_j (write_block ino texte sz num_block (fs, tmp, maj, j, lecteur))"
proof (induction ino texte sz num_block "(fs, tmp, maj, j, lecteur)"
    arbitrary: fs tmp maj j lecteur rule: write_block.induct)
  case (1 ino texte sz num_block fs tmp maj j lecteur)
  show ?case
  proof (cases "j < sz \<and> lecteur \<le> SIZEOF_FILESYSTEM + (num_block + 1) * BLOCK_SIZE")
    case False
    then show ?thesis by (subst write_block.simps) (auto simp add: ws_j_def)
  next
    case True
    obtain fs1 tmp1 maj1 where wb: "write_byte ino (texte ! nat j) lecteur (fs, tmp, maj) = (fs1, tmp1, maj1)"
      by (cases "write_byte ino (texte ! nat j) lecteur (fs, tmp, maj)") auto
    have "j + 1 \<le> ws_j (write_block ino texte sz num_block (fs1, tmp1, maj1, j + 1, lecteur + 1))"
      using "1.hyps" [OF True wb [symmetric] refl] .
    then show ?thesis using True wb by (subst write_block.simps) simp
  qed
qed

lemma write_block_advances:
  assumes "j < sz" "lecteur \<le> SIZEOF_FILESYSTEM + (num_block + 1) * BLOCK_SIZE"
  shows "j < ws_j (write_block ino texte sz num_block (fs, tmp, maj, j, lecteur))"
proof -
  obtain fs1 tmp1 maj1 where wb: "write_byte ino (texte ! nat j) lecteur (fs, tmp, maj) = (fs1, tmp1, maj1)"
    by (cases "write_byte ino (texte ! nat j) lecteur (fs, tmp, maj)") auto
  have "j + 1 \<le> ws_j (write_block ino texte sz num_block (fs1, tmp1, maj1, j + 1, lecteur + 1))"
    by (rule write_block_j_mono)
  then show ?thesis using assms wb by (subst write_block.simps) simp
qed

text \<open>
  The second loop of \<^verbatim>\<open>write_file\<close>: step to the next entry of the block list,
  allocate a block when the entry is \<open>-1\<close>, stop when none is free, otherwise
  continue writing from the start of that block.
\<close>

function write_blocks :: "int \<Rightarrow> string \<Rightarrow> int \<Rightarrow> write_state \<Rightarrow> int \<Rightarrow> write_state" where
  "write_blocks ino texte sz (fs, tmp, maj, j, lecteur) block_index =
     (if j < sz
      then
        let bi = block_index + 1;
            nb0 = blocks (inodes fs ino) bi;
            nb = (if nb0 = -1 then snd (allocate_block fs) else nb0);
            fs1 = (if nb0 = -1
                   then (let fsa = fst (allocate_block fs)
                         in set_inode ino
                              ((inodes fsa ino)\<lparr>blocks := (blocks (inodes fsa ino))(bi := nb)\<rparr>) fsa)
                   else fs)
        in
        if nb = -1 then (fs1, tmp, maj, j, lecteur)
        else write_blocks ino texte sz
               (write_block ino texte sz nb
                  (fs1, tmp, maj, j, SIZEOF_FILESYSTEM + nb * BLOCK_SIZE))
               bi
      else (fs, tmp, maj, j, lecteur))"
  by pat_completeness auto
termination
proof (relation "measure (\<lambda>(ino, texte, sz, st, bi). nat (sz - ws_j st))", goal_cases)
  case 1
  show ?case by simp
next
  case (2 ino texte sz fs tmp maj j lecteur block_index bi nb0 nb fs1)
  have "j < ws_j (write_block ino texte sz nb
                    (fs1, tmp, maj, j, SIZEOF_FILESYSTEM + nb * BLOCK_SIZE))"
    using 2(1) by (intro write_block_advances) auto
  then show ?case using 2(1) by (simp add: ws_j_def)
qed

declare write_blocks.simps [simp del]

text \<open>
  The last loop of \<^verbatim>\<open>write_file\<close> adds \<^verbatim>\<open>maj_size\<close> to the size of every inode
  reached through \<^verbatim>\<open>inode_rep_parent\<close> until inode 0. It does not end when the chain
  never reaches 0; \<open>None\<close> is that case.
\<close>

partial_function (option) update_parents :: "int \<Rightarrow> int \<Rightarrow> Filesystem \<Rightarrow> Filesystem option" where
  "update_parents maj_size id_rep_parent fs =
     (if id_rep_parent \<noteq> 0
      then update_parents maj_size (inode_rep_parent (inodes fs id_rep_parent))
             (set_inode (inode_rep_parent (inodes fs id_rep_parent))
                ((inodes fs (inode_rep_parent (inodes fs id_rep_parent)))
                   \<lparr>size_i := size_i (inodes fs (inode_rep_parent (inodes fs id_rep_parent)))
                                + maj_size\<rparr>) fs)
      else Some fs)"

definition write_file ::
    "int \<Rightarrow> string \<Rightarrow> int \<Rightarrow> Filesystem \<Rightarrow> (Filesystem \<times> int) option" where
  "write_file desc texte sz fs =
     (if desc > MAX_FILE_OPEN \<or> desc < 0 \<or> inode (opened_file fs desc) = -1
      then Some (fs, -1)
      else if sz < 0 then Some (fs, -1)
      else if has_permission fs (inode (opened_file fs desc)) (CHR ''w'') = 0
      then Some (fs, -1)
      else if type_i (inodes fs (inode (opened_file fs desc))) \<noteq> 1 then Some (fs, -1)
      else
        let lecteur = tete_lecture (opened_file fs desc);
            ino = inode (opened_file fs desc);
            block_index = cursor_block fs ino lecteur
        in
        if block_index = -1 then Some (fs, -1)
        else
          (case write_blocks ino texte sz
                  (write_block ino texte sz (blocks (inodes fs ino) block_index)
                     (fs, NUL, 0, 0, lecteur))
                  block_index of
             (fs2, tmp2, maj_size, j2, lecteur2) \<Rightarrow>
               (case update_parents maj_size ino fs2 of
                  None \<Rightarrow> None
                | Some fs3 \<Rightarrow>
                    Some (fs3\<lparr>opened_file := (opened_file fs3)
                            (desc := (opened_file fs3 desc)\<lparr>tete_lecture := lecteur2\<rparr>)\<rparr>,
                          maj_size))))"

text \<open>
  \<^verbatim>\<open>read_file\<close>. The buffer is the caller's array \<^verbatim>\<open>texte\<close>; a byte read at or past
  the end of the image leaves the element as it was. The state of the loops is the
  buffer, \<^verbatim>\<open>j\<close> and \<^verbatim>\<open>lecteur\<close>. The second loop stops with \<^verbatim>\<open>stop = 1\<close> and an
  error message when the next entry of the block list is \<open>-1\<close>; its result carries that
  flag, and \<^verbatim>\<open>read_file\<close> then reports \<open>EndOfFile\<close>, after the buffer and the cursor
  have been updated.
\<close>

type_synonym read_state = "string \<times> int \<times> int"

definition rs_j :: "read_state \<Rightarrow> int" where
  "rs_j st = (case st of (texte, j, lecteur) \<Rightarrow> j)"

function read_block :: "Image \<Rightarrow> int \<Rightarrow> int \<Rightarrow> read_state \<Rightarrow> read_state" where
  "read_block img sz num_block (texte, j, lecteur) =
     (if j < sz \<and> lecteur \<le> SIZEOF_FILESYSTEM + (num_block + 1) * BLOCK_SIZE
      then read_block img sz num_block
             (texte[nat j := fst (fread_byte img lecteur (texte ! nat j))], j + 1, lecteur + 1)
      else (texte, j, lecteur))"
  by pat_completeness auto
termination
  by (relation "measure (\<lambda>(img, sz, nb, texte, j, lecteur). nat (sz - j))") auto

declare read_block.simps [simp del]

lemma read_block_j_mono: "j \<le> rs_j (read_block img sz num_block (texte, j, lecteur))"
proof (induction img sz num_block "(texte, j, lecteur)"
    arbitrary: texte j lecteur rule: read_block.induct)
  case (1 img sz num_block texte j lecteur)
  show ?case
  proof (cases "j < sz \<and> lecteur \<le> SIZEOF_FILESYSTEM + (num_block + 1) * BLOCK_SIZE")
    case False
    then show ?thesis by (subst read_block.simps) (auto simp add: rs_j_def)
  next
    case True
    have "j + 1 \<le> rs_j (read_block img sz num_block
        (texte[nat j := fst (fread_byte img lecteur (texte ! nat j))], j + 1, lecteur + 1))"
      using "1.hyps" [OF True] .
    then show ?thesis using True by (subst read_block.simps) simp
  qed
qed

lemma read_block_advances:
  assumes "j < sz" "lecteur \<le> SIZEOF_FILESYSTEM + (num_block + 1) * BLOCK_SIZE"
  shows "j < rs_j (read_block img sz num_block (texte, j, lecteur))"
proof -
  have "j + 1 \<le> rs_j (read_block img sz num_block
      (texte[nat j := fst (fread_byte img lecteur (texte ! nat j))], j + 1, lecteur + 1))"
    by (rule read_block_j_mono)
  then show ?thesis using assms by (subst read_block.simps) simp
qed

function read_blocks ::
    "Image \<Rightarrow> (int \<Rightarrow> int) \<Rightarrow> int \<Rightarrow> read_state \<Rightarrow> int \<Rightarrow> read_state \<times> bool" where
  "read_blocks img blks sz (texte, j, lecteur) block_index =
     (if j < sz
      then
        let bi = block_index + 1;
            nb = blks bi
        in
        if nb = -1 then ((texte, j, lecteur), True)
        else read_blocks img blks sz
               (read_block img sz nb (texte, j, SIZEOF_FILESYSTEM + nb * BLOCK_SIZE)) bi
      else ((texte, j, lecteur), False))"
  by pat_completeness auto
termination
proof (relation "measure (\<lambda>(img, blks, sz, st, bi). nat (sz - rs_j st))", goal_cases)
  case 1
  show ?case by simp
next
  case (2 img blks sz texte j lecteur block_index bi nb)
  have "j < rs_j (read_block img sz nb (texte, j, SIZEOF_FILESYSTEM + nb * BLOCK_SIZE))"
    using 2(1) by (intro read_block_advances) auto
  then show ?case using 2(1) by (simp add: rs_j_def)
qed

declare read_blocks.simps [simp del]

definition read_file ::
    "int \<Rightarrow> string \<Rightarrow> int \<Rightarrow> Filesystem \<Rightarrow> Filesystem \<times> string \<times> error option" where
  "read_file desc texte sz fs =
     (if desc > MAX_FILE_OPEN \<or> desc < 0 \<or> inode (opened_file fs desc) = -1
      then (fs, texte, Some InvalidDescriptor)
      else if sz < 0 then (fs, texte, Some InvalidArgument)
      else if type_i (inodes fs (inode (opened_file fs desc))) \<noteq> 1 \<and>
              type_i (inodes fs (inode (opened_file fs desc))) \<noteq> 2
      then (fs, texte, Some WrongType)
      else if has_permission fs (inode (opened_file fs desc)) (CHR ''r'') = 0
      then (fs, texte, Some PermissionDenied)
      else
        let ino = inode (opened_file fs desc);
            lecteur = tete_lecture (opened_file fs desc);
            block_index = cursor_block fs ino lecteur;
            r = (if block_index = -1 then ((texte, 0, lecteur), False)
                 else read_blocks (file_img fs) (blocks (inodes fs ino)) sz
                        (read_block (file_img fs) sz (blocks (inodes fs ino) block_index)
                           (texte, 0, lecteur))
                        block_index);
            st = fst r
        in (fs\<lparr>opened_file := (opened_file fs)
                 (desc := (opened_file fs desc)\<lparr>tete_lecture := snd (snd st)\<rparr>)\<rparr>,
            (fst st)[nat sz := NUL],
            if block_index = -1 then Some OutOfFile
            else if snd r then Some EndOfFile else None))"

text \<open>
  \<^verbatim>\<open>seek_file\<close>. The three branches share their loops: the inner one advances the
  cursor inside a block, the outer one restarts at the start of the block at
  \<^verbatim>\<open>block_index\<close> and steps to the next entry. The state is \<^verbatim>\<open>j\<close> and \<^verbatim>\<open>lecteur\<close>.
\<close>

function seek_block :: "int \<Rightarrow> int \<Rightarrow> int \<times> int \<Rightarrow> int \<times> int" where
  "seek_block off num_block (j, lecteur) =
     (if j < off \<and> lecteur \<le> SIZEOF_FILESYSTEM + (num_block + 1) * BLOCK_SIZE
      then seek_block off num_block (j + 1, lecteur + 1)
      else (j, lecteur))"
  by pat_completeness auto
termination
  by (relation "measure (\<lambda>(off, nb, j, lecteur). nat (off - j))") auto

declare seek_block.simps [simp del]

lemma seek_block_j_mono: "j \<le> fst (seek_block off num_block (j, lecteur))"
proof (induction off num_block "(j, lecteur)" arbitrary: j lecteur rule: seek_block.induct)
  case (1 off num_block j lecteur)
  show ?case
  proof (cases "j < off \<and> lecteur \<le> SIZEOF_FILESYSTEM + (num_block + 1) * BLOCK_SIZE")
    case False
    then show ?thesis by (subst seek_block.simps) auto
  next
    case True
    have "j + 1 \<le> fst (seek_block off num_block (j + 1, lecteur + 1))"
      using "1.hyps" [OF True] .
    then show ?thesis using True by (subst seek_block.simps) simp
  qed
qed

lemma seek_block_advances:
  assumes "j < off" "lecteur \<le> SIZEOF_FILESYSTEM + (num_block + 1) * BLOCK_SIZE"
  shows "j < fst (seek_block off num_block (j, lecteur))"
proof -
  have "j + 1 \<le> fst (seek_block off num_block (j + 1, lecteur + 1))"
    by (rule seek_block_j_mono)
  then show ?thesis using assms by (subst seek_block.simps) simp
qed

text \<open>The result's last component says whether the loop stopped outside the file.\<close>

function seek_blocks :: "(int \<Rightarrow> int) \<Rightarrow> int \<Rightarrow> int \<times> int \<Rightarrow> int \<Rightarrow> int \<times> int \<times> bool" where
  "seek_blocks blks off (j, lecteur) block_index =
     (if j < off
      then
        let nb = blks block_index in
        if nb = -1 then (j, lecteur, True)
        else seek_blocks blks off
               (seek_block off nb (j, SIZEOF_FILESYSTEM + nb * BLOCK_SIZE)) (block_index + 1)
      else (j, lecteur, False))"
  by pat_completeness auto
termination
proof (relation "measure (\<lambda>(blks, off, st, bi). nat (off - fst st))", goal_cases)
  case 1
  show ?case by simp
next
  case (2 blks off j lecteur block_index nb)
  have "j < fst (seek_block off nb (j, SIZEOF_FILESYSTEM + nb * BLOCK_SIZE))"
    using 2(1) by (intro seek_block_advances) auto
  then show ?case using 2(1) by simp
qed

declare seek_blocks.simps [simp del]

definition seek_file ::
    "int \<Rightarrow> int \<Rightarrow> int \<Rightarrow> Filesystem \<Rightarrow> Filesystem \<times> error option" where
  "seek_file desc offset whence fs =
     (if desc > MAX_FILE_OPEN \<or> desc < 0 \<or> inode (opened_file fs desc) = -1
      then (fs, Some InvalidDescriptor)
      else if offset < 0 then (fs, Some InvalidArgument)
      else
        let ino = inode (opened_file fs desc);
            blks = blocks (inodes fs ino);
            start = SIZEOF_FILESYSTEM + blks 0 * BLOCK_SIZE;
            lecteur = tete_lecture (opened_file fs desc)
        in
        if whence = 0 then
          (let r = seek_blocks blks offset (0, start) 0
           in (fs\<lparr>opened_file := (opened_file fs)
                    (desc := (opened_file fs desc)\<lparr>tete_lecture := fst (snd r)\<rparr>)\<rparr>,
               if snd (snd r) then Some OutOfFile else None))
        else if whence = 2 then
          (let r = seek_blocks blks offset (0, lecteur) (cursor_block fs ino lecteur)
           in (fs\<lparr>opened_file := (opened_file fs)
                    (desc := (opened_file fs desc)\<lparr>tete_lecture := fst (snd r)\<rparr>)\<rparr>,
               if snd (snd r) then Some OutOfFile else None))
        else if whence = 1 then
          (let r = seek_blocks blks (size_i (inodes fs ino) - offset) (0, start) 0
           in (fs\<lparr>opened_file := (opened_file fs)
                    (desc := (opened_file fs desc)\<lparr>tete_lecture := fst (snd r)\<rparr>)\<rparr>,
               if snd (snd r) then Some OutOfFile else None))
        else (fs, Some InvalidArgument))"

subsection \<open>Copying\<close>

text \<open>
  \<^verbatim>\<open>copy_file\<close> creates the new file, sets its size to the size of the source, and
  copies through the stream layer: it opens both files, reads the source into the array
  \<^verbatim>\<open>content\<close> and writes the array to the new file, ignoring what these calls return.
  The array is declared with the size of the source and not initialised; \<open>uninit\<close>
  gives the bytes such an array holds, by its size. The permission field of the source
  is passed to \<^verbatim>\<open>create_file\<close> as a C string. The result is \<open>None\<close> when
  \<^verbatim>\<open>write_file\<close> does not return.
\<close>

definition copy_file ::
    "int \<Rightarrow> (int \<Rightarrow> string) \<Rightarrow> string \<Rightarrow> string \<Rightarrow> int \<Rightarrow> int \<Rightarrow> Filesystem
       \<Rightarrow> (Filesystem \<times> int) option" where
  "copy_file now uninit fname newname inode_dir_source inode_dir_target fs =
     (let source_inode_index = rechInode fname (directories fs inode_dir_source) in
      if source_inode_index = -1 then Some (fs, -1)
      else if has_permission fs source_inode_index (CHR ''r'') = 0 then Some (fs, -1)
      else if has_permission fs inode_dir_target (CHR ''w'') = 0 then Some (fs, -1)
      else if rechInode newname (directories fs inode_dir_target) \<noteq> -1 then Some (fs, -1)
      else
        let c = create_file now newname
                  (takeWhile (\<lambda>x. x \<noteq> NUL) (permissions (inodes fs source_inode_index)))
                  inode_dir_target fs;
            fs1 = fst c;
            new_inode_index = snd c
        in
        if new_inode_index = -1 then Some (fs1, -1)
        else
          let fs2 = set_inode new_inode_index
                      ((inodes fs1 new_inode_index)
                         \<lparr>size_i := size_i (inodes fs1 source_inode_index)\<rparr>) fs1;
              content = uninit (size_i (inodes fs2 new_inode_index));
              o1 = open_file newname inode_dir_target fs2;
              fd1 = snd o1;
              o2 = open_file fname inode_dir_source (fst o1);
              fd2 = snd o2;
              r = read_file fd2 content (size_i (inodes (fst o2) new_inode_index)) (fst o2)
          in
          case write_file fd1 (fst (snd r)) (size_i (inodes (fst r) new_inode_index)) (fst r) of
            None \<Rightarrow> None
          | Some (fs3, n) \<Rightarrow>
              Some (fst (close_file fd2 (fst (close_file fd1 fs3))), new_inode_index))"

text \<open>
  \<^verbatim>\<open>copy_directory\<close> creates the new directory and copies every entry of the source
  into it, files and links with \<^verbatim>\<open>copy_file\<close> and subdirectories with a call of
  itself, ignoring what these calls return. As for \<^verbatim>\<open>delete_directory\<close>, the model
  takes a bound on the recursion depth and reads the entries of the source afresh at
  each index.
\<close>

fun copy_directory ::
    "nat \<Rightarrow> int \<Rightarrow> (int \<Rightarrow> string) \<Rightarrow> string \<Rightarrow> string \<Rightarrow> int \<Rightarrow> int \<Rightarrow> Filesystem
       \<Rightarrow> (Filesystem \<times> int) option"
  and copy_children ::
    "nat \<Rightarrow> int \<Rightarrow> (int \<Rightarrow> string) \<Rightarrow> int \<Rightarrow> int \<Rightarrow> nat list \<Rightarrow> Filesystem
       \<Rightarrow> Filesystem option"
where
  "copy_directory 0 now uninit srcDirName newname srcParentDir dstParentDir fs = None"
| "copy_directory (Suc n) now uninit srcDirName newname srcParentDir dstParentDir fs =
     (let srcDirInode = rechInode srcDirName (directories fs srcParentDir) in
      if srcDirInode = -1 then Some (fs, -1)
      else if type_i (inodes fs srcDirInode) \<noteq> 0 then Some (fs, -1)
      else if has_permission fs srcDirInode (CHR ''r'') = 0 then Some (fs, -1)
      else if rechInode newname (directories fs dstParentDir) \<noteq> -1 then Some (fs, -1)
      else if has_permission fs dstParentDir (CHR ''w'') = 0 then Some (fs, -1)
      else
        let c = create_directory now newname dstParentDir fs;
            newDirInode = snd c
        in
        if newDirInode = -1 then Some (fst c, -1)
        else
          case copy_children n now uninit srcDirInode newDirInode
                 [0 ..< nat NUM_DIRECTORY_ENTRIES] (fst c) of
            None \<Rightarrow> None
          | Some fs1 \<Rightarrow> Some (fs1, newDirInode))"
| "copy_children n now uninit srcDirInode newDirInode [] fs = Some fs"
| "copy_children n now uninit srcDirInode newDirInode (i # rest) fs =
     (let childInode = inode_index (entries (directories fs srcDirInode) (int i)) in
      if childInode \<noteq> -1
      then
        let childName = filename (entries (directories fs srcDirInode) (int i));
            childType = type_i (inodes fs childInode)
        in
        case (if childType = 1 \<or> childType = 2
              then map_option fst
                     (copy_file now uninit childName childName srcDirInode newDirInode fs)
              else if childType = 0
              then map_option fst
                     (copy_directory n now uninit childName childName srcDirInode newDirInode fs)
              else Some fs) of
          None \<Rightarrow> None
        | Some fs1 \<Rightarrow> copy_children n now uninit srcDirInode newDirInode rest fs1
      else copy_children n now uninit srcDirInode newDirInode rest fs)"

subsection \<open>The path resolver as the specification describes it\<close>

text \<open>
  The specification's resolver, for comparison with \<open>get_inode_from_path\<close>: the path
  is cut at every slash, empty pieces are dropped, and the components are followed one
  by one from the starting inode. \<open>None\<close> is the failure not-found.
\<close>

fun split_slash :: "string \<Rightarrow> string list" where
  "split_slash [] = [[]]"
| "split_slash (c # cs) =
     (if c = CHR ''/'' then [] # split_slash cs
      else (case split_slash cs of [] \<Rightarrow> [[c]] | t # ts \<Rightarrow> (c # t) # ts))"

definition path_components :: "string \<Rightarrow> string list" where
  "path_components p = filter (\<lambda>t. t \<noteq> []) (split_slash p)"

fun resolve :: "Filesystem \<Rightarrow> int \<Rightarrow> string list \<Rightarrow> int option" where
  "resolve fs cur [] = Some cur"
| "resolve fs cur (t # ts) =
     (if t = ''.'' then resolve fs cur ts
      else if t = ''..'' then resolve fs (inode_rep_parent (inodes fs cur)) ts
      else if rechInode t (directories fs cur) = -1 then None
      else resolve fs (rechInode t (directories fs cur)) ts)"

definition resolve_path :: "Filesystem \<Rightarrow> string \<Rightarrow> int \<Rightarrow> int option" where
  "resolve_path fs p s = resolve fs (if take 1 p = ''/'' then 0 else s) (path_components p)"

subsection \<open>A closed form for a run of the write loop\<close>

text \<open>
  The state after \<open>k\<close> bytes of \<open>texte\<close>, from index \<open>j\<close> on, have been stored at the
  positions from \<open>l\<close> on and each was counted as new.
\<close>

definition stored :: "int \<Rightarrow> string \<Rightarrow> int \<Rightarrow> int \<Rightarrow> nat \<Rightarrow> Filesystem \<Rightarrow> Filesystem" where
  "stored ino texte j l k fs =
     fs\<lparr>file_img := (file_img fs)
          \<lparr>bytes := (\<lambda>p. if l \<le> p \<and> p < l + int k then texte ! nat (j + (p - l))
                        else bytes (file_img fs) p)\<rparr>,
        inodes := (inodes fs)
          (ino := (inodes fs ino)\<lparr>size_i := size_i (inodes fs ino) + int k\<rparr>)\<rparr>"

subsection \<open>Counting the zero bytes under a write\<close>

text \<open>
  The number of zero bytes among \<open>k\<close> positions of the image from \<open>l\<close> on; the state
  after \<open>k\<close> bytes of \<open>texte\<close> have been stored there and the file's size has grown by
  that number; and the list of the inodes that the last loop of \<^verbatim>\<open>write_file\<close> visits
  from an inode up to inode 0.
\<close>

fun zero_bytes :: "(int \<Rightarrow> char) \<Rightarrow> int \<Rightarrow> nat \<Rightarrow> int" where
  "zero_bytes bs l 0 = 0"
| "zero_bytes bs l (Suc k) = (if bs l = NUL then 1 else 0) + zero_bytes bs (l + 1) k"

definition overwritten :: "int \<Rightarrow> string \<Rightarrow> int \<Rightarrow> int \<Rightarrow> nat \<Rightarrow> Filesystem \<Rightarrow> Filesystem" where
  "overwritten ino texte j l k fs =
     fs\<lparr>file_img := (file_img fs)
          \<lparr>bytes := (\<lambda>p. if l \<le> p \<and> p < l + int k then texte ! nat (j + (p - l))
                        else bytes (file_img fs) p)\<rparr>,
        inodes := (inodes fs)
          (ino := (inodes fs ino)
             \<lparr>size_i := size_i (inodes fs ino) + zero_bytes (bytes (file_img fs)) l k\<rparr>)\<rparr>"

fun parent_chain :: "Filesystem \<Rightarrow> int \<Rightarrow> int list \<Rightarrow> bool" where
  "parent_chain fs i [] = (i = 0)"
| "parent_chain fs i (d # ds) =
     (i \<noteq> 0 \<and> inode_rep_parent (inodes fs i) = d \<and> parent_chain fs d ds)"

subsection \<open>Sample states\<close>

text \<open>
  The image after \<^verbatim>\<open>init_filesystem\<close>, with all descriptors free, and the same image
  after \<^verbatim>\<open>touch a\<close> in the root directory.
\<close>

definition free_inode :: Inode where
  "free_inode =
     \<lparr>type_i = -1, size_i = -1, creation_time = 0, modification_time = 0,
      permissions = [NUL, NUL, NUL], blocks = (\<lambda>i. -1), link_count = 0,
      inode_rep_parent = -1\<rparr>"

definition root_inode :: Inode where
  "root_inode =
     \<lparr>type_i = 0, size_i = 0, creation_time = 0, modification_time = 0,
      permissions = ''rwx'', blocks = (\<lambda>i. -1), link_count = 0, inode_rep_parent = 0\<rparr>"

definition empty_directory :: Directory where
  "empty_directory = \<lparr>entries = (\<lambda>i. \<lparr>filename = [], inode_index = -1\<rparr>)\<rparr>"

text \<open>
  The directory records after \<^verbatim>\<open>init_filesystem\<close>. Its loop clears the entries of every
  record from index 1 on, and only the root record is then assigned a record with all
  256 entries cleared: entry 0 of the other records keeps the zero bytes of the global,
  an empty name and the inode index 0.
\<close>

definition formatted_directory :: "int \<Rightarrow> Directory" where
  "formatted_directory i =
     (if i = 0 then empty_directory
      else \<lparr>entries = (\<lambda>j. \<lparr>filename = [], inode_index = -1\<rparr>)
                         (0 := \<lparr>filename = [], inode_index = 0\<rparr>)\<rparr>)"

definition blank_image :: Image where
  "blank_image = \<lparr>bytes = (\<lambda>p. NUL), len = SIZEOF_FILESYSTEM + NUM_BLOCKS * BLOCK_SIZE\<rparr>"

definition fs_formatted :: Filesystem where
  "fs_formatted =
     \<lparr>file_img = blank_image,
      inodes = (\<lambda>i. free_inode)(0 := root_inode),
      directories = formatted_directory,
      free_blocks = (\<lambda>i. 0),
      current_dir = 0,
      opened_file = (\<lambda>i. \<lparr>inode = -1, tete_lecture = -1\<rparr>)\<rparr>"

definition fs_one_file :: Filesystem where
  "fs_one_file =
     \<lparr>file_img = blank_image,
      inodes = (\<lambda>i. free_inode)
        (0 := root_inode,
         1 := \<lparr>type_i = 1, size_i = 0, creation_time = 0, modification_time = 0,
               permissions = ''rw-'', blocks = (\<lambda>i. -1)(0 := 0), link_count = 0,
               inode_rep_parent = 0\<rparr>),
      directories = formatted_directory
        (0 := \<lparr>entries = (\<lambda>i. \<lparr>filename = [], inode_index = -1\<rparr>)
                  (0 := \<lparr>filename = ''a'', inode_index = 1\<rparr>)\<rparr>),
      free_blocks = (\<lambda>i. 0)(0 := 1),
      current_dir = 0,
      opened_file = (\<lambda>i. \<lparr>inode = -1, tete_lecture = -1\<rparr>)\<rparr>"

text \<open>The formatted image with a root directory that is not writable.\<close>

definition fs_readonly_root :: Filesystem where
  "fs_readonly_root =
     fs_formatted\<lparr>inodes := (inodes fs_formatted)(0 := root_inode\<lparr>permissions := ''r-x''\<rparr>)\<rparr>"

text \<open>The formatted image with every block marked allocated.\<close>

definition fs_full :: Filesystem where
  "fs_full = fs_formatted\<lparr>free_blocks := (\<lambda>i. 1)\<rparr>"

text \<open>The image with the file \<open>a\<close> after \<^verbatim>\<open>ln a b /\<close>, and then after \<^verbatim>\<open>rm a\<close>.\<close>

definition fs_linked :: Filesystem where
  "fs_linked = fst (create_hard_link ''b'' ''a'' 0 0 fs_one_file)"

definition fs_unlinked :: Filesystem where
  "fs_unlinked = fst (delete_file 0 ''a'' 0 fs_linked)"

text \<open>
  The formatted image after \<^verbatim>\<open>mkdir d; cd d; mkdir e; chmod e r-x\<close>, and then after
  \<^verbatim>\<open>remdir d\<close> from the root directory.
\<close>

definition fs_nested :: Filesystem where
  "fs_nested =
     fst (change_permissions 0 ''e'' ''r-x'' 1
            (fst (create_directory 0 ''e'' 1
                    (fst (create_directory 0 ''d'' 0 fs_formatted)))))"

definition fs_removed :: Filesystem where
  "fs_removed = fst (the (delete_directory (Suc (Suc 0)) 0 ''d'' 0 fs_nested))"

text \<open>The image with the file \<open>a\<close> after \<^verbatim>\<open>sym a l\<close> in the root directory.\<close>

definition fs_symlink :: Filesystem where
  "fs_symlink = fst (create_symbolic_link 0 ''l'' ''a'' 0 fs_one_file)"

text \<open>
  The image with the empty file \<open>a\<close> opened, then after 514 bytes are written through
  the descriptor, after the cursor is moved back to the start, and the buffer that 514
  bytes are then read into.
\<close>

definition fs_open :: Filesystem where
  "fs_open = fst (open_file ''a'' 0 fs_one_file)"

definition bytes_514 :: string where
  "bytes_514 = replicate 512 (CHR ''a'') @ ''bc''"

definition fs_written :: Filesystem where
  "fs_written = fst (the (write_file 0 bytes_514 514 fs_open))"

definition fs_rewound :: Filesystem where
  "fs_rewound = fst (seek_file 0 0 0 fs_written)"

definition buffer_read :: string where
  "buffer_read = fst (snd (read_file 0 (replicate 515 NUL) 514 fs_rewound))"

text \<open>The states of that write after its first loop, after block 1 is allocated, and after its second loop.\<close>

definition fs_w1 :: Filesystem where
  "fs_w1 = stored 1 bytes_514 0 SIZEOF_FILESYSTEM 513 fs_open"

definition fs_w2 :: Filesystem where
  "fs_w2 =
     set_inode 1
       ((inodes (fst (allocate_block fs_w1)) 1)
          \<lparr>blocks := (blocks (inodes (fst (allocate_block fs_w1)) 1))(1 := 1)\<rparr>)
       (fst (allocate_block fs_w1))"

definition fs_w3 :: Filesystem where
  "fs_w3 =
     fs_w2\<lparr>file_img := (file_img fs_w2)
              \<lparr>bytes := (bytes (file_img fs_w2))(SIZEOF_FILESYSTEM + 512 := CHR ''c'')\<rparr>\<rparr>"

text \<open>
  An image on which a first file \<open>big\<close> holds blocks 0 to 1022 and the bytes \<open>x\<close> up to
  the first byte of block 1022, and the new file \<open>a\<close> holds the last block, 1023, which
  is blank; then \<open>a\<close> opened, and after 513 bytes are written to it.
\<close>

definition fs_last_block :: Filesystem where
  "fs_last_block =
     \<lparr>file_img =
        \<lparr>bytes = (\<lambda>p. if SIZEOF_FILESYSTEM \<le> p \<and> p \<le> SIZEOF_FILESYSTEM + 1022 * BLOCK_SIZE
                        then CHR ''x'' else NUL),
         len = SIZEOF_FILESYSTEM + NUM_BLOCKS * BLOCK_SIZE\<rparr>,
      inodes = (\<lambda>i. free_inode)
        (0 := root_inode\<lparr>size_i := 523265\<rparr>,
         1 := \<lparr>type_i = 1, size_i = 523265, creation_time = 0, modification_time = 0,
               permissions = ''rw-'',
               blocks = (\<lambda>i. if 0 \<le> i \<and> i < 1023 then i else -1), link_count = 0,
               inode_rep_parent = 0\<rparr>,
         2 := \<lparr>type_i = 1, size_i = 0, creation_time = 0, modification_time = 0,
               permissions = ''rw-'', blocks = (\<lambda>i. -1)(0 := 1023), link_count = 0,
               inode_rep_parent = 0\<rparr>),
      directories = formatted_directory
        (0 := \<lparr>entries = (\<lambda>i. \<lparr>filename = [], inode_index = -1\<rparr>)
                  (0 := \<lparr>filename = ''big'', inode_index = 1\<rparr>,
                   1 := \<lparr>filename = ''a'', inode_index = 2\<rparr>)\<rparr>),
      free_blocks = (\<lambda>i. 1),
      current_dir = 0,
      opened_file = (\<lambda>i. \<lparr>inode = -1, tete_lecture = -1\<rparr>)\<rparr>"

definition fs_last_open :: Filesystem where
  "fs_last_open = fst (open_file ''a'' 0 fs_last_block)"

definition fs_last_written :: Filesystem where
  "fs_last_written = fst (the (write_file 0 (replicate 513 (CHR ''a'')) 513 fs_last_open))"

text \<open>The two intermediate states of that write: after 512 bytes, and after the last one.\<close>

definition fs_l1 :: Filesystem where
  "fs_l1 =
     stored 2 (replicate 513 (CHR ''a'')) 0 (SIZEOF_FILESYSTEM + 1023 * BLOCK_SIZE) 512
       fs_last_open"

definition fs_l2 :: Filesystem where
  "fs_l2 =
     fs_l1\<lparr>file_img := (file_img fs_l1)
              \<lparr>bytes := (bytes (file_img fs_l1))
                 (SIZEOF_FILESYSTEM + NUM_BLOCKS * BLOCK_SIZE - 1 := CHR ''a'')\<rparr>,
           inodes := (inodes fs_l1)
             (2 := (inodes fs_l1 2)\<lparr>size_i := size_i (inodes fs_l1 2) + 1\<rparr>)\<rparr>"

section \<open>Properties\<close>

subsection \<open>The search loops\<close>

lemma first_index_stop: "\<not> i < n \<Longrightarrow> first_index P i n = -1"
  by (subst first_index.simps) simp

lemma first_index_here: "i < n \<Longrightarrow> P i \<Longrightarrow> first_index P i n = i"
  by (subst first_index.simps) simp

lemma first_index_skip: "i < n \<Longrightarrow> \<not> P i \<Longrightarrow> first_index P i n = first_index P (i + 1) n"
  by (subst first_index.simps) simp

lemma first_index_cases:
  "0 \<le> i \<Longrightarrow>
   (first_index P i n = -1 \<and> (\<forall>j. i \<le> j \<and> j < n \<longrightarrow> \<not> P j)) \<or>
   (i \<le> first_index P i n \<and> first_index P i n < n \<and> P (first_index P i n) \<and>
      (\<forall>j. i \<le> j \<and> j < first_index P i n \<longrightarrow> \<not> P j))"
proof (induction P i n rule: first_index.induct)
  case (1 P i n)
  show ?case
  proof (cases "i < n")
    case False
    then show ?thesis by (auto simp add: first_index_stop)
  next
    case True
    show ?thesis
    proof (cases "P i")
      case True
      with \<open>i < n\<close> show ?thesis by (auto simp add: first_index_here)
    next
      case False
      have step: "first_index P i n = first_index P (i + 1) n"
        using \<open>i < n\<close> False by (rule first_index_skip)
      have ih: "(first_index P (i + 1) n = -1 \<and> (\<forall>j. i + 1 \<le> j \<and> j < n \<longrightarrow> \<not> P j)) \<or>
         (i + 1 \<le> first_index P (i + 1) n \<and> first_index P (i + 1) n < n \<and>
          P (first_index P (i + 1) n) \<and>
          (\<forall>j. i + 1 \<le> j \<and> j < first_index P (i + 1) n \<longrightarrow> \<not> P j))"
        using "1.IH" [OF \<open>i < n\<close> False] "1.prems" by simp
      have all: "\<not> P j" if "\<forall>j. i + 1 \<le> j \<and> j < m \<longrightarrow> \<not> P j" "i \<le> j" "j < m" for j m
      proof (cases "j = i")
        case True then show ?thesis using False by simp
      next
        case False then show ?thesis using that by auto
      qed
      from ih show ?thesis
      proof
        assume a: "first_index P (i + 1) n = -1 \<and> (\<forall>j. i + 1 \<le> j \<and> j < n \<longrightarrow> \<not> P j)"
        then have "\<forall>j. i \<le> j \<and> j < n \<longrightarrow> \<not> P j" using all by blast
        with a show ?thesis unfolding step by blast
      next
        assume a: "i + 1 \<le> first_index P (i + 1) n \<and> first_index P (i + 1) n < n \<and>
          P (first_index P (i + 1) n) \<and>
          (\<forall>j. i + 1 \<le> j \<and> j < first_index P (i + 1) n \<longrightarrow> \<not> P j)"
        then have "\<forall>j. i \<le> j \<and> j < first_index P (i + 1) n \<longrightarrow> \<not> P j" using all by blast
        moreover have "i \<le> first_index P (i + 1) n" using a by linarith
        ultimately show ?thesis unfolding step using a by blast
      qed
    qed
  qed
qed

lemma first_index_none:
  "0 \<le> i \<Longrightarrow> (first_index P i n = -1) = (\<forall>j. i \<le> j \<and> j < n \<longrightarrow> \<not> P j)"
  using first_index_cases [of i P n] by auto

lemma first_index_hit:
  "0 \<le> i \<Longrightarrow> first_index P i n \<noteq> -1 \<Longrightarrow>
     i \<le> first_index P i n \<and> first_index P i n < n \<and> P (first_index P i n)"
  using first_index_cases [of i P n] by auto

lemma first_index_least:
  "0 \<le> i \<Longrightarrow> i \<le> j \<Longrightarrow> j < first_index P i n \<Longrightarrow> \<not> P j"
  using first_index_cases [of i P n] by auto

lemma first_index_found:
  assumes "0 \<le> i" "i \<le> k" "k < n" "P k" "\<forall>j. i \<le> j \<and> j < k \<longrightarrow> \<not> P j"
  shows "first_index P i n = k"
proof -
  let ?r = "first_index P i n"
  have ne: "?r \<noteq> -1" using first_index_none [OF assms(1), of P n] assms by auto
  have hit: "i \<le> ?r \<and> ?r < n \<and> P ?r" using first_index_hit [OF assms(1) ne] .
  have "\<not> k < ?r" using first_index_least [OF assms(1,2), of P n] assms(4) by blast
  moreover have "\<not> ?r < k" using assms(5) hit by blast
  ultimately show ?thesis by linarith
qed

lemma first_index_cong:
  "(\<And>j. i \<le> j \<Longrightarrow> j < n \<Longrightarrow> P j = Q j) \<Longrightarrow> first_index P i n = first_index Q i n"
proof (induction P i n rule: first_index.induct)
  case (1 P i n)
  show ?case
  proof (cases "i < n")
    case False
    then show ?thesis by (simp add: first_index_stop)
  next
    case True
    show ?thesis
    proof (cases "P i")
      case True
      then have "Q i" using "1.prems" [of i] \<open>i < n\<close> by simp
      then show ?thesis using True \<open>i < n\<close> by (simp add: first_index_here)
    next
      case False
      then have nq: "\<not> Q i" using "1.prems" [of i] \<open>i < n\<close> by simp
      have "first_index P (i + 1) n = first_index Q (i + 1) n"
        using "1.IH" [OF \<open>i < n\<close> False] "1.prems" by simp
      then show ?thesis using False nq \<open>i < n\<close> by (simp add: first_index_skip)
    qed
  qed
qed

lemma rechInode_loop_done: "ino \<noteq> -1 \<Longrightarrow> rechInode_loop fname dir i ino = ino"
  by (subst rechInode_loop.simps) simp

lemma rechInode_loop_first:
  "0 \<le> i \<Longrightarrow> rechInode_loop fname dir i (-1) =
     (let k = first_index (\<lambda>j. fname = filename (entries dir j) \<and> inode_index (entries dir j) \<noteq> -1)
                i NUM_DIRECTORY_ENTRIES
      in if k = -1 then -1 else inode_index (entries dir k))"
proof (induction "nat (NUM_DIRECTORY_ENTRIES - i)" arbitrary: i)
  case 0
  then have "\<not> i < NUM_DIRECTORY_ENTRIES" by linarith
  then show ?case by (subst rechInode_loop.simps) (simp add: first_index_stop)
next
  case (Suc m)
  then have lt: "i < NUM_DIRECTORY_ENTRIES" by linarith
  let ?P = "\<lambda>j. fname = filename (entries dir j) \<and> inode_index (entries dir j) \<noteq> -1"
  show ?case
  proof (cases "?P i")
    case True
    have "rechInode_loop fname dir i (-1) =
        rechInode_loop fname dir (i + 1) (inode_index (entries dir i))"
      using lt True by (subst rechInode_loop.simps) simp
    also have "\<dots> = inode_index (entries dir i)"
      using True by (simp add: rechInode_loop_done)
    finally have l: "rechInode_loop fname dir i (-1) = inode_index (entries dir i)" .
    have "first_index ?P i NUM_DIRECTORY_ENTRIES = i"
      using lt True by (intro first_index_here) auto
    then show ?thesis using l True Suc.prems by (simp add: Let_def)
  next
    case False
    have ih: "rechInode_loop fname dir (i + 1) (-1) =
        (let k = first_index ?P (i + 1) NUM_DIRECTORY_ENTRIES
         in if k = -1 then -1 else inode_index (entries dir k))"
      using Suc.hyps(1) [of "i + 1"] Suc.hyps(2) Suc.prems by simp
    have l: "rechInode_loop fname dir i (-1) = rechInode_loop fname dir (i + 1) (-1)"
      using lt False by (subst rechInode_loop.simps) auto
    have "first_index ?P i NUM_DIRECTORY_ENTRIES = first_index ?P (i + 1) NUM_DIRECTORY_ENTRIES"
      using lt False by (intro first_index_skip) auto
    then show ?thesis using ih l by simp
  qed
qed

lemma rechInode_first:
  "rechInode fname dir =
     (let k = first_index (\<lambda>j. fname = filename (entries dir j) \<and> inode_index (entries dir j) \<noteq> -1)
                0 NUM_DIRECTORY_ENTRIES
      in if k = -1 then -1 else inode_index (entries dir k))"
  unfolding rechInode_def by (rule rechInode_loop_first) simp

lemma rechInode_absent:
  "(\<And>j. 0 \<le> j \<Longrightarrow> j < NUM_DIRECTORY_ENTRIES \<Longrightarrow>
        fname \<noteq> filename (entries dir j) \<or> inode_index (entries dir j) = -1)
   \<Longrightarrow> rechInode fname dir = -1"
proof -
  assume a: "\<And>j. 0 \<le> j \<Longrightarrow> j < NUM_DIRECTORY_ENTRIES \<Longrightarrow>
        fname \<noteq> filename (entries dir j) \<or> inode_index (entries dir j) = -1"
  have "first_index (\<lambda>j. fname = filename (entries dir j) \<and> inode_index (entries dir j) \<noteq> -1)
          0 NUM_DIRECTORY_ENTRIES = -1"
    using a by (subst first_index_none) auto
  then show ?thesis by (simp add: rechInode_first)
qed

lemma rechInode_found:
  assumes "0 \<le> k" "k < NUM_DIRECTORY_ENTRIES" "fname = filename (entries dir k)"
    "inode_index (entries dir k) \<noteq> -1"
    "\<And>j. 0 \<le> j \<Longrightarrow> j < k \<Longrightarrow>
        fname \<noteq> filename (entries dir j) \<or> inode_index (entries dir j) = -1"
  shows "rechInode fname dir = inode_index (entries dir k)"
proof -
  have "first_index (\<lambda>j. fname = filename (entries dir j) \<and> inode_index (entries dir j) \<noteq> -1)
          0 NUM_DIRECTORY_ENTRIES = k"
    using assms by (intro first_index_found) auto
  then show ?thesis using assms(1,4) by (auto simp add: rechInode_first Let_def)
qed

lemma rechInode_entry:
  assumes "rechInode fname dir \<noteq> -1"
  shows "\<exists>k. 0 \<le> k \<and> k < NUM_DIRECTORY_ENTRIES \<and> fname = filename (entries dir k) \<and>
             inode_index (entries dir k) = rechInode fname dir"
proof -
  let ?P = "\<lambda>j. fname = filename (entries dir j) \<and> inode_index (entries dir j) \<noteq> -1"
  let ?k = "first_index ?P 0 NUM_DIRECTORY_ENTRIES"
  have ne: "?k \<noteq> -1" using assms by (auto simp add: rechInode_first Let_def)
  then have "0 \<le> ?k \<and> ?k < NUM_DIRECTORY_ENTRIES \<and> ?P ?k"
    by (intro first_index_hit) simp_all
  moreover have "rechInode fname dir = inode_index (entries dir ?k)"
    using ne by (simp add: rechInode_first Let_def)
  ultimately show ?thesis by metis
qed

subsection \<open>Permissions\<close>

lemma has_permission_strchr:
  "has_permission fs ino perm =
     (if 0 \<le> ino \<and> ino < NUM_INODES \<and> perm \<in> {CHR ''r'', CHR ''w'', CHR ''x''} \<and>
         perm \<in> set (takeWhile (\<lambda>c. c \<noteq> NUL) (permissions (inodes fs ino)))
      then 1 else 0)"
  unfolding has_permission_def strchr_def
  by (cases "perm = CHR ''r''"; cases "perm = CHR ''w''"; cases "perm = CHR ''x''") simp_all

text \<open>
  For a field in positional form (\<open>r\<close> or \<open>-\<close>, then \<open>w\<close> or \<open>-\<close>, then \<open>x\<close> or
  \<open>-\<close>) the letter occurs in the field exactly when it stands at its own position.
\<close>

lemma has_permission_positional:
  assumes "0 \<le> ino" "ino < NUM_INODES"
    and f: "permissions (inodes fs ino) = [p0, p1, p2]"
    and p: "p0 = CHR ''r'' \<or> p0 = CHR ''-''" "p1 = CHR ''w'' \<or> p1 = CHR ''-''"
      "p2 = CHR ''x'' \<or> p2 = CHR ''-''"
  shows "(has_permission fs ino (CHR ''r'') = 1) = (p0 = CHR ''r'')"
    and "(has_permission fs ino (CHR ''w'') = 1) = (p1 = CHR ''w'')"
    and "(has_permission fs ino (CHR ''x'') = 1) = (p2 = CHR ''x'')"
proof -
  have s: "set (takeWhile (\<lambda>c. c \<noteq> NUL) [p0, p1, p2]) = {p0, p1, p2}"
    using p by auto
  show "(has_permission fs ino (CHR ''r'') = 1) = (p0 = CHR ''r'')"
    unfolding has_permission_strchr f s using assms(1,2) p by auto
  show "(has_permission fs ino (CHR ''w'') = 1) = (p1 = CHR ''w'')"
    unfolding has_permission_strchr f s using assms(1,2) p by auto
  show "(has_permission fs ino (CHR ''x'') = 1) = (p2 = CHR ''x'')"
    unfolding has_permission_strchr f s using assms(1,2) p by auto
qed

text \<open>
  Claim C3, as amended. For an inode index inside the table and a permission letter
  \<open>r\<close>, \<open>w\<close> or \<open>x\<close>, \<open>has_permission\<close> grants the permission if and only if the
  letter occurs somewhere in the permission field before a NUL byte; the position of
  the letter in the field is not examined.
\<close>

theorem has_permission_letter_anywhere:
  assumes "0 \<le> ino" "ino < NUM_INODES" "perm \<in> {CHR ''r'', CHR ''w'', CHR ''x''}"
  shows "(has_permission fs ino perm = 1) =
           (perm \<in> set (takeWhile (\<lambda>c. c \<noteq> NUL) (permissions (inodes fs ino)))) \<and>
         (has_permission fs ino perm = 0) =
           (perm \<notin> set (takeWhile (\<lambda>c. c \<noteq> NUL) (permissions (inodes fs ino))))"
  unfolding has_permission_strchr using assms by simp

theorem has_permission_letter_anywhere_witness:
  "(0::int) \<le> 1 \<and> (1::int) < NUM_INODES \<and>
   CHR ''w'' \<in> {CHR ''r'', CHR ''w'', CHR ''x''} \<and>
   CHR ''w'' \<in> set (takeWhile (\<lambda>c. c \<noteq> NUL) (permissions (inodes fs_one_file 1))) \<and>
   has_permission fs_one_file 1 (CHR ''w'') = 1"
  using has_permission_letter_anywhere [of 1 "CHR ''w''" fs_one_file]
  by (simp add: fs_one_file_def)

text \<open>
  The claim as stated fails after \<^verbatim>\<open>chmod a wr-\<close>: position 0 of the field of inode 1
  holds \<open>w\<close>, not \<open>r\<close>, and read permission is granted.
\<close>

lemma rechInode_one_file: "rechInode ''a'' (directories fs_one_file 0) = 1"
  by (simp add: rechInode_first fs_one_file_def first_index_here)

lemma change_permissions_one_file:
  "permissions (inodes (fst (change_permissions 0 ''a'' ''wr-'' 0 fs_one_file)) 1) = ''wr-''"
  by (simp add: change_permissions_def Let_def rechInode_one_file strncpy_raw_def)

theorem has_permission_position_counterexample:
  "has_permission (fst (change_permissions 0 ''a'' ''wr-'' 0 fs_one_file)) 1 (CHR ''r'') = 1 \<and>
   permissions (inodes (fst (change_permissions 0 ''a'' ''wr-'' 0 fs_one_file)) 1) ! 0 \<noteq> CHR ''r''"
  by (simp add: has_permission_strchr change_permissions_one_file)

subsection \<open>Creating files and directories\<close>

lemma free_inode_index:
  assumes "0 \<le> i" "i < NUM_INODES" "size_i (inodes fs i) = -1"
  shows "first_index (\<lambda>i. size_i (inodes fs i) = -1) 0 NUM_INODES \<noteq> -1"
    and "0 \<le> first_index (\<lambda>i. size_i (inodes fs i) = -1) 0 NUM_INODES"
    and "first_index (\<lambda>i. size_i (inodes fs i) = -1) 0 NUM_INODES < NUM_INODES"
    and "size_i (inodes fs (first_index (\<lambda>i. size_i (inodes fs i) = -1) 0 NUM_INODES)) = -1"
proof -
  let ?k = "first_index (\<lambda>i. size_i (inodes fs i) = -1) 0 NUM_INODES"
  show ne: "?k \<noteq> -1" using assms by (subst first_index_none) auto
  have "0 \<le> ?k \<and> ?k < NUM_INODES \<and> size_i (inodes fs ?k) = -1"
    using ne by (intro first_index_hit) simp_all
  then show "0 \<le> ?k" and "?k < NUM_INODES" and "size_i (inodes fs ?k) = -1" by simp_all
qed

lemma free_entry_index:
  assumes "0 \<le> k" "k < NUM_DIRECTORY_ENTRIES"
    "inode_index (entries (directories fs d) k) = -1"
  shows "rechEntree fs d \<noteq> -1" and "0 \<le> rechEntree fs d"
    and "rechEntree fs d < NUM_DIRECTORY_ENTRIES"
proof -
  show ne: "rechEntree fs d \<noteq> -1"
    unfolding rechEntree_def using assms by (subst first_index_none) auto
  have "0 \<le> rechEntree fs d \<and> rechEntree fs d < NUM_DIRECTORY_ENTRIES \<and>
        inode_index (entries (directories fs d) (rechEntree fs d)) = -1"
    using ne unfolding rechEntree_def by (intro first_index_hit) simp_all
  then show "0 \<le> rechEntree fs d" and "rechEntree fs d < NUM_DIRECTORY_ENTRIES" by simp_all
qed

lemma create_file_denied:
  "has_permission fs dir_inode (CHR ''w'') = 0 \<Longrightarrow>
     create_file now fname perms dir_inode fs = (fs, -1)"
  by (simp add: create_file_def)

lemma create_directory_succeeds:
  assumes free: "0 \<le> i" "i < NUM_INODES" "size_i (inodes fs i) = -1"
    and name: "rechInode dirname (directories fs inode_dir) = -1"
    and slot: "0 \<le> k" "k < NUM_DIRECTORY_ENTRIES"
      "inode_index (entries (directories fs inode_dir) k) = -1"
    and used: "size_i (inodes fs inode_dir) \<noteq> -1"
  defines "idx \<equiv> first_index (\<lambda>i. size_i (inodes fs i) = -1) 0 NUM_INODES"
  shows "snd (create_directory now dirname inode_dir fs) = idx"
    and "type_i (inodes (fst (create_directory now dirname inode_dir fs)) idx) = 0"
    and "size_i (inodes (fst (create_directory now dirname inode_dir fs)) idx) = 0"
    and "entries (directories (fst (create_directory now dirname inode_dir fs)) inode_dir)
           (rechEntree fs inode_dir) =
         \<lparr>filename = take MAX_FILE_NAME dirname, inode_index = idx\<rparr>"
proof -
  have ne: "idx \<noteq> -1" and sz: "size_i (inodes fs idx) = -1"
    unfolding idx_def using free_inode_index [OF free] by simp_all
  have se: "rechEntree fs inode_dir \<noteq> -1" using free_entry_index [OF slot] by simp
  have neq: "idx \<noteq> inode_dir" using sz used by auto
  show "snd (create_directory now dirname inode_dir fs) = idx"
    using ne se name by (simp add: create_directory_def Let_def idx_def)
  show "type_i (inodes (fst (create_directory now dirname inode_dir fs)) idx) = 0"
    using ne se name
    by (simp add: create_directory_def Let_def idx_def [symmetric] set_inode_def set_entry_def)
  show "size_i (inodes (fst (create_directory now dirname inode_dir fs)) idx) = 0"
    using ne se name
    by (simp add: create_directory_def Let_def idx_def [symmetric] set_inode_def set_entry_def)
  show "entries (directories (fst (create_directory now dirname inode_dir fs)) inode_dir)
           (rechEntree fs inode_dir) =
         \<lparr>filename = take MAX_FILE_NAME dirname, inode_index = idx\<rparr>"
    using ne se name neq
    by (simp add: create_directory_def Let_def idx_def [symmetric] set_inode_def set_entry_def
          strncpy_str_def)
qed

text \<open>
  Claim C10. \<^verbatim>\<open>create_directory\<close> does not look at the permissions of the parent: in
  a parent directory whose permission field has no \<open>w\<close>, with a free inode, a free
  slot and no entry of that name, it returns the new inode (the first free one), which
  is a directory entered in the parent under the name, while \<^verbatim>\<open>create_file\<close> in the
  same parent returns \<open>-1\<close> and changes nothing.
\<close>

theorem create_directory_no_permission_check:
  assumes "0 \<le> inode_dir" "inode_dir < NUM_INODES"
    and "type_i (inodes fs inode_dir) = 0" "size_i (inodes fs inode_dir) \<noteq> -1"
    and "\<not> strchr (permissions (inodes fs inode_dir)) (CHR ''w'')"
    and "0 \<le> i" "i < NUM_INODES" "size_i (inodes fs i) = -1"
    and "rechInode dirname (directories fs inode_dir) = -1"
    and "0 \<le> k" "k < NUM_DIRECTORY_ENTRIES"
      "inode_index (entries (directories fs inode_dir) k) = -1"
  shows "snd (create_directory now dirname inode_dir fs) \<noteq> -1 \<and>
         snd (create_directory now dirname inode_dir fs) =
           first_index (\<lambda>i. size_i (inodes fs i) = -1) 0 NUM_INODES \<and>
         type_i (inodes (fst (create_directory now dirname inode_dir fs))
                   (snd (create_directory now dirname inode_dir fs))) = 0 \<and>
         entries (directories (fst (create_directory now dirname inode_dir fs)) inode_dir)
           (rechEntree fs inode_dir) =
           \<lparr>filename = take MAX_FILE_NAME dirname,
            inode_index = snd (create_directory now dirname inode_dir fs)\<rparr> \<and>
         has_permission fs inode_dir (CHR ''w'') = 0 \<and>
         create_file now fname perms inode_dir fs = (fs, -1)"
proof -
  have hp: "has_permission fs inode_dir (CHR ''w'') = 0"
    using assms(1,2,5) by (simp add: has_permission_def)
  have ne: "first_index (\<lambda>i. size_i (inodes fs i) = -1) 0 NUM_INODES \<noteq> -1"
    using free_inode_index(1) [OF assms(6,7,8)] .
  note cd = create_directory_succeeds [OF assms(6,7,8) assms(9) assms(10,11,12) assms(4)]
  show ?thesis using hp ne cd create_file_denied [OF hp] by simp
qed

theorem create_directory_no_permission_check_witness:
  "type_i (inodes fs_readonly_root 0) = 0 \<and> size_i (inodes fs_readonly_root 0) \<noteq> -1 \<and>
   \<not> strchr (permissions (inodes fs_readonly_root 0)) (CHR ''w'') \<and>
   size_i (inodes fs_readonly_root 1) = -1 \<and>
   rechInode ''d'' (directories fs_readonly_root 0) = -1 \<and>
   inode_index (entries (directories fs_readonly_root 0) 0) = -1 \<and>
   snd (create_directory 0 ''d'' 0 fs_readonly_root) \<noteq> -1 \<and>
   create_file 0 ''f'' ''rw-'' 0 fs_readonly_root = (fs_readonly_root, -1)"
proof -
  have a: "type_i (inodes fs_readonly_root 0) = 0" "size_i (inodes fs_readonly_root 0) \<noteq> -1"
    "\<not> strchr (permissions (inodes fs_readonly_root 0)) (CHR ''w'')"
    "size_i (inodes fs_readonly_root 1) = -1"
    "inode_index (entries (directories fs_readonly_root 0) 0) = -1"
    by (simp_all add: fs_readonly_root_def fs_formatted_def root_inode_def free_inode_def
          formatted_directory_def empty_directory_def strchr_def)
  have b: "rechInode ''d'' (directories fs_readonly_root 0) = -1"
    by (rule rechInode_absent)
       (simp add: fs_readonly_root_def fs_formatted_def formatted_directory_def empty_directory_def)
  show ?thesis
    using create_directory_no_permission_check
      [of 0 fs_readonly_root 1 "''d''" 0 0 "''f''" "''rw-''", OF _ _ a(1,2,3) _ _ a(4) b _ _ a(5)]
      a b
    by simp
qed

lemma set_inode_same_size:
  "size_i (inodes fs i) = v \<Longrightarrow>
     set_inode i ((inodes (set_inode i ((inodes fs i)\<lparr>size_i := w\<rparr>) fs) i)\<lparr>size_i := v\<rparr>)
       (set_inode i ((inodes fs i)\<lparr>size_i := w\<rparr>) fs) = fs"
  by (auto simp add: set_inode_def)

lemma allocate_block_full:
  "(\<And>b. 0 \<le> b \<Longrightarrow> b < NUM_BLOCKS \<Longrightarrow> free_blocks fs b \<noteq> 0) \<Longrightarrow>
     allocate_block fs = (fs, -1)"
proof -
  assume a: "\<And>b. 0 \<le> b \<Longrightarrow> b < NUM_BLOCKS \<Longrightarrow> free_blocks fs b \<noteq> 0"
  have "first_index (\<lambda>i. free_blocks fs i = 0) 0 NUM_BLOCKS = -1"
    using a by (subst first_index_none) auto
  then show ?thesis by (simp add: allocate_block_def)
qed

lemma allocate_block_free:
  assumes "snd (allocate_block fs) \<noteq> -1"
  shows "0 \<le> snd (allocate_block fs)" and "snd (allocate_block fs) < NUM_BLOCKS"
    and "free_blocks fs (snd (allocate_block fs)) = 0"
    and "fst (allocate_block fs) = fs\<lparr>free_blocks := (free_blocks fs)(snd (allocate_block fs) := 1)\<rparr>"
    and "snd (allocate_block fs) = first_index (\<lambda>i. free_blocks fs i = 0) 0 NUM_BLOCKS"
proof -
  let ?k = "first_index (\<lambda>i. free_blocks fs i = 0) 0 NUM_BLOCKS"
  have ne: "?k \<noteq> -1" using assms by (auto simp add: allocate_block_def Let_def split: if_splits)
  then show eq: "snd (allocate_block fs) = ?k" by (simp add: allocate_block_def Let_def)
  have "0 \<le> ?k \<and> ?k < NUM_BLOCKS \<and> free_blocks fs ?k = 0"
    using ne by (intro first_index_hit) simp_all
  then show "0 \<le> snd (allocate_block fs)" and "snd (allocate_block fs) < NUM_BLOCKS"
    and "free_blocks fs (snd (allocate_block fs)) = 0" unfolding eq by simp_all
  show "fst (allocate_block fs) = fs\<lparr>free_blocks := (free_blocks fs)(snd (allocate_block fs) := 1)\<rparr>"
    using ne by (simp add: allocate_block_def Let_def)
qed

lemma free_block_undoes_allocate:
  assumes "snd (allocate_block fs) \<noteq> -1"
  shows "free_block (snd (allocate_block fs)) (fst (allocate_block fs)) = fs"
proof -
  note a = allocate_block_free [OF assms]
  have "(free_blocks fs)(snd (allocate_block fs) := 0) = free_blocks fs"
    using a(3) by (metis fun_upd_triv)
  then show ?thesis using a(1,2) unfolding a(4) by (simp add: free_block_def)
qed

text \<open>
  Claim C7. When \<^verbatim>\<open>create_file\<close> has reserved an inode (the parent is writable, the
  name is new and an inode is free) and then finds no free block, or finds a block but
  no free slot in the parent directory, it returns \<open>-1\<close> and the whole file system
  state, in particular the inode table and the block bitmap, is what it was before the
  call.
\<close>

theorem create_file_rollback:
  assumes perm: "has_permission fs dir_inode (CHR ''w'') \<noteq> 0"
    and name: "rechInode fname (directories fs dir_inode) = -1"
    and free: "0 \<le> i" "i < NUM_INODES" "size_i (inodes fs i) = -1"
    and fail: "(\<forall>b. 0 \<le> b \<and> b < NUM_BLOCKS \<longrightarrow> free_blocks fs b \<noteq> 0) \<or>
               (\<forall>k. 0 \<le> k \<and> k < NUM_DIRECTORY_ENTRIES \<longrightarrow>
                    inode_index (entries (directories fs dir_inode) k) \<noteq> -1)"
  shows "create_file now fname perms dir_inode fs = (fs, -1)"
proof -
  let ?idx = "first_index (\<lambda>i. size_i (inodes fs i) = -1) 0 NUM_INODES"
  let ?fs1 = "set_inode ?idx ((inodes fs ?idx)\<lparr>size_i := 0\<rparr>) fs"
  have ne: "?idx \<noteq> -1" and sz: "size_i (inodes fs ?idx) = -1"
    using free_inode_index [OF free] by simp_all
  have restored: "set_inode ?idx ((inodes ?fs1 ?idx)\<lparr>size_i := -1\<rparr>) ?fs1 = fs"
    using sz by (rule set_inode_same_size)
  have fb: "free_blocks ?fs1 = free_blocks fs" and dirs: "directories ?fs1 = directories fs"
    by (simp_all add: set_inode_def)
  show ?thesis
  proof (cases "snd (allocate_block ?fs1) = -1")
    case True
    then have "fst (allocate_block ?fs1) = ?fs1"
      by (auto simp add: allocate_block_def Let_def split: if_splits)
    then show ?thesis using perm name ne True restored
      by (simp add: create_file_def Let_def)
  next
    case False
    have nofull: "\<not> (\<forall>b. 0 \<le> b \<and> b < NUM_BLOCKS \<longrightarrow> free_blocks fs b \<noteq> 0)"
      using allocate_block_free(1,2,3) [OF False] fb by metis
    then have noslot: "\<forall>k. 0 \<le> k \<and> k < NUM_DIRECTORY_ENTRIES \<longrightarrow>
        inode_index (entries (directories fs dir_inode) k) \<noteq> -1"
      using fail by blast
    have d2: "directories (fst (allocate_block ?fs1)) = directories fs"
      unfolding allocate_block_free(4) [OF False] using dirs by simp
    have re: "rechEntree (fst (allocate_block ?fs1)) dir_inode = -1"
      unfolding rechEntree_def d2 using noslot by (subst first_index_none) auto
    have undo: "free_block (snd (allocate_block ?fs1)) (fst (allocate_block ?fs1)) = ?fs1"
      using False by (rule free_block_undoes_allocate)
    show ?thesis using perm name ne False re undo restored
      by (simp add: create_file_def Let_def)
  qed
qed

theorem create_file_rollback_witness:
  "has_permission fs_full 0 (CHR ''w'') \<noteq> 0 \<and>
   rechInode ''a'' (directories fs_full 0) = -1 \<and>
   size_i (inodes fs_full 1) = -1 \<and>
   free_blocks fs_full 7 \<noteq> 0 \<and>
   create_file 0 ''a'' ''rw-'' 0 fs_full = (fs_full, -1)"
proof -
  have a: "has_permission fs_full 0 (CHR ''w'') \<noteq> 0"
    by (simp add: has_permission_def strchr_def fs_full_def fs_formatted_def root_inode_def)
  have b: "rechInode ''a'' (directories fs_full 0) = -1"
    by (rule rechInode_absent) (simp add: fs_full_def fs_formatted_def formatted_directory_def empty_directory_def)
  have c: "size_i (inodes fs_full 1) = -1"
    by (simp add: fs_full_def fs_formatted_def free_inode_def)
  have d: "\<forall>b. 0 \<le> b \<and> b < NUM_BLOCKS \<longrightarrow> free_blocks fs_full b \<noteq> 0"
    by (simp add: fs_full_def)
  show ?thesis
    using create_file_rollback [of fs_full 0 "''a''" 1 0 "''rw-''", OF a b _ _ c] a b c d
    by simp
qed

subsection \<open>Opening a file\<close>

lemma free_descriptor_index:
  assumes "0 \<le> k" "k < MAX_FILE_OPEN" "inode (opened_file fs k) = -1"
  shows "first_index (\<lambda>i. inode (opened_file fs i) = -1) 0 MAX_FILE_OPEN \<noteq> -1"
    and "0 \<le> first_index (\<lambda>i. inode (opened_file fs i) = -1) 0 MAX_FILE_OPEN"
    and "first_index (\<lambda>i. inode (opened_file fs i) = -1) 0 MAX_FILE_OPEN < MAX_FILE_OPEN"
proof -
  let ?d = "first_index (\<lambda>i. inode (opened_file fs i) = -1) 0 MAX_FILE_OPEN"
  show ne: "?d \<noteq> -1" using assms by (subst first_index_none) auto
  have "0 \<le> ?d \<and> ?d < MAX_FILE_OPEN \<and> inode (opened_file fs ?d) = -1"
    using ne by (intro first_index_hit) simp_all
  then show "0 \<le> ?d" and "?d < MAX_FILE_OPEN" by simp_all
qed

lemma open_file_succeeds:
  assumes "rechInode fname (directories fs dir_inode) = ino" "ino \<noteq> -1"
    and "type_i (inodes fs ino) = 1 \<or> type_i (inodes fs ino) = 2"
    and "first_index (\<lambda>i. inode (opened_file fs i) = -1) 0 MAX_FILE_OPEN = desc" "desc \<noteq> -1"
  shows "open_file fname dir_inode fs =
           (fs\<lparr>opened_file := (opened_file fs)
                (desc := \<lparr>inode = ino,
                          tete_lecture =
                            SIZEOF_FILESYSTEM + blocks (inodes fs ino) 0 * BLOCK_SIZE\<rparr>)\<rparr>,
            desc)"
  using assms by (auto simp add: open_file_def Let_def)

lemma read_file_denied:
  assumes "0 \<le> desc" "desc < MAX_FILE_OPEN" "inode (opened_file fs desc) \<noteq> -1" "0 \<le> sz"
    and "type_i (inodes fs (inode (opened_file fs desc))) = 1 \<or>
         type_i (inodes fs (inode (opened_file fs desc))) = 2"
    and "has_permission fs (inode (opened_file fs desc)) (CHR ''r'') = 0"
  shows "read_file desc texte sz fs = (fs, texte, Some PermissionDenied)"
  using assms by (auto simp add: read_file_def)

lemma write_file_denied:
  assumes "0 \<le> desc" "desc < MAX_FILE_OPEN" "inode (opened_file fs desc) \<noteq> -1"
    and "has_permission fs (inode (opened_file fs desc)) (CHR ''w'') = 0"
  shows "write_file desc texte sz fs = Some (fs, -1)"
  using assms by (auto simp add: write_file_def)

text \<open>
  Claim C9. For an existing file or symbolic link and a free slot in the open-file
  table, \<^verbatim>\<open>open_file\<close> returns a descriptor between 0 and 63 bound to the inode,
  whatever the inode's permission field \<open>ps\<close> is. Permissions are enforced later:
  on that descriptor \<^verbatim>\<open>read_file\<close> reports permission-denied and changes neither the
  state nor the buffer when the field has no \<open>r\<close>, and \<^verbatim>\<open>write_file\<close> returns
  \<open>-1\<close> and changes nothing when it has no \<open>w\<close>.
\<close>

theorem open_file_ignores_permissions:
  assumes found: "rechInode fname (directories fs dir_inode) = ino"
    and ino: "0 \<le> ino" "ino < NUM_INODES"
    and kind: "type_i (inodes fs ino) = 1 \<or> type_i (inodes fs ino) = 2"
    and slot: "0 \<le> k" "k < MAX_FILE_OPEN" "inode (opened_file fs k) = -1"
    and sz: "0 \<le> sz"
  defines "fsp \<equiv> \<lambda>ps. set_inode ino ((inodes fs ino)\<lparr>permissions := ps\<rparr>) fs"
  shows "\<forall>ps. 0 \<le> snd (open_file fname dir_inode (fsp ps)) \<and>
              snd (open_file fname dir_inode (fsp ps)) < MAX_FILE_OPEN \<and>
              snd (open_file fname dir_inode (fsp ps)) =
                first_index (\<lambda>i. inode (opened_file fs i) = -1) 0 MAX_FILE_OPEN \<and>
              inode (opened_file (fst (open_file fname dir_inode (fsp ps)))
                       (snd (open_file fname dir_inode (fsp ps)))) = ino \<and>
              (\<not> strchr ps (CHR ''r'') \<longrightarrow>
                 read_file (snd (open_file fname dir_inode (fsp ps))) texte sz
                     (fst (open_file fname dir_inode (fsp ps))) =
                   (fst (open_file fname dir_inode (fsp ps)), texte, Some PermissionDenied)) \<and>
              (\<not> strchr ps (CHR ''w'') \<longrightarrow>
                 write_file (snd (open_file fname dir_inode (fsp ps))) texte sz
                     (fst (open_file fname dir_inode (fsp ps))) =
                   Some (fst (open_file fname dir_inode (fsp ps)), -1))"
proof
  fix ps
  let ?d = "first_index (\<lambda>i. inode (opened_file fs i) = -1) 0 MAX_FILE_OPEN"
  let ?fs = "fsp ps"
  have d: "?d \<noteq> -1" "0 \<le> ?d" "?d < MAX_FILE_OPEN"
    using free_descriptor_index [OF slot] by simp_all
  have same: "directories ?fs = directories fs" "opened_file ?fs = opened_file fs"
    "type_i (inodes ?fs ino) = type_i (inodes fs ino)"
    "permissions (inodes ?fs ino) = ps"
    by (simp_all add: fsp_def set_inode_def)
  have ne: "ino \<noteq> -1" using ino by simp
  have op: "open_file fname dir_inode ?fs =
      (?fs\<lparr>opened_file := (opened_file ?fs)
          (?d := \<lparr>inode = ino,
                   tete_lecture = SIZEOF_FILESYSTEM + blocks (inodes ?fs ino) 0 * BLOCK_SIZE\<rparr>)\<rparr>,
       ?d)"
    by (rule open_file_succeeds) (use found ne kind d same in simp_all)
  let ?fs' = "fst (open_file fname dir_inode ?fs)"
  have o: "snd (open_file fname dir_inode ?fs) = ?d" using op by simp
  have i': "inode (opened_file ?fs' ?d) = ino" using op by simp
  have t': "type_i (inodes ?fs' ino) = 1 \<or> type_i (inodes ?fs' ino) = 2"
    using op kind same by simp
  have p': "permissions (inodes ?fs' ino) = ps" using op same by simp
  have r: "read_file ?d texte sz ?fs' = (?fs', texte, Some PermissionDenied)"
    if "\<not> strchr ps (CHR ''r'')"
    by (rule read_file_denied) (use d i' ne t' p' sz ino that in \<open>simp_all add: has_permission_def\<close>)
  have w: "write_file ?d texte sz ?fs' = Some (?fs', -1)"
    if "\<not> strchr ps (CHR ''w'')"
    by (rule write_file_denied) (use d i' ne p' ino that in \<open>simp_all add: has_permission_def\<close>)
  show "0 \<le> snd (open_file fname dir_inode (fsp ps)) \<and>
              snd (open_file fname dir_inode (fsp ps)) < MAX_FILE_OPEN \<and>
              snd (open_file fname dir_inode (fsp ps)) =
                first_index (\<lambda>i. inode (opened_file fs i) = -1) 0 MAX_FILE_OPEN \<and>
              inode (opened_file (fst (open_file fname dir_inode (fsp ps)))
                       (snd (open_file fname dir_inode (fsp ps)))) = ino \<and>
              (\<not> strchr ps (CHR ''r'') \<longrightarrow>
                 read_file (snd (open_file fname dir_inode (fsp ps))) texte sz
                     (fst (open_file fname dir_inode (fsp ps))) =
                   (fst (open_file fname dir_inode (fsp ps)), texte, Some PermissionDenied)) \<and>
              (\<not> strchr ps (CHR ''w'') \<longrightarrow>
                 write_file (snd (open_file fname dir_inode (fsp ps))) texte sz
                     (fst (open_file fname dir_inode (fsp ps))) =
                   Some (fst (open_file fname dir_inode (fsp ps)), -1))"
    unfolding o using d i' r w by simp
qed

theorem open_file_ignores_permissions_witness:
  "rechInode ''a'' (directories fs_one_file 0) = 1 \<and>
   type_i (inodes fs_one_file 1) = 1 \<and>
   inode (opened_file fs_one_file 0) = -1 \<and>
   snd (open_file ''a'' 0
          (set_inode 1 ((inodes fs_one_file 1)\<lparr>permissions := ''---''\<rparr>) fs_one_file)) = 0 \<and>
   write_file 0 ''x'' 1
     (fst (open_file ''a'' 0
             (set_inode 1 ((inodes fs_one_file 1)\<lparr>permissions := ''---''\<rparr>) fs_one_file))) =
     Some (fst (open_file ''a'' 0
             (set_inode 1 ((inodes fs_one_file 1)\<lparr>permissions := ''---''\<rparr>) fs_one_file)), -1)"
proof -
  have a: "type_i (inodes fs_one_file 1) = 1" "inode (opened_file fs_one_file 0) = -1"
    by (simp_all add: fs_one_file_def)
  have f: "first_index (\<lambda>i. inode (opened_file fs_one_file i) = -1) 0 MAX_FILE_OPEN = 0"
    by (rule first_index_here) (simp_all add: fs_one_file_def)
  have s: "\<not> strchr ''---'' (CHR ''w'')" by (simp add: strchr_def)
  have k1: "type_i (inodes fs_one_file 1) = 1 \<or> type_i (inodes fs_one_file 1) = 2"
    using a by simp
  have n: "(0::int) \<le> 1" "(1::int) < NUM_INODES" "(0::int) \<le> 0" "(0::int) < MAX_FILE_OPEN"
    by simp_all
  have t: "snd (open_file ''a'' 0
          (set_inode 1 ((inodes fs_one_file 1)\<lparr>permissions := ''---''\<rparr>) fs_one_file)) =
        first_index (\<lambda>i. inode (opened_file fs_one_file i) = -1) 0 MAX_FILE_OPEN \<and>
      (\<not> strchr ''---'' (CHR ''w'') \<longrightarrow>
        write_file
     (snd (open_file ''a'' 0
          (set_inode 1 ((inodes fs_one_file 1)\<lparr>permissions := ''---''\<rparr>) fs_one_file))) ''x'' 1
     (fst (open_file ''a'' 0
             (set_inode 1 ((inodes fs_one_file 1)\<lparr>permissions := ''---''\<rparr>) fs_one_file))) =
     Some (fst (open_file ''a'' 0
             (set_inode 1 ((inodes fs_one_file 1)\<lparr>permissions := ''---''\<rparr>) fs_one_file)), -1))"
    using open_file_ignores_permissions
      [OF rechInode_one_file n(1) n(2) k1 n(3) n(4) a(2) n(1), of "''x''", rule_format,
        of "''---''"]
    by blast
  have o: "snd (open_file ''a'' 0
          (set_inode 1 ((inodes fs_one_file 1)\<lparr>permissions := ''---''\<rparr>) fs_one_file)) = 0"
    using t f by simp
  have w: "write_file
     (snd (open_file ''a'' 0
          (set_inode 1 ((inodes fs_one_file 1)\<lparr>permissions := ''---''\<rparr>) fs_one_file))) ''x'' 1
     (fst (open_file ''a'' 0
             (set_inode 1 ((inodes fs_one_file 1)\<lparr>permissions := ''---''\<rparr>) fs_one_file))) =
     Some (fst (open_file ''a'' 0
             (set_inode 1 ((inodes fs_one_file 1)\<lparr>permissions := ''---''\<rparr>) fs_one_file)), -1)"
    using t s by blast
  show ?thesis using a o w [unfolded o] rechInode_one_file by (intro conjI) assumption+
qed

subsection \<open>Symbolic links\<close>

lemma create_symbolic_link_inode:
  assumes ok: "snd (create_symbolic_link now linkName targetPath parentDir fs) \<noteq> -1"
  defines "r \<equiv> snd (create_symbolic_link now linkName targetPath parentDir fs)"
    and "fs' \<equiv> fst (create_symbolic_link now linkName targetPath parentDir fs)"
    and "b \<equiv> first_index (\<lambda>i. free_blocks fs i = 0) 0 NUM_BLOCKS"
  shows "r = first_index (\<lambda>i. size_i (inodes fs i) = -1) 0 NUM_INODES"
    and "type_i (inodes fs' r) = 2"
    and "size_i (inodes fs' r) = SIZEOF_CHAR_PTR + 1"
    and "blocks (inodes fs' r) 0 = b"
    and "0 \<le> b \<and> b < NUM_BLOCKS \<and> free_blocks fs b = 0 \<and> free_blocks fs' b = 1"
    and "permissions (inodes fs' r) = ''rwx''"
    and "link_count (inodes fs' r) = 1"
proof -
  let ?i = "first_index (\<lambda>i. size_i (inodes fs i) = -1) 0 NUM_INODES"
  have c: "rechInode linkName (directories fs parentDir) = -1"
    "get_inode_from_path fs targetPath parentDir \<noteq> -1" "?i \<noteq> -1"
    "rechEntree fs parentDir \<noteq> -1" "snd (allocate_block fs) \<noteq> -1"
    using ok by (auto simp add: create_symbolic_link_def Let_def split: if_splits)
  note al = allocate_block_free [OF c(5)]
  have beq: "snd (allocate_block fs) = b" using al(5) by (simp add: b_def)
  show "r = ?i" using c by (simp add: r_def create_symbolic_link_def Let_def)
  then have r: "snd (create_symbolic_link now linkName targetPath parentDir fs) = ?i"
    by (simp add: r_def)
  have st: "inodes fs' ?i =
      (inodes (fst (allocate_block fs)) ?i)
        \<lparr>size_i := SIZEOF_CHAR_PTR + 1, type_i := 2, creation_time := now,
         modification_time := now, inode_rep_parent := parentDir, link_count := 1,
         permissions := strncpy_raw 3 ''rwx'',
         blocks := (\<lambda>i. if i = 0 then b
                        else if 0 \<le> i \<and> i < NUM_BLOCKS then -1
                        else blocks (inodes (fst (allocate_block fs)) ?i) i)\<rparr>"
    using c beq
    by (simp add: fs'_def create_symbolic_link_def Let_def set_inode_def set_entry_def)
  show "type_i (inodes fs' r) = 2" "size_i (inodes fs' r) = SIZEOF_CHAR_PTR + 1"
    "blocks (inodes fs' r) 0 = b" "link_count (inodes fs' r) = 1"
    unfolding r_def r st by simp_all
  show "permissions (inodes fs' r) = ''rwx''"
    unfolding r_def r st by (simp add: strncpy_raw_def)
  have "free_blocks fs' = (free_blocks fs)(b := 1)"
    using c beq al(4)
    by (simp add: fs'_def create_symbolic_link_def Let_def set_inode_def set_entry_def)
  then show "0 \<le> b \<and> b < NUM_BLOCKS \<and> free_blocks fs b = 0 \<and> free_blocks fs' b = 1"
    using al(1,2,3) beq by simp
qed

lemma get_inode_from_path_one_file: "get_inode_from_path fs_one_file ''a'' 0 = 1"
  by (simp add: get_inode_from_path_def strncpy_str_def path_loop.simps strtok_def
        rechInode_one_file)

lemma rechInode_one_file_absent:
  "fname \<noteq> ''a'' \<Longrightarrow> rechInode fname (directories fs_one_file 0) = -1"
  by (rule rechInode_absent) (simp add: fs_one_file_def)

lemma one_file_free:
  "first_index (\<lambda>i. size_i (inodes fs_one_file i) = -1) 0 NUM_INODES = 2"
  "rechEntree fs_one_file 0 = 1"
  "first_index (\<lambda>i. free_blocks fs_one_file i = 0) 0 NUM_BLOCKS = 1"
  by (simp_all add: rechEntree_def fs_one_file_def first_index_here first_index_skip
        root_inode_def free_inode_def)

lemma create_symbolic_link_one_file: "snd (create_symbolic_link 0 ''l'' ''a'' 0 fs_one_file) = 2"
  by (simp add: create_symbolic_link_def Let_def rechInode_one_file_absent
        get_inode_from_path_one_file one_file_free allocate_block_def)

text \<open>
  Claim C2 at \<^verbatim>\<open>sym a l\<close> in the root directory that holds the file \<open>a\<close>. The call
  succeeds and the new inode has type symlink, a freshly allocated block in
  \<^verbatim>\<open>blocks[0]\<close>, permissions \<open>rwx\<close> and link count 1; its size is \<open>9\<close>, the size of a
  pointer plus one, where the length of the target path plus one is \<open>2\<close>.
\<close>

theorem create_symbolic_link_size_is_pointer_size:
  "snd (create_symbolic_link 0 ''l'' ''a'' 0 fs_one_file) = 2 \<and>
   type_i (inodes (fst (create_symbolic_link 0 ''l'' ''a'' 0 fs_one_file)) 2) = 2 \<and>
   blocks (inodes (fst (create_symbolic_link 0 ''l'' ''a'' 0 fs_one_file)) 2) 0 = 1 \<and>
   free_blocks fs_one_file 1 = 0 \<and>
   free_blocks (fst (create_symbolic_link 0 ''l'' ''a'' 0 fs_one_file)) 1 = 1 \<and>
   permissions (inodes (fst (create_symbolic_link 0 ''l'' ''a'' 0 fs_one_file)) 2) = ''rwx'' \<and>
   link_count (inodes (fst (create_symbolic_link 0 ''l'' ''a'' 0 fs_one_file)) 2) = 1 \<and>
   size_i (inodes (fst (create_symbolic_link 0 ''l'' ''a'' 0 fs_one_file)) 2) = 9 \<and>
   int (length ''a'') + 1 = 2"
proof -
  have ok: "snd (create_symbolic_link 0 ''l'' ''a'' 0 fs_one_file) \<noteq> -1"
    by (simp add: create_symbolic_link_one_file)
  note t = create_symbolic_link_inode [OF ok, unfolded create_symbolic_link_one_file one_file_free]
  show ?thesis using t create_symbolic_link_one_file by simp
qed

subsection \<open>Deleting a file that has a second name\<close>

lemma free_blocks_loop_shape:
  "\<exists>bl fb. free_blocks_loop ino i fs =
      fs\<lparr>inodes := (inodes fs)(ino := (inodes fs ino)\<lparr>blocks := bl\<rparr>), free_blocks := fb\<rparr>"
proof (induction ino i fs rule: free_blocks_loop.induct)
  case (1 ino i fs)
  show ?case
  proof (cases "i < NUM_BLOCKS")
    case False
    have e: "free_blocks_loop ino i fs = fs"
      using False by (subst free_blocks_loop.simps) simp
    show ?thesis unfolding e
      by (rule exI [of _ "blocks (inodes fs ino)"], rule exI [of _ "free_blocks fs"]) simp
  next
    case True
    let ?fs' = "if blocks (inodes fs ino) i \<noteq> -1
              then (let fs1 = free_block (blocks (inodes fs ino) i) fs
                    in set_inode ino
                         ((inodes fs1 ino)\<lparr>blocks := (blocks (inodes fs1 ino))(i := -1)\<rparr>) fs1)
              else fs"
    obtain bl fb where ih: "free_blocks_loop ino (i + 1) ?fs' =
        ?fs'\<lparr>inodes := (inodes ?fs')(ino := (inodes ?fs' ino)\<lparr>blocks := bl\<rparr>),
              free_blocks := fb\<rparr>"
      using "1.IH" [OF True] by blast
    have step: "free_blocks_loop ino i fs = free_blocks_loop ino (i + 1) ?fs'"
      using True by (subst free_blocks_loop.simps) simp
    have "?fs'\<lparr>inodes := (inodes ?fs')(ino := (inodes ?fs' ino)\<lparr>blocks := bl\<rparr>),
              free_blocks := fb\<rparr> =
          fs\<lparr>inodes := (inodes fs)(ino := (inodes fs ino)\<lparr>blocks := bl\<rparr>), free_blocks := fb\<rparr>"
      by (simp add: Let_def set_inode_def free_block_def)
    then show ?thesis using step ih by metis
  qed
qed

lemma free_blocks_loop_frame:
  "directories (free_blocks_loop ino i fs) = directories fs"
  "opened_file (free_blocks_loop ino i fs) = opened_file fs"
  "file_img (free_blocks_loop ino i fs) = file_img fs"
  "type_i (inodes (free_blocks_loop ino i fs) j) = type_i (inodes fs j)"
  "size_i (inodes (free_blocks_loop ino i fs) j) = size_i (inodes fs j)"
  "permissions (inodes (free_blocks_loop ino i fs) j) = permissions (inodes fs j)"
  "inode_rep_parent (inodes (free_blocks_loop ino i fs) j) = inode_rep_parent (inodes fs j)"
  "link_count (inodes (free_blocks_loop ino i fs) j) = link_count (inodes fs j)"
  using free_blocks_loop_shape [of ino i fs] by auto

lemma delete_file_entry_found:
  assumes "rechInode fname (directories fs dir_inode) = ino" "ino \<noteq> -1"
    and "directories fs2 = directories fs"
  shows "first_index
           (\<lambda>i. inode_index (entries (directories fs2 dir_inode) i) = ino \<and>
                fname = filename (entries (directories fs2 dir_inode) i))
           0 NUM_DIRECTORY_ENTRIES \<noteq> -1"
proof -
  obtain k where k: "0 \<le> k" "k < NUM_DIRECTORY_ENTRIES"
      "fname = filename (entries (directories fs dir_inode) k)"
      "inode_index (entries (directories fs dir_inode) k) = ino"
    using rechInode_entry [of fname "directories fs dir_inode"] assms(1,2) by auto
  show ?thesis unfolding assms(3) using k by (subst first_index_none) auto
qed

lemma delete_file_frees_inode:
  assumes "rechInode fname (directories fs dir_inode) = ino" "ino \<noteq> -1"
    and "type_i (inodes fs ino) = 1 \<or> type_i (inodes fs ino) = 2"
  shows "snd (delete_file now fname dir_inode fs) = None"
    and "type_i (inodes (fst (delete_file now fname dir_inode fs)) ino) = -1"
    and "size_i (inodes (fst (delete_file now fname dir_inode fs)) ino) = -1"
    and "directories (fst (delete_file now fname dir_inode fs)) =
           directories
             (clear_entry dir_inode
                (first_index
                   (\<lambda>i. inode_index (entries (directories fs dir_inode) i) = ino \<and>
                        fname = filename (entries (directories fs dir_inode) i))
                   0 NUM_DIRECTORY_ENTRIES) fs)"
  using assms
  by (auto simp add: delete_file_def Let_def set_inode_def clear_entry_def free_blocks_loop_frame)

lemma fs_linked_eval:
  "snd (create_hard_link ''b'' ''a'' 0 0 fs_one_file) = 0"
  "directories fs_linked 0 =
     \<lparr>entries = (\<lambda>i. \<lparr>filename = [], inode_index = -1\<rparr>)
        (0 := \<lparr>filename = ''a'', inode_index = 1\<rparr>, 1 := \<lparr>filename = ''b'', inode_index = 1\<rparr>)\<rparr>"
  "type_i (inodes fs_linked 1) = 1"
  "link_count (inodes fs_linked 1) = 1"
  by (simp_all add: fs_linked_def create_hard_link_def Let_def rechInode_one_file
        rechInode_one_file_absent one_file_free set_entry_def set_inode_def strncpy_str_def,
      simp_all add: fs_one_file_def)

lemma fs_linked_names:
  "rechInode ''a'' (directories fs_linked 0) = 1"
  "rechInode ''b'' (directories fs_linked 0) = 1"
  by (simp_all add: rechInode_first fs_linked_eval first_index_here first_index_skip)

lemma fs_unlinked_directory:
  "directories fs_unlinked 0 =
     \<lparr>entries = (\<lambda>i. \<lparr>filename = [], inode_index = -1\<rparr>)
        (0 := \<lparr>filename = [], inode_index = -1\<rparr>, 1 := \<lparr>filename = ''b'', inode_index = 1\<rparr>)\<rparr>"
proof -
  have t: "type_i (inodes fs_linked 1) = 1 \<or> type_i (inodes fs_linked 1) = 2"
    by (simp add: fs_linked_eval)
  have n: "(1::int) \<noteq> -1" by simp
  have k: "first_index
             (\<lambda>i. inode_index (entries (directories fs_linked 0) i) = 1 \<and>
                  ''a'' = filename (entries (directories fs_linked 0) i))
             0 NUM_DIRECTORY_ENTRIES = 0"
    by (simp add: fs_linked_eval first_index_here)
  show ?thesis
    unfolding fs_unlinked_def delete_file_frees_inode(4) [OF fs_linked_names(1) n t] k
    by (simp add: clear_entry_def fs_linked_eval fun_upd_twist)
qed

text \<open>
  Claim C1 at \<^verbatim>\<open>touch a; ln a b /; rm a\<close> in the root directory. After the link,
  both names resolve to inode 1, a file. \<^verbatim>\<open>delete_file\<close> then frees inode 1 without
  looking at its link count: the entry \<open>b\<close> is still occupied and still refers to
  inode 1, which is now free (type and size \<open>-1\<close>), and \<open>b\<close> cannot be opened.
\<close>

theorem delete_file_leaves_hard_link_dangling:
  "snd (create_hard_link ''b'' ''a'' 0 0 fs_one_file) = 0 \<and>
   rechInode ''a'' (directories fs_linked 0) = 1 \<and>
   rechInode ''b'' (directories fs_linked 0) = 1 \<and>
   type_i (inodes fs_linked 1) = 1 \<and>
   snd (delete_file 0 ''a'' 0 fs_linked) = None \<and>
   rechInode ''b'' (directories fs_unlinked 0) = 1 \<and>
   type_i (inodes fs_unlinked 1) = -1 \<and>
   size_i (inodes fs_unlinked 1) = -1 \<and>
   snd (open_file ''b'' 0 fs_unlinked) = -1"
proof -
  have t: "type_i (inodes fs_linked 1) = 1 \<or> type_i (inodes fs_linked 1) = 2"
    by (simp add: fs_linked_eval)
  have n: "(1::int) \<noteq> -1" by simp
  note d = delete_file_frees_inode [OF fs_linked_names(1) n t, of 0, folded fs_unlinked_def]
  have b: "rechInode ''b'' (directories fs_unlinked 0) = 1"
    by (simp add: rechInode_first fs_unlinked_directory first_index_here first_index_skip)
  have o: "snd (open_file ''b'' 0 fs_unlinked) = -1"
    using b d(2) by (simp add: open_file_def)
  show ?thesis using fs_linked_eval(1,3) fs_linked_names d(1,2,3) b o by simp
qed

subsection \<open>A directory removed around a subdirectory that stays\<close>

lemma rechInode_formatted: "rechInode fname (directories fs_formatted 0) = -1"
  by (rule rechInode_absent)
     (simp add: fs_formatted_def formatted_directory_def empty_directory_def)

lemma delete_children_empty:
  "(\<And>i. i \<in> set rest \<Longrightarrow> inode_index (entries (directories fs d) (int i)) = -1) \<Longrightarrow>
     delete_children n now d rest fs = Some fs"
  by (induction rest) simp_all

lemma create_directory_d:
  "create_directory 0 ''d'' 0 fs_formatted =
     (fs_formatted
        \<lparr>inodes := (inodes fs_formatted)
           (1 := \<lparr>type_i = 0, size_i = 0, creation_time = 0, modification_time = 0,
                 permissions = ''rwx'', blocks = (\<lambda>i. -1), link_count = 1,
                 inode_rep_parent = 0\<rparr>),
         directories := (directories fs_formatted)
           (0 := \<lparr>entries = (\<lambda>i. \<lparr>filename = [], inode_index = -1\<rparr>)
                     (0 := \<lparr>filename = ''d'', inode_index = 1\<rparr>)\<rparr>,
            1 := empty_directory)\<rparr>, 1)"
proof -
  have i: "first_index (\<lambda>i. size_i (inodes fs_formatted i) = -1) 0 NUM_INODES = 1"
    by (simp add: fs_formatted_def first_index_here first_index_skip root_inode_def free_inode_def)
  have e: "rechEntree fs_formatted 0 = 0"
    by (simp add: rechEntree_def fs_formatted_def first_index_here formatted_directory_def empty_directory_def)
  show ?thesis
    unfolding create_directory_def Let_def i e rechInode_formatted
    by (simp add: set_inode_def set_entry_def strncpy_raw_def strncpy_str_def
          fs_formatted_def free_inode_def formatted_directory_def empty_directory_def fun_eq_iff)
qed


lemma fs_nested_explicit:
  "fs_nested =
     \<lparr>file_img = blank_image,
      inodes = (\<lambda>i. free_inode)
        (0 := root_inode,
         1 := \<lparr>type_i = 0, size_i = 0, creation_time = 0, modification_time = 0,
               permissions = ''rwx'', blocks = (\<lambda>i. -1), link_count = 1,
               inode_rep_parent = 0\<rparr>,
         2 := \<lparr>type_i = 0, size_i = 0, creation_time = 0, modification_time = 0,
               permissions = ''r-x'', blocks = (\<lambda>i. -1), link_count = 1,
               inode_rep_parent = 1\<rparr>),
      directories = formatted_directory
        (0 := \<lparr>entries = (\<lambda>i. \<lparr>filename = [], inode_index = -1\<rparr>)
                  (0 := \<lparr>filename = ''d'', inode_index = 1\<rparr>)\<rparr>,
         1 := \<lparr>entries = (\<lambda>i. \<lparr>filename = [], inode_index = -1\<rparr>)
                  (0 := \<lparr>filename = ''e'', inode_index = 2\<rparr>)\<rparr>,
         2 := empty_directory),
      free_blocks = (\<lambda>i. 0),
      current_dir = 0,
      opened_file = (\<lambda>i. \<lparr>inode = -1, tete_lecture = -1\<rparr>)\<rparr>"
proof -
  let ?fs1 = "fst (create_directory 0 ''d'' 0 fs_formatted)"
  have i: "first_index (\<lambda>i. size_i (inodes ?fs1 i) = -1) 0 NUM_INODES = 2"
    unfolding create_directory_d
    by (simp add: fs_formatted_def first_index_here first_index_skip root_inode_def free_inode_def)
  have r: "rechInode ''e'' (directories ?fs1 1) = -1"
    unfolding create_directory_d
    by (rule rechInode_absent) (simp add: formatted_directory_def empty_directory_def)
  have e: "rechEntree ?fs1 1 = 0"
    unfolding create_directory_d
    by (simp add: rechEntree_def first_index_here formatted_directory_def empty_directory_def)
  let ?fs2 = "fst (create_directory 0 ''e'' 1 ?fs1)"
  have d2: "directories ?fs2 =
      formatted_directory
        (0 := \<lparr>entries = (\<lambda>i. \<lparr>filename = [], inode_index = -1\<rparr>)
                  (0 := \<lparr>filename = ''d'', inode_index = 1\<rparr>)\<rparr>,
         1 := \<lparr>entries = (\<lambda>i. \<lparr>filename = [], inode_index = -1\<rparr>)
                  (0 := \<lparr>filename = ''e'', inode_index = 2\<rparr>)\<rparr>,
         2 := empty_directory)"
    unfolding create_directory_def [of 0 "''e''"] Let_def i e r
    unfolding create_directory_d
    by (simp add: set_inode_def set_entry_def strncpy_raw_def strncpy_str_def
          fs_formatted_def free_inode_def formatted_directory_def empty_directory_def fun_eq_iff)
  have i2: "inodes ?fs2 =
      (\<lambda>i. free_inode)
        (0 := root_inode,
         1 := \<lparr>type_i = 0, size_i = 0, creation_time = 0, modification_time = 0,
               permissions = ''rwx'', blocks = (\<lambda>i. -1), link_count = 1,
               inode_rep_parent = 0\<rparr>,
         2 := \<lparr>type_i = 0, size_i = 0, creation_time = 0, modification_time = 0,
               permissions = ''rwx'', blocks = (\<lambda>i. -1), link_count = 1,
               inode_rep_parent = 1\<rparr>)"
    unfolding create_directory_def [of 0 "''e''"] Let_def i e r
    unfolding create_directory_d
    by (simp add: set_inode_def set_entry_def strncpy_raw_def strncpy_str_def
          fs_formatted_def free_inode_def formatted_directory_def empty_directory_def fun_eq_iff)
  have o2: "file_img ?fs2 = blank_image" "free_blocks ?fs2 = (\<lambda>i. 0)" "current_dir ?fs2 = 0"
    "opened_file ?fs2 = (\<lambda>i. \<lparr>inode = -1, tete_lecture = -1\<rparr>)"
    unfolding create_directory_def [of 0 "''e''"] Let_def i e r
    unfolding create_directory_d
    by (simp_all add: set_inode_def set_entry_def fs_formatted_def)
  have re: "rechInode ''e'' (directories ?fs2 1) = 2"
    unfolding d2 by (simp add: rechInode_first first_index_here)
  show ?thesis
    unfolding fs_nested_def change_permissions_def Let_def re
    by (simp add: i2 d2 o2 strncpy_raw_def fun_upd_twist)
qed


lemma fs_nested_fields:
  "rechInode ''d'' (directories fs_nested 0) = 1"
  "rechInode ''e'' (directories fs_nested 1) = 2"
  "type_i (inodes fs_nested 1) = 0" "type_i (inodes fs_nested 2) = 0"
  "size_i (inodes fs_nested 2) = 0"
  "has_permission fs_nested 1 (CHR ''w'') = 1"
  "has_permission fs_nested 2 (CHR ''w'') = 0"
  "entries (directories fs_nested 1) 0 = \<lparr>filename = ''e'', inode_index = 2\<rparr>"
  "\<And>i. i \<noteq> 0 \<Longrightarrow> inode_index (entries (directories fs_nested 1) i) = -1"
  by (simp_all add: fs_nested_explicit rechInode_first first_index_here has_permission_def
        strchr_def)

text \<open>The nested call on the subdirectory fails on its permission check.\<close>

lemma delete_directory_nested_inner:
  "delete_directory (Suc 0) 0 ''e'' 1 fs_nested = Some (fs_nested, -1)"
  by (simp add: fs_nested_fields)

lemma delete_children_nested:
  "delete_children (Suc 0) 0 1 [0 ..< 256] fs_nested = Some fs_nested"
proof -
  have u: "[0 ..< 256] = 0 # [Suc 0 ..< 256]"
    by (simp add: upt_conv_Cons)
  have rest: "delete_children (Suc 0) 0 1 [Suc 0 ..< 256] fs_nested = Some fs_nested"
    by (rule delete_children_empty) (simp add: fs_nested_fields)
  show ?thesis
    unfolding u
    by (simp add: fs_nested_fields delete_directory_nested_inner rest del: delete_directory.simps)
qed

lemma fs_removed_eval:
  "delete_directory (Suc (Suc 0)) 0 ''d'' 0 fs_nested = Some (fs_removed, 0)"
proof -
  have "\<exists>fs'. delete_directory (Suc (Suc 0)) 0 ''d'' 0 fs_nested = Some (fs', 0)"
    by (simp add: fs_nested_fields delete_children_nested Let_def
          del: delete_children.simps)
  then show ?thesis by (auto simp add: fs_removed_def)
qed

lemma fs_removed_fields:
  "type_i (inodes fs_removed 1) = -1"
  "type_i (inodes fs_removed 2) = 0"
  "size_i (inodes fs_removed 2) = 0"
  "entries (directories fs_removed 1) 0 = \<lparr>filename = ''e'', inode_index = 2\<rparr>"
  "rechInode ''d'' (directories fs_removed 0) = -1"
proof -
  have k: "first_index
             (\<lambda>i. inode_index (entries (directories fs_nested 0) i) = 1 \<and>
                  filename (entries (directories fs_nested 0) i) = ''d'')
             0 NUM_DIRECTORY_ENTRIES = 0"
    by (simp add: fs_nested_explicit first_index_here)
  have r: "fs_removed =
      free_blocks_loop 1 0
        (set_inode 1
           ((inodes (clear_entry 0 0 fs_nested) 1)
              \<lparr>size_i := -1, type_i := -1, creation_time := 0, modification_time := 0,
               inode_rep_parent := -1, link_count := 0\<rparr>)
           (clear_entry 0 0 fs_nested))"
    unfolding fs_removed_def
    by (simp add: fs_nested_fields delete_children_nested Let_def k
          del: delete_children.simps)
  show "type_i (inodes fs_removed 1) = -1" "type_i (inodes fs_removed 2) = 0"
    "size_i (inodes fs_removed 2) = 0"
    "entries (directories fs_removed 1) 0 = \<lparr>filename = ''e'', inode_index = 2\<rparr>"
    unfolding r free_blocks_loop_frame
    by (simp_all add: set_inode_def clear_entry_def fs_nested_fields)
  show "rechInode ''d'' (directories fs_removed 0) = -1"
    unfolding r free_blocks_loop_frame
    by (rule rechInode_absent)
       (simp add: set_inode_def clear_entry_def fs_nested_explicit)
qed

text \<open>
  \<^verbatim>\<open>remdir d\<close> after \<^verbatim>\<open>mkdir d; cd d; mkdir e; chmod e r-x; cd ..\<close>. The nested call
  on \<open>e\<close> returns \<open>-1\<close>; the outer call discards that result, removes \<open>d\<close> from the
  root, frees inode 1 and returns \<open>0\<close>, while the subdirectory it was to delete is
  still allocated and still entered in the record of the freed directory.
\<close>

lemma delete_directory_ignores_nested_failure:
  "delete_directory (Suc 0) 0 ''e'' 1 fs_nested = Some (fs_nested, -1) \<and>
   delete_directory (Suc (Suc 0)) 0 ''d'' 0 fs_nested = Some (fs_removed, 0) \<and>
   rechInode ''d'' (directories fs_nested 0) = 1 \<and>
   rechInode ''d'' (directories fs_removed 0) = -1 \<and>
   type_i (inodes fs_removed 1) = -1 \<and>
   type_i (inodes fs_removed 2) = 0 \<and>
   size_i (inodes fs_removed 2) = 0 \<and>
   inode_index (entries (directories fs_removed 1) 0) = 2"
  by (simp add: delete_directory_nested_inner fs_removed_eval fs_removed_fields
        fs_nested_fields del: delete_directory.simps)

subsection \<open>Path resolution\<close>

lemma split_slash_not_Nil: "split_slash s \<noteq> []"
  by (induction s) (auto split: list.splits)

lemma path_components_slash: "path_components (CHR ''/'' # cs) = path_components cs"
  by (simp add: path_components_def)

lemma path_components_dropWhile:
  "path_components (dropWhile (\<lambda>c. c = CHR ''/'') s) = path_components s"
  by (induction s) (simp_all add: path_components_slash)

lemma split_slash_token:
  "split_slash s =
     takeWhile (\<lambda>c. c \<noteq> CHR ''/'') s #
       (case dropWhile (\<lambda>c. c \<noteq> CHR ''/'') s of [] \<Rightarrow> [] | c # r \<Rightarrow> split_slash r)"
proof (induction s)
  case Nil
  show ?case by simp
next
  case (Cons c cs)
  show ?case
  proof (cases "c = CHR ''/''")
    case True
    then show ?thesis by simp
  next
    case False
    then show ?thesis using Cons by simp
  qed
qed

lemma path_components_token:
  assumes "s \<noteq> []" "hd s \<noteq> CHR ''/''"
  shows "path_components s =
           takeWhile (\<lambda>c. c \<noteq> CHR ''/'') s #
             path_components (drop 1 (dropWhile (\<lambda>c. c \<noteq> CHR ''/'') s))"
proof -
  let ?t = "takeWhile (\<lambda>c. c \<noteq> CHR ''/'') s"
  let ?d = "dropWhile (\<lambda>c. c \<noteq> CHR ''/'') s"
  have t: "?t \<noteq> []" using assms by (cases s) auto
  have e: "path_components s =
      filter (\<lambda>t. t \<noteq> []) (?t # (case ?d of [] \<Rightarrow> [] | c # r \<Rightarrow> split_slash r))"
    unfolding path_components_def by (subst split_slash_token) (rule refl)
  show ?thesis
  proof (cases ?d)
    case Nil
    have "path_components s = [?t]" unfolding e Nil using t by simp
    moreover have "path_components (drop 1 ?d) = []"
      unfolding Nil by (simp add: path_components_def)
    ultimately show ?thesis by simp
  next
    case (Cons c r)
    have "path_components s = ?t # path_components r"
      unfolding e Cons using t by (simp add: path_components_def)
    moreover have "drop 1 ?d = r" unfolding Cons by simp
    ultimately show ?thesis by simp
  qed
qed

lemma strtok_None: "strtok s = None \<Longrightarrow> path_components s = []"
proof -
  assume "strtok s = None"
  then have "dropWhile (\<lambda>c. c = CHR ''/'') s = []"
    unfolding strtok_def Let_def
    by (cases "dropWhile (\<lambda>c. c = CHR ''/'') s = []") (simp_all del: dropWhile_eq_Nil_conv)
  then have "path_components (dropWhile (\<lambda>c. c = CHR ''/'') s) = []"
    by (simp add: path_components_def del: dropWhile_eq_Nil_conv)
  then show ?thesis by (simp only: path_components_dropWhile)
qed

lemma strtok_Some:
  assumes "strtok s = Some (t, r)"
  shows "path_components s = t # path_components r"
proof -
  let ?s1 = "dropWhile (\<lambda>c. c = CHR ''/'') s"
  have ne: "?s1 \<noteq> []"
    using assms unfolding strtok_def Let_def
    by (cases "?s1 = []") (simp_all del: dropWhile_eq_Nil_conv)
  have tr: "t = takeWhile (\<lambda>c. c \<noteq> CHR ''/'') ?s1"
    "r = drop 1 (dropWhile (\<lambda>c. c \<noteq> CHR ''/'') ?s1)"
    using assms ne unfolding strtok_def Let_def by (simp_all del: dropWhile_eq_Nil_conv)
  have hd: "hd ?s1 \<noteq> CHR ''/''" using ne hd_dropWhile [of "\<lambda>c. c = CHR ''/''" s] by blast
  have "path_components ?s1 = t # path_components r"
    unfolding tr by (rule path_components_token [OF ne hd])
  then show ?thesis by (simp only: path_components_dropWhile)
qed

lemma path_loop_resolve:
  "path_loop fs ino s =
     (case resolve fs ino (path_components s) of None \<Rightarrow> -1 | Some i \<Rightarrow> i)"
proof (induction fs ino s rule: path_loop.induct)
  case (1 fs ino s)
  show ?case
  proof (cases "strtok s")
    case None
    then show ?thesis by (subst path_loop.simps) (simp add: strtok_None)
  next
    case (Some tr)
    obtain t r where tr: "tr = (t, r)" by (cases tr)
    have pc: "path_components s = t # path_components r"
      using Some tr by (simp add: strtok_Some)
    note ih = "1.IH" [OF Some tr [symmetric]]
    show ?thesis
    proof (cases "t = ''.''")
      case True
      then show ?thesis using Some tr pc ih(1)
        by (subst path_loop.simps) simp
    next
      case nd: False
      show ?thesis
      proof (cases "t = ''..''")
        case True
        then show ?thesis using Some tr pc ih(2) nd
          by (subst path_loop.simps) simp
      next
        case ndd: False
        show ?thesis
        proof (cases "rechInode t (directories fs ino) = -1")
          case True
          then show ?thesis using Some tr pc nd ndd
            by (subst path_loop.simps) (simp add: Let_def)
        next
          case False
          then show ?thesis using Some tr pc nd ndd ih(3) [OF nd ndd refl False]
            by (subst path_loop.simps) (simp add: Let_def)
        qed
      qed
    qed
  qed
qed

lemma resolve_append:
  "resolve fs cur (ts @ us) =
     (case resolve fs cur ts of None \<Rightarrow> None | Some d \<Rightarrow> resolve fs d us)"
  by (induction ts arbitrary: cur) simp_all

text \<open>
  Claim C8, as amended. For every path of at most 1023 bytes, \<open>get_inode_from_path\<close>
  is the specification's resolver: it starts from inode 0 when the path begins with a
  slash and from \<open>s\<close> otherwise, keeps the inode at \<open>.\<close>, moves to
  \<open>inode_rep_parent\<close> at \<open>..\<close>, looks any other component up in the directory record of
  the current inode, and returns \<open>-1\<close> exactly when a lookup finds nothing. The type of
  an inode is never examined: when the last component is a name found in the directory
  reached, its inode is returned as it is, a symbolic link included.
\<close>

theorem get_inode_from_path_resolves:
  assumes "length p \<le> 1023"
  shows "get_inode_from_path fs p s =
           (case resolve_path fs p s of None \<Rightarrow> -1 | Some i \<Rightarrow> i) \<and>
         (\<forall>ts t d. path_components p = ts @ [t] \<and>
              resolve fs (if take 1 p = ''/'' then 0 else s) ts = Some d \<and>
              t \<noteq> ''.'' \<and> t \<noteq> ''..'' \<and> rechInode t (directories fs d) \<noteq> -1 \<longrightarrow>
            get_inode_from_path fs p s = rechInode t (directories fs d))"
proof -
  have g: "get_inode_from_path fs p s =
      (case resolve_path fs p s of None \<Rightarrow> -1 | Some i \<Rightarrow> i)"
    using assms
    by (simp add: get_inode_from_path_def strncpy_str_def path_loop_resolve resolve_path_def)
  show ?thesis
  proof (intro conjI allI impI)
    show "get_inode_from_path fs p s =
      (case resolve_path fs p s of None \<Rightarrow> -1 | Some i \<Rightarrow> i)" by (rule g)
  next
    fix ts t d
    assume a: "path_components p = ts @ [t] \<and>
              resolve fs (if take 1 p = ''/'' then 0 else s) ts = Some d \<and>
              t \<noteq> ''.'' \<and> t \<noteq> ''..'' \<and> rechInode t (directories fs d) \<noteq> -1"
    then have "resolve_path fs p s = Some (rechInode t (directories fs d))"
      by (simp add: resolve_path_def resolve_append)
    then show "get_inode_from_path fs p s = rechInode t (directories fs d)"
      using g by simp
  qed
qed


lemma fs_symlink_fields:
  "rechInode ''l'' (directories fs_symlink 0) = 2"
  "type_i (inodes fs_symlink 2) = 2"
proof -
  have ok: "snd (create_symbolic_link 0 ''l'' ''a'' 0 fs_one_file) \<noteq> -1"
    by (simp add: create_symbolic_link_one_file)
  show "type_i (inodes fs_symlink 2) = 2"
    using create_symbolic_link_inode(2) [OF ok]
    by (simp add: create_symbolic_link_one_file fs_symlink_def)
  have "directories fs_symlink 0 =
     \<lparr>entries = (\<lambda>i. \<lparr>filename = [], inode_index = -1\<rparr>)
        (0 := \<lparr>filename = ''a'', inode_index = 1\<rparr>, 1 := \<lparr>filename = ''l'', inode_index = 2\<rparr>)\<rparr>"
    by (simp add: fs_symlink_def create_symbolic_link_def Let_def rechInode_one_file_absent
          get_inode_from_path_one_file one_file_free allocate_block_def set_entry_def
          set_inode_def strncpy_str_def)
       (simp add: fs_one_file_def)
  then show "rechInode ''l'' (directories fs_symlink 0) = 2"
    by (simp add: rechInode_first first_index_here first_index_skip)
qed

theorem get_inode_from_path_resolves_witness:
  "length ''/l'' \<le> 1023 \<and>
   path_components ''/l'' = [] @ [''l''] \<and>
   resolve fs_symlink 0 [] = Some 0 \<and>
   rechInode ''l'' (directories fs_symlink 0) = 2 \<and>
   type_i (inodes fs_symlink 2) = 2 \<and>
   get_inode_from_path fs_symlink ''/l'' 1 = 2"
proof -
  have l: "length ''/l'' \<le> 1023" by simp
  have c: "path_components ''/l'' = [] @ [''l'']" by (simp add: path_components_def)
  have "get_inode_from_path fs_symlink ''/l'' 1 = rechInode ''l'' (directories fs_symlink 0)"
    using get_inode_from_path_resolves [OF l, of fs_symlink 1] c
    by (simp add: fs_symlink_fields)
  then show ?thesis using c fs_symlink_fields by simp
qed

text \<open>
  The claim as stated, for every path, fails on a path longer than the 1023 bytes the
  resolver copies: after 1024 slashes the component \<open>x\<close>, which the root directory
  does not hold, is never looked at, and the result is inode 0 instead of not-found.
\<close>

lemma path_components_slashes:
  "path_components (replicate n (CHR ''/'') @ s) = path_components s"
  by (induction n) (simp_all add: path_components_slash)

theorem get_inode_from_path_long_path_counterexample:
  "get_inode_from_path fs_formatted (replicate 1024 (CHR ''/'') @ ''x'') 0 = 0 \<and>
   path_components (replicate 1024 (CHR ''/'') @ ''x'') = [''x''] \<and>
   rechInode ''x'' (directories fs_formatted 0) = -1 \<and>
   resolve_path fs_formatted (replicate 1024 (CHR ''/'') @ ''x'') 0 = None"
proof -
  have t: "strncpy_str 1023 (replicate 1024 (CHR ''/'') @ ''x'') = replicate 1023 (CHR ''/'')"
    by (simp add: strncpy_str_def)
  have s: "strtok (replicate 1023 (CHR ''/'')) = None"
    by (simp add: strtok_def)
  have g: "get_inode_from_path fs_formatted (replicate 1024 (CHR ''/'') @ ''x'') 0 = 0"
    unfolding get_inode_from_path_def t by (subst path_loop.simps) (simp add: s)
  have c: "path_components (replicate 1024 (CHR ''/'') @ ''x'') = [''x'']"
    unfolding path_components_slashes by (simp add: path_components_def)
  have r: "resolve_path fs_formatted (replicate 1024 (CHR ''/'') @ ''x'') 0 = None"
    unfolding resolve_path_def c by (simp add: rechInode_formatted)
  show ?thesis using g c r rechInode_formatted by simp
qed

subsection \<open>Runs of the write and read loops\<close>

lemma stored_0: "stored ino texte j l 0 fs = fs"
  by (rule Filesystem.equality) (auto simp add: stored_def fun_eq_iff intro!: Image.equality)

lemma write_block_stop:
  "\<not> (j < sz \<and> lecteur \<le> SIZEOF_FILESYSTEM + (num_block + 1) * BLOCK_SIZE) \<Longrightarrow>
     write_block ino texte sz num_block (fs, tmp, maj, j, lecteur) = (fs, tmp, maj, j, lecteur)"
  by (subst write_block.simps) auto

lemma write_block_step:
  "j < sz \<Longrightarrow> lecteur \<le> SIZEOF_FILESYSTEM + (num_block + 1) * BLOCK_SIZE \<Longrightarrow>
     write_byte ino (texte ! nat j) lecteur (fs, tmp, maj) = (fs1, tmp1, maj1) \<Longrightarrow>
     write_block ino texte sz num_block (fs, tmp, maj, j, lecteur) =
       write_block ino texte sz num_block (fs1, tmp1, maj1, j + 1, lecteur + 1)"
  by (subst write_block.simps) auto

lemma write_byte_new:
  assumes "0 \<le> l" "l < len (file_img fs)" "bytes (file_img fs) l = NUL"
  shows "write_byte ino c l (fs, tmp, maj) =
           (fs\<lparr>file_img := (file_img fs)\<lparr>bytes := (bytes (file_img fs))(l := c)\<rparr>,
               inodes := (inodes fs)
                 (ino := (inodes fs ino)\<lparr>size_i := size_i (inodes fs ino) + 1\<rparr>)\<rparr>,
            NUL, maj + 1)"
  using assms
  by (simp add: write_byte_def fread_byte_def fwrite_byte_def set_inode_def Let_def max_def)

lemma write_byte_old:
  assumes "0 \<le> l" "l < len (file_img fs)" "bytes (file_img fs) l \<noteq> NUL"
  shows "write_byte ino c l (fs, tmp, maj) =
           (fs\<lparr>file_img := (file_img fs)\<lparr>bytes := (bytes (file_img fs))(l := c)\<rparr>\<rparr>,
            bytes (file_img fs) l, maj)"
  using assms
  by (simp add: write_byte_def fread_byte_def fwrite_byte_def set_inode_def Let_def max_def)

text \<open>
  At the end of the image nothing is read: \<^verbatim>\<open>texte_tmp\<close> keeps the byte of the previous
  probe, and the seek back by one moves the write onto the last byte of the image.
\<close>

lemma write_byte_at_end:
  assumes "l = len (file_img fs)" "0 < l"
  shows "write_byte ino c l (fs, NUL, maj) =
           (fs\<lparr>file_img := (file_img fs)\<lparr>bytes := (bytes (file_img fs))(l - 1 := c)\<rparr>,
               inodes := (inodes fs)
                 (ino := (inodes fs ino)\<lparr>size_i := size_i (inodes fs ino) + 1\<rparr>)\<rparr>,
            NUL, maj + 1)"
  using assms
  by (simp add: write_byte_def fread_byte_def fwrite_byte_def set_inode_def Let_def max_def)

lemma write_block_fresh_run:
  assumes "0 \<le> l" "l + int k \<le> len (file_img fs)" "j + int k \<le> sz"
    and "l + int k \<le> SIZEOF_FILESYSTEM + (num_block + 1) * BLOCK_SIZE + 1"
    and "\<And>p. l \<le> p \<Longrightarrow> p < l + int k \<Longrightarrow> bytes (file_img fs) p = NUL"
    and "0 \<le> j"
  shows "write_block ino texte sz num_block (fs, tmp, maj, j, l) =
           write_block ino texte sz num_block
             (stored ino texte j l k fs, (if k = 0 then tmp else NUL), maj + int k,
              j + int k, l + int k)"
  using assms
proof (induction k arbitrary: fs tmp maj j l)
  case 0
  then show ?case by (simp add: stored_0)
next
  case (Suc k)
  let ?c = "texte ! nat j"
  let ?fs1 = "fs\<lparr>file_img := (file_img fs)\<lparr>bytes := (bytes (file_img fs))(l := ?c)\<rparr>,
               inodes := (inodes fs)
                 (ino := (inodes fs ino)\<lparr>size_i := size_i (inodes fs ino) + 1\<rparr>)\<rparr>"
  have z: "bytes (file_img fs) l = NUL" using Suc.prems(5) [of l] by simp
  have wb: "write_byte ino ?c l (fs, tmp, maj) = (?fs1, NUL, maj + 1)"
    using Suc.prems(1,2) z by (intro write_byte_new) auto
  have step: "write_block ino texte sz num_block (fs, tmp, maj, j, l) =
      write_block ino texte sz num_block (?fs1, NUL, maj + 1, j + 1, l + 1)"
    using Suc.prems(3,4) wb by (intro write_block_step) auto
  have ih: "write_block ino texte sz num_block (?fs1, NUL, maj + 1, j + 1, l + 1) =
      write_block ino texte sz num_block
        (stored ino texte (j + 1) (l + 1) k ?fs1, (if k = 0 then NUL else NUL),
         maj + 1 + int k, j + 1 + int k, l + 1 + int k)"
    using Suc.prems by (intro Suc.IH) auto
  have st: "stored ino texte (j + 1) (l + 1) k ?fs1 = stored ino texte j l (Suc k) fs"
    by (rule Filesystem.equality)
       (auto simp add: stored_def fun_eq_iff add.commute add.left_commute intro!: Image.equality)
  show ?case unfolding step ih st by (simp add: add.commute add.left_commute)
qed


lemma stored_fields:
  "bytes (file_img (stored ino texte j l k fs)) p =
     (if l \<le> p \<and> p < l + int k then texte ! nat (j + (p - l)) else bytes (file_img fs) p)"
  "len (file_img (stored ino texte j l k fs)) = len (file_img fs)"
  "inodes (stored ino texte j l k fs) =
     (inodes fs)(ino := (inodes fs ino)\<lparr>size_i := size_i (inodes fs ino) + int k\<rparr>)"
  "free_blocks (stored ino texte j l k fs) = free_blocks fs"
  "directories (stored ino texte j l k fs) = directories fs"
  "opened_file (stored ino texte j l k fs) = opened_file fs"
  "current_dir (stored ino texte j l k fs) = current_dir fs"
  by (simp_all add: stored_def)

lemma write_blocks_stop:
  "\<not> j < sz \<Longrightarrow>
     write_blocks ino texte sz (fs, tmp, maj, j, lecteur) block_index =
       (fs, tmp, maj, j, lecteur)"
  by (subst write_blocks.simps) simp

lemma write_blocks_allocate:
  assumes "j < sz" "blocks (inodes fs ino) (block_index + 1) = -1"
    and "snd (allocate_block fs) = nb" "nb \<noteq> -1"
  shows "write_blocks ino texte sz (fs, tmp, maj, j, lecteur) block_index =
           write_blocks ino texte sz
             (write_block ino texte sz nb
                (set_inode ino
                   ((inodes (fst (allocate_block fs)) ino)
                      \<lparr>blocks := (blocks (inodes (fst (allocate_block fs)) ino))
                                   (block_index + 1 := nb)\<rparr>)
                   (fst (allocate_block fs)),
                 tmp, maj, j, SIZEOF_FILESYSTEM + nb * BLOCK_SIZE))
             (block_index + 1)"
  using assms by (subst write_blocks.simps) (simp add: Let_def)

lemma write_blocks_next:
  assumes "j < sz" "blocks (inodes fs ino) (block_index + 1) = nb" "nb \<noteq> -1"
  shows "write_blocks ino texte sz (fs, tmp, maj, j, lecteur) block_index =
           write_blocks ino texte sz
             (write_block ino texte sz nb
                (fs, tmp, maj, j, SIZEOF_FILESYSTEM + nb * BLOCK_SIZE))
             (block_index + 1)"
  using assms by (subst write_blocks.simps) (simp add: Let_def)

lemma update_parents_root: "update_parents maj 0 fs = Some fs"
  by (subst update_parents.simps) simp

lemma update_parents_child_of_root:
  assumes "i \<noteq> 0" "inode_rep_parent (inodes fs i) = 0"
  shows "update_parents maj i fs =
           Some (set_inode 0 ((inodes fs 0)\<lparr>size_i := size_i (inodes fs 0) + maj\<rparr>) fs)"
  using assms by (subst update_parents.simps) (simp add: update_parents_root)

text \<open>The read loop: \<open>k\<close> bytes inside the image land in the buffer from index \<open>j\<close> on.\<close>

lemma read_block_stop:
  "\<not> (j < sz \<and> lecteur \<le> SIZEOF_FILESYSTEM + (num_block + 1) * BLOCK_SIZE) \<Longrightarrow>
     read_block img sz num_block (texte, j, lecteur) = (texte, j, lecteur)"
  by (subst read_block.simps) auto

lemma read_block_step:
  "j < sz \<Longrightarrow> lecteur \<le> SIZEOF_FILESYSTEM + (num_block + 1) * BLOCK_SIZE \<Longrightarrow>
     read_block img sz num_block (texte, j, lecteur) =
       read_block img sz num_block
         (texte[nat j := fst (fread_byte img lecteur (texte ! nat j))], j + 1, lecteur + 1)"
  by (subst read_block.simps) auto

lemma read_block_run:
  assumes "0 \<le> l" "l + int k \<le> len img" "0 \<le> j" "j + int k \<le> sz"
    and "l + int k \<le> SIZEOF_FILESYSTEM + (num_block + 1) * BLOCK_SIZE + 1"
  shows "\<exists>t. read_block img sz num_block (texte, j, l) =
               read_block img sz num_block (t, j + int k, l + int k) \<and>
             length t = length texte \<and>
             (\<forall>q < length texte.
                t ! q = (if nat j \<le> q \<and> q < nat j + k then bytes img (l + (int q - j))
                         else texte ! q))"
  using assms
proof (induction k arbitrary: texte j l)
  case 0
  show ?case by (rule exI [of _ texte]) auto
next
  case (Suc k)
  let ?t1 = "texte[nat j := bytes img l]"
  have fr: "fst (fread_byte img l (texte ! nat j)) = bytes img l"
    using Suc.prems(1,2) by (simp add: fread_byte_def)
  have step: "read_block img sz num_block (texte, j, l) =
      read_block img sz num_block (?t1, j + 1, l + 1)"
    using Suc.prems(4,5) read_block_step [of j sz l num_block img texte] fr by simp
  obtain t where t: "read_block img sz num_block (?t1, j + 1, l + 1) =
        read_block img sz num_block (t, j + 1 + int k, l + 1 + int k)"
      "length t = length ?t1"
      "\<forall>q < length ?t1.
          t ! q = (if nat (j + 1) \<le> q \<and> q < nat (j + 1) + k
                   then bytes img (l + 1 + (int q - (j + 1))) else ?t1 ! q)"
    using Suc.IH [of "l + 1" "j + 1" ?t1] Suc.prems by auto
  have "\<forall>q < length texte.
      t ! q = (if nat j \<le> q \<and> q < nat j + Suc k then bytes img (l + (int q - j))
               else texte ! q)"
  proof (intro allI impI)
    fix q assume q: "q < length texte"
    show "t ! q = (if nat j \<le> q \<and> q < nat j + Suc k then bytes img (l + (int q - j))
               else texte ! q)"
    proof (cases "q = nat j")
      case True
      then show ?thesis using t(3) q Suc.prems(3) by simp
    next
      case False
      have "nat (j + 1) = Suc (nat j)" using Suc.prems(3) by simp
      then show ?thesis using t(3) q False by (auto simp add: algebra_simps)
    qed
  qed
  then show ?case using step t(1,2) by (intro exI [of _ t]) (simp add: add.commute add.left_commute)
qed

lemma read_blocks_stop:
  "\<not> j < sz \<Longrightarrow>
     read_blocks img blks sz (texte, j, lecteur) block_index = ((texte, j, lecteur), False)"
  by (subst read_blocks.simps) simp

lemma read_blocks_next:
  assumes "j < sz" "blks (block_index + 1) = nb" "nb \<noteq> -1"
  shows "read_blocks img blks sz (texte, j, lecteur) block_index =
           read_blocks img blks sz
             (read_block img sz nb (texte, j, SIZEOF_FILESYSTEM + nb * BLOCK_SIZE))
             (block_index + 1)"
  using assms by (subst read_blocks.simps) (simp add: Let_def)

lemma seek_blocks_zero: "seek_blocks blks 0 (0, lecteur) block_index = (0, lecteur, False)"
  by (subst seek_blocks.simps) simp

subsection \<open>Writing 514 bytes to a new file and reading them back\<close>

lemma fs_open_fields:
  "snd (open_file ''a'' 0 fs_one_file) = 0"
  "opened_file fs_open 0 = \<lparr>inode = 1, tete_lecture = SIZEOF_FILESYSTEM\<rparr>"
  "inodes fs_open = inodes fs_one_file"
  "file_img fs_open = blank_image"
  "free_blocks fs_open = free_blocks fs_one_file"
proof -
  have d: "first_index (\<lambda>i. inode (opened_file fs_one_file i) = -1) 0 MAX_FILE_OPEN = 0"
    by (rule first_index_here) (simp_all add: fs_one_file_def)
  have t: "type_i (inodes fs_one_file 1) = 1 \<or> type_i (inodes fs_one_file 1) = 2"
    by (simp add: fs_one_file_def)
  have n: "(1::int) \<noteq> -1" "(0::int) \<noteq> -1" by simp_all
  note o = open_file_succeeds [OF rechInode_one_file n(1) t d n(2)]
  show "snd (open_file ''a'' 0 fs_one_file) = 0" unfolding o by simp
  show "opened_file fs_open 0 = \<lparr>inode = 1, tete_lecture = SIZEOF_FILESYSTEM\<rparr>"
    unfolding fs_open_def o by (simp add: fs_one_file_def)
  show "inodes fs_open = inodes fs_one_file" "file_img fs_open = blank_image"
    "free_blocks fs_open = free_blocks fs_one_file"
    unfolding fs_open_def o by (simp_all add: fs_one_file_def)
qed

lemma inode_one_file:
  "type_i (inodes fs_one_file 1) = 1" "permissions (inodes fs_one_file 1) = ''rw-''"
  "blocks (inodes fs_one_file 1) 0 = 0" "blocks (inodes fs_one_file 1) 1 = -1"
  "inode_rep_parent (inodes fs_one_file 1) = 0"
  "size_i (inodes fs_one_file 1) = 0" "size_i (inodes fs_one_file 0) = 0"
  by (simp_all add: fs_one_file_def root_inode_def)

lemma bytes_514_fields:
  "length bytes_514 = 514" "bytes_514 ! 512 = CHR ''b''" "bytes_514 ! 513 = CHR ''c''"
  by (simp_all add: bytes_514_def nth_append)

text \<open>
  The first loop stores 513 bytes from the start of block 0: its bound admits the
  position one past the end of the block, which is the first byte of block 1.
\<close>

lemma write_first_block:
  "write_block 1 bytes_514 514 0 (fs_open, NUL, 0, 0, SIZEOF_FILESYSTEM) =
     (stored 1 bytes_514 0 SIZEOF_FILESYSTEM 513 fs_open, NUL, 513, 513,
      SIZEOF_FILESYSTEM + 513)"
proof -
  have "write_block 1 bytes_514 514 0 (fs_open, NUL, 0, 0, SIZEOF_FILESYSTEM) =
      write_block 1 bytes_514 514 0
        (stored 1 bytes_514 0 SIZEOF_FILESYSTEM 513 fs_open,
         (if (513::nat) = 0 then NUL else NUL), 0 + int 513, 0 + int 513,
         SIZEOF_FILESYSTEM + int 513)"
    by (rule write_block_fresh_run) (simp_all add: fs_open_fields blank_image_def)
  also have "\<dots> = (stored 1 bytes_514 0 SIZEOF_FILESYSTEM 513 fs_open, NUL, 513, 513,
      SIZEOF_FILESYSTEM + 513)"
    by (simp add: write_block_stop)
  finally show ?thesis .
qed

text \<open>
  The second loop allocates block 1 and restarts at its first byte, which already
  holds byte 512 of the text: byte 513 replaces it and is not counted as new.
\<close>

lemma fs_w1_allocate: "snd (allocate_block fs_w1) = 1"
  "fst (allocate_block fs_w1) = fs_w1\<lparr>free_blocks := (free_blocks fs_w1)(1 := 1)\<rparr>"
proof -
  have f: "first_index (\<lambda>i. free_blocks fs_w1 i = 0) 0 NUM_BLOCKS = 1"
    by (simp add: fs_w1_def stored_fields fs_open_fields one_file_free)
  show "snd (allocate_block fs_w1) = 1"
    "fst (allocate_block fs_w1) = fs_w1\<lparr>free_blocks := (free_blocks fs_w1)(1 := 1)\<rparr>"
    by (simp_all add: allocate_block_def f)
qed

lemma fs_w2_fields:
  "file_img fs_w2 = file_img fs_w1"
  "blocks (inodes fs_w2 1) 0 = 0" "blocks (inodes fs_w2 1) 1 = 1"
  "type_i (inodes fs_w2 1) = 1" "permissions (inodes fs_w2 1) = ''rw-''"
  "inode_rep_parent (inodes fs_w2 1) = 0"
  "opened_file fs_w2 = opened_file fs_open"
  "size_i (inodes fs_w2 1) = 513" "size_i (inodes fs_w2 0) = 0"
  unfolding fs_w2_def fs_w1_allocate
  by (simp_all add: set_inode_def fs_w1_def stored_fields fs_open_fields inode_one_file)

lemma write_second_block:
  "write_blocks 1 bytes_514 514 (fs_w1, NUL, 513, 513, SIZEOF_FILESYSTEM + 513) 0 =
     (fs_w3, CHR ''b'', 513, 514, SIZEOF_FILESYSTEM + 513)"
proof -
  have b1: "blocks (inodes fs_w1 1) (0 + 1) = -1"
    by (simp add: fs_w1_def stored_fields fs_open_fields inode_one_file)
  have n: "(1::int) \<noteq> -1" by simp
  have old: "bytes (file_img fs_w2) (SIZEOF_FILESYSTEM + 512) = CHR ''b''"
    by (simp add: fs_w2_fields fs_w1_def stored_fields bytes_514_fields)
  have ln: "len (file_img fs_w2) = SIZEOF_FILESYSTEM + NUM_BLOCKS * BLOCK_SIZE"
    by (simp add: fs_w2_fields fs_w1_def stored_fields fs_open_fields blank_image_def)
  have wb: "write_byte 1 (bytes_514 ! nat 513) (SIZEOF_FILESYSTEM + 512) (fs_w2, NUL, 513) =
      (fs_w3, CHR ''b'', 513)"
    unfolding fs_w3_def
    using write_byte_old [of "SIZEOF_FILESYSTEM + 512" fs_w2 1 "CHR ''c''" NUL 513] old ln
    by (simp add: bytes_514_fields)
  have "write_blocks 1 bytes_514 514 (fs_w1, NUL, 513, 513, SIZEOF_FILESYSTEM + 513) 0 =
      write_blocks 1 bytes_514 514
        (write_block 1 bytes_514 514 1
           (fs_w2, NUL, 513, 513, SIZEOF_FILESYSTEM + 1 * BLOCK_SIZE)) (0 + 1)"
    using write_blocks_allocate
      [of 513 514 fs_w1 1 0 1 bytes_514 NUL 513 "SIZEOF_FILESYSTEM + 513",
       OF _ b1 fs_w1_allocate(1) n]
    by (simp add: fs_w2_def)
  also have "write_block 1 bytes_514 514 1
           (fs_w2, NUL, 513, 513, SIZEOF_FILESYSTEM + 1 * BLOCK_SIZE) =
       write_block 1 bytes_514 514 1 (fs_w3, CHR ''b'', 513, 513 + 1, SIZEOF_FILESYSTEM + 512 + 1)"
    using write_block_step [of 513 514 "SIZEOF_FILESYSTEM + 512" 1 1 bytes_514 fs_w2 NUL 513
        fs_w3 "CHR ''b''" 513] wb
    by simp
  also have "\<dots> = (fs_w3, CHR ''b'', 513, 514, SIZEOF_FILESYSTEM + 513)"
    by (simp add: write_block_stop)
  finally show ?thesis by (simp add: write_blocks_stop)
qed


lemma cursor_block_first:
  assumes "blocks (inodes fs ino) 0 = b"
    and "SIZEOF_FILESYSTEM + b * BLOCK_SIZE \<le> lecteur"
    and "lecteur < SIZEOF_FILESYSTEM + (b + 1) * BLOCK_SIZE"
  shows "cursor_block fs ino lecteur = 0"
  unfolding cursor_block_def using assms by (intro first_index_here) auto

lemma fs_written_eval:
  "write_file 0 bytes_514 514 fs_open = Some (fs_written, 513)"
  "fs_written =
     (set_inode 0 ((inodes fs_w3 0)\<lparr>size_i := size_i (inodes fs_w3 0) + 513\<rparr>) fs_w3)
       \<lparr>opened_file := (opened_file fs_w3)
          (0 := (opened_file fs_w3 0)\<lparr>tete_lecture := SIZEOF_FILESYSTEM + 513\<rparr>)\<rparr>"
proof -
  have hp: "has_permission fs_open 1 (CHR ''w'') = 1"
    by (simp add: has_permission_def strchr_def fs_open_fields inode_one_file)
  have cb: "cursor_block fs_open 1 SIZEOF_FILESYSTEM = 0"
    by (rule cursor_block_first [of _ _ 0]) (simp_all add: fs_open_fields inode_one_file)
  have up: "update_parents 513 1 fs_w3 =
      Some (set_inode 0 ((inodes fs_w3 0)\<lparr>size_i := size_i (inodes fs_w3 0) + 513\<rparr>) fs_w3)"
    by (rule update_parents_child_of_root)
       (simp_all add: fs_w3_def fs_w2_fields)
  have w: "write_file 0 bytes_514 514 fs_open =
      Some ((set_inode 0 ((inodes fs_w3 0)\<lparr>size_i := size_i (inodes fs_w3 0) + 513\<rparr>) fs_w3)
       \<lparr>opened_file := (opened_file fs_w3)
          (0 := (opened_file fs_w3 0)\<lparr>tete_lecture := SIZEOF_FILESYSTEM + 513\<rparr>)\<rparr>, 513)"
    unfolding write_file_def Let_def
    by (simp add: fs_open_fields inode_one_file hp cb write_first_block
          write_second_block [unfolded fs_w1_def, simplified] up set_inode_def)
  show "fs_written =
     (set_inode 0 ((inodes fs_w3 0)\<lparr>size_i := size_i (inodes fs_w3 0) + 513\<rparr>) fs_w3)
       \<lparr>opened_file := (opened_file fs_w3)
          (0 := (opened_file fs_w3 0)\<lparr>tete_lecture := SIZEOF_FILESYSTEM + 513\<rparr>)\<rparr>"
    unfolding fs_written_def w by simp
  then show "write_file 0 bytes_514 514 fs_open = Some (fs_written, 513)"
    using w by simp
qed

lemma fs_written_fields:
  "bytes (file_img fs_written) (SIZEOF_FILESYSTEM + 512) = CHR ''c''"
  "len (file_img fs_written) = SIZEOF_FILESYSTEM + NUM_BLOCKS * BLOCK_SIZE"
  "blocks (inodes fs_written 1) 0 = 0" "blocks (inodes fs_written 1) 1 = 1"
  "type_i (inodes fs_written 1) = 1" "permissions (inodes fs_written 1) = ''rw-''"
  "opened_file fs_written 0 = \<lparr>inode = 1, tete_lecture = SIZEOF_FILESYSTEM + 513\<rparr>"
  "size_i (inodes fs_written 1) = 513" "size_i (inodes fs_written 0) = 513"
  unfolding fs_written_eval(2)
  by (simp_all add: set_inode_def fs_w3_def fs_w2_fields fs_w1_def stored_fields
        fs_open_fields blank_image_def)


lemma fs_rewound_eval:
  "seek_file 0 0 0 fs_written = (fs_rewound, None)"
  "opened_file fs_rewound 0 = \<lparr>inode = 1, tete_lecture = SIZEOF_FILESYSTEM\<rparr>"
  "inodes fs_rewound = inodes fs_written"
  "file_img fs_rewound = file_img fs_written"
proof -
  have s: "seek_file 0 0 0 fs_written =
      (fs_written\<lparr>opened_file := (opened_file fs_written)
          (0 := (opened_file fs_written 0)\<lparr>tete_lecture := SIZEOF_FILESYSTEM\<rparr>)\<rparr>, None)"
    by (simp add: seek_file_def Let_def fs_written_fields seek_blocks_zero)
  then show "seek_file 0 0 0 fs_written = (fs_rewound, None)"
    by (simp add: fs_rewound_def)
  show "opened_file fs_rewound 0 = \<lparr>inode = 1, tete_lecture = SIZEOF_FILESYSTEM\<rparr>"
    "inodes fs_rewound = inodes fs_written" "file_img fs_rewound = file_img fs_written"
    unfolding fs_rewound_def s by (simp_all add: fs_written_fields)
qed

text \<open>
  Reading 514 bytes from the start takes 513 bytes from block 0, the last of them from
  the first byte of block 1, and then restarts at that same byte for the rest.
\<close>

lemma buffer_read_eval:
  "snd (snd (read_file 0 (replicate 515 NUL) 514 fs_rewound)) = None"
  "buffer_read ! 512 = CHR ''c''"
  "length buffer_read = 515"
proof -
  let ?img = "file_img fs_written"
  let ?blks = "blocks (inodes fs_written 1)"
  let ?b0 = "replicate 515 NUL"
  have hp: "has_permission fs_rewound 1 (CHR ''r'') = 1"
    by (simp add: has_permission_def strchr_def fs_rewound_eval fs_written_fields)
  have cb: "cursor_block fs_rewound 1 SIZEOF_FILESYSTEM = 0"
    by (rule cursor_block_first [of _ _ 0]) (simp_all add: fs_rewound_eval fs_written_fields)
  obtain t1 where t1: "read_block ?img 514 0 (?b0, 0, SIZEOF_FILESYSTEM) =
        read_block ?img 514 0 (t1, 0 + int 513, SIZEOF_FILESYSTEM + int 513)"
      "length t1 = length ?b0"
      "\<forall>q < length ?b0.
          t1 ! q = (if nat 0 \<le> q \<and> q < nat 0 + 513
                    then bytes ?img (SIZEOF_FILESYSTEM + (int q - 0)) else ?b0 ! q)"
    using read_block_run [of SIZEOF_FILESYSTEM 513 ?img 0 514 0 ?b0]
    by (auto simp add: fs_written_fields)
  have r1: "read_block ?img 514 0 (?b0, 0, SIZEOF_FILESYSTEM) =
      (t1, 513, SIZEOF_FILESYSTEM + 513)"
    unfolding t1(1) by (simp add: read_block_stop)
  have t1_512: "t1 ! 512 = CHR ''c''"
    using t1(3) [rule_format, of 512] by (simp add: fs_written_fields [simplified])
  obtain t2 where t2: "read_block ?img 514 1 (t1, 513, SIZEOF_FILESYSTEM + 512) =
        read_block ?img 514 1 (t2, 513 + int 1, SIZEOF_FILESYSTEM + 512 + int 1)"
      "length t2 = length t1"
      "\<forall>q < length t1.
          t2 ! q = (if nat 513 \<le> q \<and> q < nat 513 + 1
                    then bytes ?img (SIZEOF_FILESYSTEM + 512 + (int q - 513)) else t1 ! q)"
    using read_block_run [of "SIZEOF_FILESYSTEM + 512" 1 ?img 513 514 1 t1]
    by (auto simp add: fs_written_fields)
  have r2: "read_block ?img 514 1 (t1, 513, SIZEOF_FILESYSTEM + 1 * BLOCK_SIZE) =
      (t2, 514, SIZEOF_FILESYSTEM + 513)"
    using t2(1) by (simp add: read_block_stop)
  have t2_512: "t2 ! 512 = CHR ''c''"
    using t2(3) [rule_format, of 512] t1(2) t1_512 by simp
  have n: "(1::int) \<noteq> -1" by simp
  have rb: "read_blocks ?img ?blks 514 (t1, 513, SIZEOF_FILESYSTEM + 513) 0 =
      ((t2, 514, SIZEOF_FILESYSTEM + 513), False)"
    using read_blocks_next [of 513 514 ?blks 0 1 ?img t1 "SIZEOF_FILESYSTEM + 513", OF _ _ n]
    by (simp add: fs_written_fields r2 [simplified] read_blocks_stop)
  have rf: "read_file 0 ?b0 514 fs_rewound =
      (fs_rewound\<lparr>opened_file := (opened_file fs_rewound)
          (0 := (opened_file fs_rewound 0)\<lparr>tete_lecture := SIZEOF_FILESYSTEM + 513\<rparr>)\<rparr>,
       t2[nat 514 := NUL], None)"
    unfolding read_file_def Let_def
    by (simp add: fs_rewound_eval fs_written_fields hp cb r1 [simplified] rb [simplified])
  show "snd (snd (read_file 0 (replicate 515 NUL) 514 fs_rewound)) = None"
    unfolding rf by simp
  show "buffer_read ! 512 = CHR ''c''"
    unfolding buffer_read_def rf using t2_512 by simp
  show "length buffer_read = 515"
    unfolding buffer_read_def rf using t2(2) t1(2) by simp
qed

text \<open>
  Claim C5 at a 514-byte text on the new file \<open>a\<close> of an otherwise empty image. The
  write, the seek to the start and the read all succeed, but byte 512 of the buffer is
  byte 513 of the text: the buffer differs from what was written.
\<close>

theorem write_seek_read_loses_byte_512:
  "snd (open_file ''a'' 0 fs_one_file) = 0 \<and>
   length bytes_514 = 514 \<and>
   write_file 0 bytes_514 514 fs_open = Some (fs_written, 513) \<and>
   seek_file 0 0 0 fs_written = (fs_rewound, None) \<and>
   snd (snd (read_file 0 (replicate 515 NUL) 514 fs_rewound)) = None \<and>
   bytes_514 ! 512 = CHR ''b'' \<and>
   buffer_read ! 512 = CHR ''c'' \<and>
   take 514 buffer_read \<noteq> bytes_514"
proof -
  have "take 514 buffer_read \<noteq> bytes_514"
  proof
    assume e: "take 514 buffer_read = bytes_514"
    have "take 514 buffer_read ! 512 = buffer_read ! 512" by (rule nth_take) simp
    then have "bytes_514 ! 512 = CHR ''c''" unfolding e buffer_read_eval(2) .
    then show False unfolding bytes_514_fields(2) by simp
  qed
  then show ?thesis
    using fs_open_fields(1) bytes_514_fields fs_written_eval(1) fs_rewound_eval(1)
      buffer_read_eval(1,2)
    by simp
qed

subsection \<open>A write that the first loop completes\<close>

lemma zero_bytes_cong:
  "(\<And>p. l \<le> p \<Longrightarrow> p < l + int k \<Longrightarrow> bs p = bs' p) \<Longrightarrow> zero_bytes bs l k = zero_bytes bs' l k"
proof (induction k arbitrary: l)
  case 0
  show ?case by simp
next
  case (Suc k)
  have "zero_bytes bs (l + 1) k = zero_bytes bs' (l + 1) k"
    by (rule Suc.IH) (rule Suc.prems, simp_all)
  moreover have "bs l = bs' l" by (rule Suc.prems) simp_all
  ultimately show ?case by simp
qed

lemma zero_bytes_card:
  "zero_bytes bs l k = int (card {p. l \<le> p \<and> p < l + int k \<and> bs p = NUL})"
proof (induction k arbitrary: l)
  case 0
  have e: "{p. l \<le> p \<and> p < l \<and> bs p = NUL} = {}" by auto
  show ?case by (simp add: e)
next
  case (Suc k)
  let ?A = "{p. l + 1 \<le> p \<and> p < l + 1 + int k \<and> bs p = NUL}"
  have fin: "finite ?A" by (rule finite_subset [of _ "{l + 1 ..< l + 1 + int k}"]) auto
  have s: "{p. l \<le> p \<and> p < l + int (Suc k) \<and> bs p = NUL} =
      (if bs l = NUL then insert l ?A else ?A)"
    by (auto simp add: order_le_less)
  have "l \<notin> ?A" by simp
  then show ?case unfolding s using fin Suc.IH [of "l + 1"] by simp
qed

lemma overwritten_0: "overwritten ino texte j l 0 fs = fs"
  by (rule Filesystem.equality) (auto simp add: overwritten_def fun_eq_iff intro!: Image.equality)

lemma write_block_run:
  assumes "0 \<le> l" "l + int k \<le> len (file_img fs)" "j + int k \<le> sz"
    and "l + int k \<le> SIZEOF_FILESYSTEM + (num_block + 1) * BLOCK_SIZE + 1"
    and "0 \<le> j"
  shows "\<exists>tmp'. write_block ino texte sz num_block (fs, tmp, maj, j, l) =
           write_block ino texte sz num_block
             (overwritten ino texte j l k fs, tmp',
              maj + zero_bytes (bytes (file_img fs)) l k, j + int k, l + int k)"
  using assms
proof (induction k arbitrary: fs tmp maj j l)
  case 0
  have "write_block ino texte sz num_block (fs, tmp, maj, j, l) =
      write_block ino texte sz num_block
        (overwritten ino texte j l 0 fs, tmp,
         maj + zero_bytes (bytes (file_img fs)) l 0, j + int 0, l + int 0)"
    by (simp add: overwritten_0)
  then show ?case by blast
next
  case (Suc k)
  let ?c = "texte ! nat j"
  let ?z = "if bytes (file_img fs) l = NUL then 1 else (0::int)"
  let ?fs1 = "fs\<lparr>file_img := (file_img fs)\<lparr>bytes := (bytes (file_img fs))(l := ?c)\<rparr>,
               inodes := (inodes fs)
                 (ino := (inodes fs ino)\<lparr>size_i := size_i (inodes fs ino) + ?z\<rparr>)\<rparr>"
  have in_img: "0 \<le> l" "l < len (file_img fs)" using Suc.prems(1,2) by simp_all
  have wb: "write_byte ino ?c l (fs, tmp, maj) = (?fs1, bytes (file_img fs) l, maj + ?z)"
  proof (cases "bytes (file_img fs) l = NUL")
    case True
    then show ?thesis using write_byte_new [OF in_img True, of ino ?c tmp maj] by simp
  next
    case False
    have "fs\<lparr>inodes := (inodes fs)(ino := inodes fs ino)\<rparr> = fs" by simp
    then show ?thesis using write_byte_old [OF in_img False, of ino ?c tmp maj] False
      by (simp add: fun_upd_idem)
  qed
  have step: "write_block ino texte sz num_block (fs, tmp, maj, j, l) =
      write_block ino texte sz num_block
        (?fs1, bytes (file_img fs) l, maj + ?z, j + 1, l + 1)"
    using Suc.prems(3,4) wb by (intro write_block_step) auto
  have "\<exists>tmp'. write_block ino texte sz num_block
        (?fs1, bytes (file_img fs) l, maj + ?z, j + 1, l + 1) =
      write_block ino texte sz num_block
        (overwritten ino texte (j + 1) (l + 1) k ?fs1, tmp',
         maj + ?z + zero_bytes (bytes (file_img ?fs1)) (l + 1) k, j + 1 + int k, l + 1 + int k)"
    using Suc.prems by (intro Suc.IH) auto
  then obtain tmp' where ih: "write_block ino texte sz num_block
        (?fs1, bytes (file_img fs) l, maj + ?z, j + 1, l + 1) =
      write_block ino texte sz num_block
        (overwritten ino texte (j + 1) (l + 1) k ?fs1, tmp',
         maj + ?z + zero_bytes (bytes (file_img ?fs1)) (l + 1) k, j + 1 + int k, l + 1 + int k)"
    by blast
  have zb: "zero_bytes (bytes (file_img ?fs1)) (l + 1) k = zero_bytes (bytes (file_img fs)) (l + 1) k"
    by (rule zero_bytes_cong) simp
  have st: "overwritten ino texte (j + 1) (l + 1) k ?fs1 = overwritten ino texte j l (Suc k) fs"
    unfolding overwritten_def zb
    by (rule Filesystem.equality)
       (auto simp add: fun_eq_iff add.commute add.left_commute intro!: Image.equality)
  have "write_block ino texte sz num_block (fs, tmp, maj, j, l) =
      write_block ino texte sz num_block
        (overwritten ino texte j l (Suc k) fs, tmp',
         maj + zero_bytes (bytes (file_img fs)) l (Suc k), j + int (Suc k), l + int (Suc k))"
    unfolding step ih st zb by (simp add: add.commute add.left_commute)
  then show ?case by blast
qed

lemma parent_chain_frame:
  "(\<And>i. inode_rep_parent (inodes fs' i) = inode_rep_parent (inodes fs i)) \<Longrightarrow>
     parent_chain fs' i ds = parent_chain fs i ds"
  by (induction ds arbitrary: i) simp_all

lemma update_parents_chain:
  "parent_chain fs i ds \<Longrightarrow>
     update_parents maj i fs =
       Some (fs\<lparr>inodes := (\<lambda>d. (inodes fs d)
               \<lparr>size_i := size_i (inodes fs d) + maj * int (count_list ds d)\<rparr>)\<rparr>)"
proof (induction ds arbitrary: fs i)
  case Nil
  have "fs\<lparr>inodes := (\<lambda>d. inodes fs d)\<rparr> = fs" by simp
  then show ?case using Nil by (simp add: update_parents_root)
next
  case (Cons d ds)
  let ?fs1 = "set_inode d ((inodes fs d)\<lparr>size_i := size_i (inodes fs d) + maj\<rparr>) fs"
  have i: "i \<noteq> 0" and p: "inode_rep_parent (inodes fs i) = d" and c: "parent_chain fs d ds"
    using Cons.prems by simp_all
  have "parent_chain ?fs1 d ds = parent_chain fs d ds"
    by (rule parent_chain_frame) (simp add: set_inode_def)
  then have c1: "parent_chain ?fs1 d ds" using c by simp
  have "update_parents maj i fs = update_parents maj d ?fs1"
    using i p by (subst update_parents.simps) simp
  also have "\<dots> = Some (?fs1\<lparr>inodes := (\<lambda>x. (inodes ?fs1 x)
               \<lparr>size_i := size_i (inodes ?fs1 x) + maj * int (count_list ds x)\<rparr>)\<rparr>)"
    by (rule Cons.IH [OF c1])
  also have "?fs1\<lparr>inodes := (\<lambda>x. (inodes ?fs1 x)
               \<lparr>size_i := size_i (inodes ?fs1 x) + maj * int (count_list ds x)\<rparr>)\<rparr> =
      fs\<lparr>inodes := (\<lambda>x. (inodes fs x)
               \<lparr>size_i := size_i (inodes fs x) + maj * int (count_list (d # ds) x)\<rparr>)\<rparr>"
    by (rule Filesystem.equality) (auto simp add: set_inode_def fun_eq_iff algebra_simps)
  finally show ?case .
qed


lemma overwritten_fields:
  "bytes (file_img (overwritten ino texte j l k fs)) p =
     (if l \<le> p \<and> p < l + int k then texte ! nat (j + (p - l)) else bytes (file_img fs) p)"
  "len (file_img (overwritten ino texte j l k fs)) = len (file_img fs)"
  "inodes (overwritten ino texte j l k fs) =
     (inodes fs)(ino := (inodes fs ino)
        \<lparr>size_i := size_i (inodes fs ino) + zero_bytes (bytes (file_img fs)) l k\<rparr>)"
  "opened_file (overwritten ino texte j l k fs) = opened_file fs"
  by (simp_all add: overwritten_def)

text \<open>
  A write of \<open>k\<close> bytes that the first loop completes and that stays inside the image:
  the result is the number of the \<open>k\<close> positions from the cursor on that held a zero
  byte, the file's size grows by it, and so does the size of each inode on the chain of
  \<^verbatim>\<open>inode_rep_parent\<close> from the file to inode 0, once for each time it is on the chain.
\<close>

lemma write_file_within_block:
  assumes desc: "0 \<le> desc" "desc \<le> MAX_FILE_OPEN"
      "opened_file fs desc = \<lparr>inode = ino, tete_lecture = l\<rparr>" "ino \<noteq> -1"
    and perm: "has_permission fs ino (CHR ''w'') \<noteq> 0" "type_i (inodes fs ino) = 1"
    and blk: "cursor_block fs ino l \<noteq> -1" "blocks (inodes fs ino) (cursor_block fs ino l) = nb"
    and room: "0 \<le> l" "l + int k \<le> len (file_img fs)"
      "l + int k \<le> SIZEOF_FILESYSTEM + (nb + 1) * BLOCK_SIZE + 1"
    and chain: "parent_chain fs ino ds"
    and z: "z = int (card {p. l \<le> p \<and> p < l + int k \<and> bytes (file_img fs) p = NUL})"
  shows "write_file desc texte (int k) fs =
      Some (fs\<lparr>file_img := (file_img fs)
                 \<lparr>bytes := (\<lambda>p. if l \<le> p \<and> p < l + int k then texte ! nat (p - l)
                               else bytes (file_img fs) p)\<rparr>,
               inodes := (\<lambda>d. (inodes fs d)
                 \<lparr>size_i := size_i (inodes fs d) + (if d = ino then z else 0) +
                              z * int (count_list ds d)\<rparr>),
               opened_file := (opened_file fs)
                 (desc := \<lparr>inode = ino, tete_lecture = l + int k\<rparr>)\<rparr>, z)"
proof -
  let ?fs1 = "overwritten ino texte 0 l k fs"
  have zz: "zero_bytes (bytes (file_img fs)) l k = z" unfolding z by (rule zero_bytes_card)
  obtain tmp' where run: "write_block ino texte (int k) nb (fs, NUL, 0, 0, l) =
      write_block ino texte (int k) nb
        (?fs1, tmp', 0 + zero_bytes (bytes (file_img fs)) l k, 0 + int k, l + int k)"
    using write_block_run [OF room(1,2) _ room(3), of 0 "int k" ino texte NUL 0] by auto
  have wb: "write_block ino texte (int k) nb (fs, NUL, 0, 0, l) = (?fs1, tmp', z, int k, l + int k)"
    unfolding run zz by (simp add: write_block_stop)
  have c1: "parent_chain ?fs1 ino ds"
    using chain parent_chain_frame [of ?fs1 fs ino ds] by (simp add: overwritten_fields)
  let ?fs2 = "?fs1\<lparr>inodes := (\<lambda>d. (inodes ?fs1 d)
               \<lparr>size_i := size_i (inodes ?fs1 d) + z * int (count_list ds d)\<rparr>)\<rparr>"
  let ?fs3 = "?fs2\<lparr>opened_file := (opened_file ?fs2)
                (desc := (opened_file ?fs2 desc)\<lparr>tete_lecture := l + int k\<rparr>)\<rparr>"
  have up: "update_parents z ino ?fs1 = Some ?fs2" by (rule update_parents_chain [OF c1])
  have w: "write_file desc texte (int k) fs = Some (?fs3, z)"
    unfolding write_file_def Let_def using desc perm blk
    by (simp add: wb write_blocks_stop up)
  have "?fs3 = fs\<lparr>file_img := (file_img fs)
                 \<lparr>bytes := (\<lambda>p. if l \<le> p \<and> p < l + int k then texte ! nat (p - l)
                               else bytes (file_img fs) p)\<rparr>,
               inodes := (\<lambda>d. (inodes fs d)
                 \<lparr>size_i := size_i (inodes fs d) + (if d = ino then z else 0) +
                              z * int (count_list ds d)\<rparr>),
               opened_file := (opened_file fs)
                 (desc := \<lparr>inode = ino, tete_lecture = l + int k\<rparr>)\<rparr>"
    by (rule Filesystem.equality)
       (auto simp add: overwritten_def zz desc(3) fun_eq_iff intro!: Image.equality)
  then show ?thesis using w by simp
qed

text \<open>
  Writing at most 513 bytes at the start of a file, seeking to the start and reading as
  many bytes gives the bytes written, whatever they are and whatever the block held.
\<close>

lemma write_seek_read_within_block:
  assumes desc: "0 \<le> desc" "desc \<le> MAX_FILE_OPEN"
      "opened_file fs desc = \<lparr>inode = ino, tete_lecture = l\<rparr>"
    and ino: "ino \<noteq> -1"
    and perm: "has_permission fs ino (CHR ''w'') \<noteq> 0" "has_permission fs ino (CHR ''r'') \<noteq> 0"
      "type_i (inodes fs ino) = 1"
    and blk: "blocks (inodes fs ino) 0 = nb" "0 \<le> nb" "l = SIZEOF_FILESYSTEM + nb * BLOCK_SIZE"
    and room: "l + int k \<le> len (file_img fs)" "k \<le> 513"
    and chain: "parent_chain fs ino ds"
    and lens: "length b = k" "k < length buf"
  shows "\<exists>fs1 z fs2 fs3 buf'.
      write_file desc b (int k) fs = Some (fs1, z) \<and>
      seek_file desc 0 0 fs1 = (fs2, None) \<and>
      read_file desc buf (int k) fs2 = (fs3, buf', None) \<and>
      take k buf' = b"
proof -
  define z where "z = int (card {p. l \<le> p \<and> p < l + int k \<and> bytes (file_img fs) p = NUL})"
  let ?img = "(file_img fs)
                 \<lparr>bytes := (\<lambda>p. if l \<le> p \<and> p < l + int k then b ! nat (p - l)
                               else bytes (file_img fs) p)\<rparr>"
  let ?ino = "\<lambda>d. (inodes fs d)
                 \<lparr>size_i := size_i (inodes fs d) + (if d = ino then z else 0) +
                              z * int (count_list ds d)\<rparr>"
  let ?fs1 = "fs\<lparr>file_img := ?img, inodes := ?ino,
               opened_file := (opened_file fs)
                 (desc := \<lparr>inode = ino, tete_lecture = l + int k\<rparr>)\<rparr>"
  define fs2 where "fs2 = ?fs1\<lparr>opened_file := (opened_file ?fs1)
                 (desc := (opened_file ?fs1 desc)\<lparr>tete_lecture := l\<rparr>)\<rparr>"
  have fs2: "opened_file fs2 desc = \<lparr>inode = ino, tete_lecture = l\<rparr>"
      "file_img fs2 = ?img" "blocks (inodes fs2 ino) = blocks (inodes fs ino)"
      "type_i (inodes fs2 ino) = 1" "permissions (inodes fs2 ino) = permissions (inodes fs ino)"
    using perm(3) by (simp_all add: fs2_def)
  have l0: "0 \<le> l" using blk by simp
  have cb: "cursor_block fs ino l = 0"
    by (rule cursor_block_first [of _ _ nb]) (use blk in simp_all)
  have w: "write_file desc b (int k) fs = Some (?fs1, z)"
    by (rule write_file_within_block [OF desc ino perm(1,3) _ _ l0 room(1) _ chain z_def, where nb = nb])
       (use cb blk room in simp_all)
  have s: "seek_file desc 0 0 ?fs1 = (fs2, None)"
    unfolding fs2_def using desc ino blk by (simp add: seek_file_def Let_def seek_blocks_zero)
  have "has_permission fs2 ino (CHR ''r'') = has_permission fs ino (CHR ''r'')"
    by (simp add: has_permission_def fs2(5))
  then have hp: "has_permission fs2 ino (CHR ''r'') \<noteq> 0"
    using perm(2) by simp
  have cb2: "cursor_block fs2 ino l = 0"
    by (rule cursor_block_first [of _ _ nb]) (use blk fs2(3) in simp_all)
  obtain t where t: "read_block ?img (int k) nb (buf, 0, l) =
        read_block ?img (int k) nb (t, 0 + int k, l + int k)"
      "length t = length buf"
      "\<forall>q < length buf.
          t ! q = (if nat 0 \<le> q \<and> q < nat 0 + k then bytes ?img (l + (int q - 0)) else buf ! q)"
    using read_block_run [of l k ?img 0 "int k" nb buf] l0 room blk by auto
  have r: "read_block (file_img fs2) (int k) (blocks (inodes fs2 ino) 0) (buf, 0, l) =
      (t, int k, l + int k)"
    unfolding fs2(2,3) blk(1) t(1) by (simp add: read_block_stop)
  have rf: "read_file desc buf (int k) fs2 =
      (fs2\<lparr>opened_file := (opened_file fs2)
          (desc := (opened_file fs2 desc)\<lparr>tete_lecture := l + int k\<rparr>)\<rparr>,
       t[k := NUL], None)"
    unfolding read_file_def Let_def using desc ino hp
    by (simp add: fs2(1,4) cb2 r read_blocks_stop)
  have "take k (t[k := NUL]) = b"
  proof (rule nth_equalityI)
    show "length (take k (t[k := NUL])) = length b" using t(2) lens by simp
  next
    fix q assume "q < length (take k (t[k := NUL]))"
    then have q: "q < k" by simp
    then have "t ! q = bytes ?img (l + int q)" using t(3) [rule_format, of q] lens by simp
    then show "take k (t[k := NUL]) ! q = b ! q" using q by simp
  qed
  then show ?thesis using w s rf by blast
qed

text \<open>Both lemmas at the new file \<open>a\<close> of the root directory and the 513 bytes its block takes.\<close>

lemma write_file_within_block_one_file:
  assumes "length b = 513"
  shows "\<exists>fs1 fs2 fs3 buf'.
     write_file 0 b 513 fs_open = Some (fs1, 513) \<and>
     size_i (inodes fs1 1) = 513 \<and> size_i (inodes fs1 0) = 513 \<and>
     seek_file 0 0 0 fs1 = (fs2, None) \<and>
     read_file 0 (replicate 514 NUL) 513 fs2 = (fs3, buf', None) \<and>
     take 513 buf' = b"
proof -
  have cb: "cursor_block fs_open 1 SIZEOF_FILESYSTEM = 0"
    by (rule cursor_block_first [of _ _ 0]) (simp_all add: fs_open_fields inode_one_file)
  have s: "{p. SIZEOF_FILESYSTEM \<le> p \<and> p < SIZEOF_FILESYSTEM + int 513 \<and>
      bytes (file_img fs_open) p = NUL} = {SIZEOF_FILESYSTEM ..< SIZEOF_FILESYSTEM + 513}"
    by (auto simp add: fs_open_fields fs_one_file_def blank_image_def)
  have z: "(513::int) = int (card {p. SIZEOF_FILESYSTEM \<le> p \<and> p < SIZEOF_FILESYSTEM + int 513 \<and>
      bytes (file_img fs_open) p = NUL})"
    unfolding s by simp
  have w: "write_file 0 b (int 513) fs_open =
      Some (fs_open\<lparr>file_img := (file_img fs_open)
                 \<lparr>bytes := (\<lambda>p. if SIZEOF_FILESYSTEM \<le> p \<and> p < SIZEOF_FILESYSTEM + int 513
                               then b ! nat (p - SIZEOF_FILESYSTEM)
                               else bytes (file_img fs_open) p)\<rparr>,
               inodes := (\<lambda>d. (inodes fs_open d)
                 \<lparr>size_i := size_i (inodes fs_open d) + (if d = 1 then 513 else 0) +
                              513 * int (count_list [0] d)\<rparr>),
               opened_file := (opened_file fs_open)
                 (0 := \<lparr>inode = 1, tete_lecture = SIZEOF_FILESYSTEM + int 513\<rparr>)\<rparr>, 513)"
    by (rule write_file_within_block [where nb = 0 and ds = "[0]", OF _ _ _ _ _ _ _ _ _ _ _ _ z])
       (simp_all add: fs_open_fields inode_one_file cb has_permission_def strchr_def
          fs_one_file_def blank_image_def)
  have "\<exists>fs1 z fs2 fs3 buf'.
      write_file 0 b (int 513) fs_open = Some (fs1, z) \<and>
      seek_file 0 0 0 fs1 = (fs2, None) \<and>
      read_file 0 (replicate 514 NUL) (int 513) fs2 = (fs3, buf', None) \<and>
      take 513 buf' = b"
    by (rule write_seek_read_within_block [where nb = 0 and ds = "[0]" and ino = 1
          and l = SIZEOF_FILESYSTEM])
       (simp_all add: fs_open_fields inode_one_file has_permission_def strchr_def
          fs_one_file_def blank_image_def assms)
  then obtain fs1 z fs2 fs3 buf' where r: "write_file 0 b (int 513) fs_open = Some (fs1, z)"
      "seek_file 0 0 0 fs1 = (fs2, None)"
      "read_file 0 (replicate 514 NUL) (int 513) fs2 = (fs3, buf', None)"
      "take 513 buf' = b"
    by blast
  have f: "fs1 = fs_open\<lparr>file_img := (file_img fs_open)
                 \<lparr>bytes := (\<lambda>p. if SIZEOF_FILESYSTEM \<le> p \<and> p < SIZEOF_FILESYSTEM + int 513
                               then b ! nat (p - SIZEOF_FILESYSTEM)
                               else bytes (file_img fs_open) p)\<rparr>,
               inodes := (\<lambda>d. (inodes fs_open d)
                 \<lparr>size_i := size_i (inodes fs_open d) + (if d = 1 then 513 else 0) +
                              513 * int (count_list [0] d)\<rparr>),
               opened_file := (opened_file fs_open)
                 (0 := \<lparr>inode = 1, tete_lecture = SIZEOF_FILESYSTEM + int 513\<rparr>)\<rparr>"
    and "z = 513"
    using r(1) w by simp_all
  then have "write_file 0 b 513 fs_open = Some (fs1, 513)"
    "size_i (inodes fs1 1) = 513" "size_i (inodes fs1 0) = 513"
    using r(1) by (simp_all add: fs_open_fields fs_one_file_def root_inode_def)
  then show ?thesis using r(2,3,4) by auto
qed

subsection \<open>Writing past the last block of the image\<close>

lemma fs_last_open_fields:
  "snd (open_file ''a'' 0 fs_last_block) = 0"
  "opened_file fs_last_open 0 =
     \<lparr>inode = 2, tete_lecture = SIZEOF_FILESYSTEM + 1023 * BLOCK_SIZE\<rparr>"
  "inodes fs_last_open = inodes fs_last_block"
  "file_img fs_last_open = file_img fs_last_block"
proof -
  have r: "rechInode ''a'' (directories fs_last_block 0) = 2"
    by (simp add: rechInode_first fs_last_block_def first_index_here first_index_skip)
  have d: "first_index (\<lambda>i. inode (opened_file fs_last_block i) = -1) 0 MAX_FILE_OPEN = 0"
    by (rule first_index_here) (simp_all add: fs_last_block_def)
  have t: "type_i (inodes fs_last_block 2) = 1 \<or> type_i (inodes fs_last_block 2) = 2"
    by (simp add: fs_last_block_def)
  have n: "(2::int) \<noteq> -1" "(0::int) \<noteq> -1" by simp_all
  note o = open_file_succeeds [OF r n(1) t d n(2)]
  show "snd (open_file ''a'' 0 fs_last_block) = 0" unfolding o by simp
  show "opened_file fs_last_open 0 =
     \<lparr>inode = 2, tete_lecture = SIZEOF_FILESYSTEM + 1023 * BLOCK_SIZE\<rparr>"
    unfolding fs_last_open_def o by (simp add: fs_last_block_def)
  show "inodes fs_last_open = inodes fs_last_block"
    "file_img fs_last_open = file_img fs_last_block"
    unfolding fs_last_open_def o by simp_all
qed

lemma inode_last_block:
  "type_i (inodes fs_last_block 2) = 1" "permissions (inodes fs_last_block 2) = ''rw-''"
  "blocks (inodes fs_last_block 2) 0 = 1023"
  "inode_rep_parent (inodes fs_last_block 2) = 0"
  "size_i (inodes fs_last_block 2) = 0" "size_i (inodes fs_last_block 0) = 523265"
  "len (file_img fs_last_block) = SIZEOF_FILESYSTEM + NUM_BLOCKS * BLOCK_SIZE"
  "\<And>p. SIZEOF_FILESYSTEM + 1023 * BLOCK_SIZE \<le> p \<Longrightarrow> bytes (file_img fs_last_block) p = NUL"
  by (simp_all add: fs_last_block_def root_inode_def)

text \<open>
  The first loop stores 512 bytes in block 1023 and then runs once more, with the
  cursor at the end of the image: nothing is read there, \<^verbatim>\<open>texte_tmp\<close> still holds the
  NUL of the probe before, so the byte is counted as new, and it is written one position
  back, on the last byte of the block.
\<close>

lemma write_last_block:
  "write_block 2 (replicate 513 (CHR ''a'')) 513 1023
     (fs_last_open, NUL, 0, 0, SIZEOF_FILESYSTEM + 1023 * BLOCK_SIZE) =
   (fs_l2, NUL, 513, 513, SIZEOF_FILESYSTEM + NUM_BLOCKS * BLOCK_SIZE + 1)"
proof -
  let ?t = "replicate 513 (CHR ''a'')"
  have "write_block 2 ?t 513 1023
      (fs_last_open, NUL, 0, 0, SIZEOF_FILESYSTEM + 1023 * BLOCK_SIZE) =
      write_block 2 ?t 513 1023
        (stored 2 ?t 0 (SIZEOF_FILESYSTEM + 1023 * BLOCK_SIZE) 512 fs_last_open,
         (if (512::nat) = 0 then NUL else NUL), 0 + int 512, 0 + int 512,
         SIZEOF_FILESYSTEM + 1023 * BLOCK_SIZE + int 512)"
    by (rule write_block_fresh_run) (simp_all add: fs_last_open_fields inode_last_block)
  then have a: "write_block 2 ?t 513 1023
      (fs_last_open, NUL, 0, 0, SIZEOF_FILESYSTEM + 1023 * BLOCK_SIZE) =
      write_block 2 ?t 513 1023
        (fs_l1, NUL, 512, 512, SIZEOF_FILESYSTEM + NUM_BLOCKS * BLOCK_SIZE)"
    by (simp add: fs_l1_def)
  have ln: "len (file_img fs_l1) = SIZEOF_FILESYSTEM + NUM_BLOCKS * BLOCK_SIZE"
    by (simp add: fs_l1_def stored_fields fs_last_open_fields inode_last_block)
  have wb: "write_byte 2 (?t ! nat 512) (SIZEOF_FILESYSTEM + NUM_BLOCKS * BLOCK_SIZE)
      (fs_l1, NUL, 512) = (fs_l2, NUL, 512 + 1)"
    using write_byte_at_end [of "SIZEOF_FILESYSTEM + NUM_BLOCKS * BLOCK_SIZE" fs_l1 2
        "CHR ''a''" 512] ln
    by (simp add: fs_l2_def)
  have b: "write_block 2 ?t 513 1023
        (fs_l1, NUL, 512, 512, SIZEOF_FILESYSTEM + NUM_BLOCKS * BLOCK_SIZE) =
      write_block 2 ?t 513 1023
        (fs_l2, NUL, 512 + 1, 512 + 1, SIZEOF_FILESYSTEM + NUM_BLOCKS * BLOCK_SIZE + 1)"
    by (rule write_block_step [OF _ _ wb]) simp_all
  show ?thesis unfolding a b by (simp add: write_block_stop)
qed

lemma fs_last_written_eval:
  "write_file 0 (replicate 513 (CHR ''a'')) 513 fs_last_open = Some (fs_last_written, 513)"
  "fs_last_written =
     (set_inode 0 ((inodes fs_l2 0)\<lparr>size_i := size_i (inodes fs_l2 0) + 513\<rparr>) fs_l2)
       \<lparr>opened_file := (opened_file fs_l2)
          (0 := (opened_file fs_l2 0)
             \<lparr>tete_lecture := SIZEOF_FILESYSTEM + NUM_BLOCKS * BLOCK_SIZE + 1\<rparr>)\<rparr>"
proof -
  have hp: "has_permission fs_last_open 2 (CHR ''w'') = 1"
    by (simp add: has_permission_def strchr_def fs_last_open_fields inode_last_block)
  have cb: "cursor_block fs_last_open 2 (SIZEOF_FILESYSTEM + 1023 * BLOCK_SIZE) = 0"
    by (rule cursor_block_first [of _ _ 1023])
       (simp_all add: fs_last_open_fields inode_last_block)
  have up: "update_parents 513 2 fs_l2 =
      Some (set_inode 0 ((inodes fs_l2 0)\<lparr>size_i := size_i (inodes fs_l2 0) + 513\<rparr>) fs_l2)"
    by (rule update_parents_child_of_root)
       (simp_all add: fs_l2_def fs_l1_def stored_fields fs_last_open_fields inode_last_block)
  have w: "write_file 0 (replicate 513 (CHR ''a'')) 513 fs_last_open =
      Some ((set_inode 0 ((inodes fs_l2 0)\<lparr>size_i := size_i (inodes fs_l2 0) + 513\<rparr>) fs_l2)
       \<lparr>opened_file := (opened_file fs_l2)
          (0 := (opened_file fs_l2 0)
             \<lparr>tete_lecture := SIZEOF_FILESYSTEM + NUM_BLOCKS * BLOCK_SIZE + 1\<rparr>)\<rparr>, 513)"
    unfolding write_file_def Let_def
    by (simp add: fs_last_open_fields inode_last_block hp [simplified] cb [simplified]
          write_last_block [simplified] write_blocks_stop up set_inode_def)
  show "fs_last_written =
     (set_inode 0 ((inodes fs_l2 0)\<lparr>size_i := size_i (inodes fs_l2 0) + 513\<rparr>) fs_l2)
       \<lparr>opened_file := (opened_file fs_l2)
          (0 := (opened_file fs_l2 0)
             \<lparr>tete_lecture := SIZEOF_FILESYSTEM + NUM_BLOCKS * BLOCK_SIZE + 1\<rparr>)\<rparr>"
    unfolding fs_last_written_def w by simp
  then show "write_file 0 (replicate 513 (CHR ''a'')) 513 fs_last_open =
      Some (fs_last_written, 513)"
    using w by simp
qed

lemma fs_last_written_fields:
  "size_i (inodes fs_last_written 2) = 513"
  "size_i (inodes fs_last_written 0) = 523265 + 513"
  "len (file_img fs_last_written) = len (file_img fs_last_open)"
  "bytes (file_img fs_last_written) =
     (\<lambda>p. if SIZEOF_FILESYSTEM + 1023 * BLOCK_SIZE \<le> p \<and>
              p < SIZEOF_FILESYSTEM + NUM_BLOCKS * BLOCK_SIZE
           then CHR ''a'' else bytes (file_img fs_last_open) p)"
  unfolding fs_last_written_eval(2)
  by (auto simp add: set_inode_def fs_l2_def fs_l1_def stored_fields fs_last_open_fields
        inode_last_block fun_eq_iff)

text \<open>
  Claim C4 at a 513-byte text written to the file \<open>a\<close> that holds the last block of
  the image. The call returns 513 and adds 513 to the size of the file and of the root
  directory, but only the 512 positions of block 1023 received a byte, each of which
  held a zero byte before: byte 512 of the text was counted as new and stored on the
  position of byte 511.
\<close>

theorem write_file_counts_byte_at_end_of_image:
  "write_file 0 (replicate 513 (CHR ''a'')) 513 fs_last_open = Some (fs_last_written, 513) \<and>
   size_i (inodes fs_last_written 2) = size_i (inodes fs_last_open 2) + 513 \<and>
   inode_rep_parent (inodes fs_last_open 2) = 0 \<and>
   size_i (inodes fs_last_written 0) = size_i (inodes fs_last_open 0) + 513 \<and>
   len (file_img fs_last_written) = len (file_img fs_last_open) \<and>
   {p. bytes (file_img fs_last_written) p \<noteq> bytes (file_img fs_last_open) p} =
     {SIZEOF_FILESYSTEM + 1023 * BLOCK_SIZE ..< SIZEOF_FILESYSTEM + NUM_BLOCKS * BLOCK_SIZE} \<and>
   card {p. bytes (file_img fs_last_open) p = NUL \<and> bytes (file_img fs_last_written) p \<noteq> NUL}
     = 512"
proof -
  have s: "{p. bytes (file_img fs_last_written) p \<noteq> bytes (file_img fs_last_open) p} =
      {SIZEOF_FILESYSTEM + 1023 * BLOCK_SIZE ..< SIZEOF_FILESYSTEM + NUM_BLOCKS * BLOCK_SIZE}"
    unfolding fs_last_written_fields(4)
    by (auto simp add: fs_last_open_fields inode_last_block)
  have "{p. bytes (file_img fs_last_open) p = NUL \<and> bytes (file_img fs_last_written) p \<noteq> NUL} =
      {SIZEOF_FILESYSTEM + 1023 * BLOCK_SIZE ..< SIZEOF_FILESYSTEM + NUM_BLOCKS * BLOCK_SIZE}"
    unfolding fs_last_written_fields(4)
    by (auto simp add: fs_last_open_fields inode_last_block)
  then have c: "card {p. bytes (file_img fs_last_open) p = NUL \<and>
      bytes (file_img fs_last_written) p \<noteq> NUL} = 512"
    by simp
  show ?thesis
    using fs_last_written_eval(1) fs_last_written_fields(1,2,3) s c
    by (simp add: fs_last_open_fields inode_last_block)
qed

subsection \<open>Operations that fail leave the state unchanged\<close>

lemma delete_directory_failure:
  "delete_directory n now dirname parent_dir fs = Some (fs', -1) \<Longrightarrow> fs' = fs"
  by (cases n) (auto simp add: Let_def split: if_splits option.splits)

lemma move_file_failure:
  "snd (move_file now fname src dst fs) \<noteq> None \<Longrightarrow> fst (move_file now fname src dst fs) = fs"
  by (auto simp add: move_file_def Let_def split: if_splits)

lemma delete_file_failure:
  "snd (delete_file now fname dir_inode fs) \<noteq> None \<Longrightarrow>
     fst (delete_file now fname dir_inode fs) = fs"
  by (auto simp add: delete_file_def Let_def split: if_splits)

lemma create_directory_failure:
  "snd (create_directory now dirname inode_dir fs) = -1 \<Longrightarrow>
     fst (create_directory now dirname inode_dir fs) = fs"
  by (auto simp add: create_directory_def Let_def split: if_splits)

lemma create_hard_link_failure:
  "snd (create_hard_link link_name fname src dst fs) = -1 \<Longrightarrow>
     fst (create_hard_link link_name fname src dst fs) = fs"
  by (auto simp add: create_hard_link_def Let_def split: if_splits)

lemma create_symbolic_link_failure:
  "snd (create_symbolic_link now linkName targetPath parentDir fs) = -1 \<Longrightarrow>
     fst (create_symbolic_link now linkName targetPath parentDir fs) = fs"
  by (auto simp add: create_symbolic_link_def allocate_block_def Let_def split: if_splits)

lemma open_file_failure:
  "snd (open_file fname dir_inode fs) = -1 \<Longrightarrow> fst (open_file fname dir_inode fs) = fs"
  by (auto simp add: open_file_def Let_def split: if_splits)

lemma change_permissions_failure:
  "snd (change_permissions now fname newPerms dir_inode fs) = -1 \<Longrightarrow>
     fst (change_permissions now fname newPerms dir_inode fs) = fs"
  by (auto simp add: change_permissions_def Let_def split: if_splits)

lemma create_file_failure:
  assumes "snd (create_file now fname perms dir_inode fs) = -1"
  shows "fst (create_file now fname perms dir_inode fs) = fs"
proof -
  let ?idx = "first_index (\<lambda>i. size_i (inodes fs i) = -1) 0 NUM_INODES"
  let ?fs1 = "set_inode ?idx ((inodes fs ?idx)\<lparr>size_i := 0\<rparr>) fs"
  show ?thesis
  proof (cases "has_permission fs dir_inode (CHR ''w'') = 0 \<or>
      rechInode fname (directories fs dir_inode) \<noteq> -1 \<or> ?idx = -1")
    case True
    then show ?thesis by (auto simp add: create_file_def Let_def)
  next
    case False
    then have ne: "?idx \<noteq> -1" by simp
    have sz: "size_i (inodes fs ?idx) = -1"
      using first_index_hit [of 0 "\<lambda>i. size_i (inodes fs i) = -1" NUM_INODES] ne by simp
    have restored: "set_inode ?idx ((inodes ?fs1 ?idx)\<lparr>size_i := -1\<rparr>) ?fs1 = fs"
      using sz by (rule set_inode_same_size)
    show ?thesis
    proof (cases "snd (allocate_block ?fs1) = -1")
      case True
      then have "fst (allocate_block ?fs1) = ?fs1"
        by (auto simp add: allocate_block_def Let_def split: if_splits)
      then show ?thesis using False True restored by (simp add: create_file_def Let_def)
    next
      case nb: False
      have undo: "free_block (snd (allocate_block ?fs1)) (fst (allocate_block ?fs1)) = ?fs1"
        using nb by (rule free_block_undoes_allocate)
      have "rechEntree (fst (allocate_block ?fs1)) dir_inode = -1"
        using assms False nb ne by (auto simp add: create_file_def Let_def split: if_splits)
      then show ?thesis using False nb undo restored by (simp add: create_file_def Let_def)
    qed
  qed
qed

lemma move_directory_failure:
  "snd (move_directory now dname src dst fs) = -1 \<Longrightarrow>
     fst (move_directory now dname src dst fs) = fs"
  by (auto simp add: move_directory_def Let_def split: if_splits)

lemma close_file_failure:
  "snd (close_file desc fs) \<noteq> None \<Longrightarrow> fst (close_file desc fs) = fs"
  by (auto simp add: close_file_def split: if_splits)

text \<open>The count of \<^verbatim>\<open>write_file\<close> never decreases, so a result \<open>-1\<close> is an early return.\<close>

lemma write_byte_maj_mono: "maj \<le> snd (snd (write_byte ino c l (fs, tmp, maj)))"
  by (simp add: write_byte_def Let_def)

lemma write_block_maj_mono:
  "maj \<le> fst (snd (snd (write_block ino texte sz num_block (fs, tmp, maj, j, lecteur))))"
proof (induction ino texte sz num_block "(fs, tmp, maj, j, lecteur)"
    arbitrary: fs tmp maj j lecteur rule: write_block.induct)
  case (1 ino texte sz num_block fs tmp maj j lecteur)
  show ?case
  proof (cases "j < sz \<and> lecteur \<le> SIZEOF_FILESYSTEM + (num_block + 1) * BLOCK_SIZE")
    case False
    then show ?thesis by (subst write_block.simps) auto
  next
    case True
    obtain fs1 tmp1 maj1 where wb: "write_byte ino (texte ! nat j) lecteur (fs, tmp, maj) = (fs1, tmp1, maj1)"
      by (cases "write_byte ino (texte ! nat j) lecteur (fs, tmp, maj)") auto
    have m: "maj \<le> maj1" using write_byte_maj_mono [of maj ino "texte ! nat j" lecteur fs tmp] wb by simp
    have "maj1 \<le> fst (snd (snd (write_block ino texte sz num_block (fs1, tmp1, maj1, j + 1, lecteur + 1))))"
      using "1.hyps" [OF True wb [symmetric] refl] .
    then show ?thesis using True wb m by (subst write_block.simps) simp
  qed
qed

lemma write_blocks_maj_mono:
  "maj \<le> fst (snd (snd (write_blocks ino texte sz (fs, tmp, maj, j, lecteur) block_index)))"
proof (induction ino texte sz "(fs, tmp, maj, j, lecteur)" block_index
    arbitrary: fs tmp maj j lecteur rule: write_blocks.induct)
  case (1 ino texte sz fs tmp maj j lecteur block_index)
  let ?bi = "block_index + 1"
  let ?old = "blocks (inodes fs ino) ?bi"
  let ?nb = "if ?old = -1 then snd (allocate_block fs) else ?old"
  let ?fs1 = "if ?old = -1
              then (let fsa = fst (allocate_block fs)
                    in set_inode ino
                         ((inodes fsa ino)\<lparr>blocks := (blocks (inodes fsa ino))(?bi := ?nb)\<rparr>) fsa)
              else fs"
  show ?case
  proof (cases "j < sz \<and> ?nb \<noteq> -1")
    case False
    then show ?thesis by (subst write_blocks.simps) (auto simp add: Let_def)
  next
    case True
    obtain fs2 tmp2 maj2 j2 l2 where wb: "write_block ino texte sz ?nb
        (?fs1, tmp, maj, j, SIZEOF_FILESYSTEM + ?nb * BLOCK_SIZE) = (fs2, tmp2, maj2, j2, l2)"
      by (cases "write_block ino texte sz ?nb
        (?fs1, tmp, maj, j, SIZEOF_FILESYSTEM + ?nb * BLOCK_SIZE)") auto
    have m: "maj \<le> maj2"
      using write_block_maj_mono [of maj ino texte sz ?nb ?fs1 tmp j
          "SIZEOF_FILESYSTEM + ?nb * BLOCK_SIZE"] wb by simp
    have "maj2 \<le> fst (snd (snd (write_blocks ino texte sz (fs2, tmp2, maj2, j2, l2) ?bi)))"
      using "1.hyps" [OF _ refl refl refl refl _ wb] True by simp
    then have "maj \<le> fst (snd (snd (write_blocks ino texte sz (fs2, tmp2, maj2, j2, l2) ?bi)))"
      using m by simp
    then show ?thesis using True wb by (subst write_blocks.simps) (simp add: Let_def)
  qed
qed

lemma write_file_failure:
  assumes "write_file desc texte sz fs = Some (fs', -1)"
  shows "fs' = fs"
proof (cases "desc > MAX_FILE_OPEN \<or> desc < 0 \<or> inode (opened_file fs desc) = -1 \<or> sz < 0 \<or>
    has_permission fs (inode (opened_file fs desc)) (CHR ''w'') = 0 \<or>
    type_i (inodes fs (inode (opened_file fs desc))) \<noteq> 1 \<or>
    cursor_block fs (inode (opened_file fs desc)) (tete_lecture (opened_file fs desc)) = -1")
  case True
  then show ?thesis using assms by (auto simp add: write_file_def Let_def split: if_splits)
next
  case False
  let ?ino = "inode (opened_file fs desc)"
  let ?l = "tete_lecture (opened_file fs desc)"
  let ?bi = "cursor_block fs ?ino ?l"
  obtain fs1 tmp1 maj1 j1 l1 where wb: "write_block ?ino texte sz (blocks (inodes fs ?ino) ?bi)
      (fs, NUL, 0, 0, ?l) = (fs1, tmp1, maj1, j1, l1)"
    by (cases "write_block ?ino texte sz (blocks (inodes fs ?ino) ?bi) (fs, NUL, 0, 0, ?l)") auto
  obtain fs2 tmp2 maj2 j2 l2 where wbs: "write_blocks ?ino texte sz (fs1, tmp1, maj1, j1, l1) ?bi =
      (fs2, tmp2, maj2, j2, l2)"
    by (cases "write_blocks ?ino texte sz (fs1, tmp1, maj1, j1, l1) ?bi") auto
  have "0 \<le> maj1"
    using write_block_maj_mono [of 0 ?ino texte sz "blocks (inodes fs ?ino) ?bi" fs NUL 0 ?l] wb
    by simp
  moreover have "maj1 \<le> maj2"
    using write_blocks_maj_mono [of maj1 ?ino texte sz fs1 tmp1 j1 l1 ?bi] wbs by simp
  ultimately have "maj2 \<noteq> -1" by simp
  then show ?thesis using assms False wb wbs
    by (auto simp add: write_file_def Let_def split: option.splits)
qed


lemma copy_file_failure:
  assumes "copy_file now uninit fname newname src dst fs = Some (fs', -1)"
  shows "fs' = fs"
proof -
  let ?c = "create_file now newname
              (takeWhile (\<lambda>x. x \<noteq> NUL) (permissions (inodes fs (rechInode fname (directories fs src)))))
              dst fs"
  show ?thesis
  proof (cases "snd ?c = -1")
    case True
    then have "fst ?c = fs" by (rule create_file_failure)
    then show ?thesis using assms True
      by (auto simp add: copy_file_def Let_def split: if_splits)
  next
    case False
    then show ?thesis using assms
      by (auto simp add: copy_file_def Let_def split: if_splits option.splits)
  qed
qed

lemma copy_directory_failure:
  assumes "copy_directory n now uninit dname newname src dst fs = Some (fs', -1)"
  shows "fs' = fs"
proof (cases n)
  case 0
  then show ?thesis using assms by simp
next
  case (Suc m)
  show ?thesis
  proof (cases "snd (create_directory now newname dst fs) = -1")
    case True
    then have "fst (create_directory now newname dst fs) = fs" by (rule create_directory_failure)
    then show ?thesis using assms Suc True
      by (auto simp add: Let_def split: if_splits simp del: copy_children.simps)
  next
    case False
    then show ?thesis using assms Suc
      by (auto simp add: Let_def split: if_splits option.splits simp del: copy_children.simps)
  qed
qed

text \<open>
  \<^verbatim>\<open>read_file\<close> and \<^verbatim>\<open>seek_file\<close> touch nothing but the cursor of their descriptor,
  and leave it where it was on every error but the one met after the loops have run.
\<close>

lemma read_file_failure:
  "snd (snd (read_file desc texte sz fs)) \<noteq> None \<Longrightarrow>
   snd (snd (read_file desc texte sz fs)) \<noteq> Some EndOfFile \<Longrightarrow>
     fst (read_file desc texte sz fs) = fs"
  by (auto simp add: read_file_def Let_def split: if_splits)

lemma seek_file_failure:
  "snd (seek_file desc off whence fs) \<noteq> None \<Longrightarrow>
   snd (seek_file desc off whence fs) \<noteq> Some OutOfFile \<Longrightarrow>
     fst (seek_file desc off whence fs) = fs"
  by (auto simp add: seek_file_def Let_def split: if_splits)

lemma cursor_unchanged:
  "fs\<lparr>opened_file := (opened_file fs)
        (desc := (opened_file fs desc)\<lparr>tete_lecture := tete_lecture (opened_file fs desc)\<rparr>)\<rparr> = fs"
  by simp

lemma cursor_same:
  "\<exists>c. fs = fs\<lparr>opened_file := (opened_file fs)
                   (desc := (opened_file fs desc)\<lparr>tete_lecture := c\<rparr>)\<rparr>"
  using cursor_unchanged [of fs desc] by metis

lemma read_file_cursor_only:
  "\<exists>c. fst (read_file desc texte sz fs) =
     fs\<lparr>opened_file := (opened_file fs)(desc := (opened_file fs desc)\<lparr>tete_lecture := c\<rparr>)\<rparr>"
  by (auto simp add: read_file_def Let_def cursor_same)

lemma seek_file_cursor_only:
  "\<exists>c. fst (seek_file desc off whence fs) =
     fs\<lparr>opened_file := (opened_file fs)(desc := (opened_file fs desc)\<lparr>tete_lecture := c\<rparr>)\<rparr>"
  by (auto simp add: seek_file_def Let_def cursor_same)


text \<open>
  Claim C6, as amended. An operation other than \<^verbatim>\<open>create_file\<close> either succeeds or
  fails before it has changed anything: when it returns failure (\<open>-1\<close>, or an error
  report for the operations that return nothing) the whole file system state, and so
  the inode table, the directory tables and the block bitmap, is the state before the
  call. This is shown for \<^verbatim>\<open>delete_directory\<close>, \<^verbatim>\<open>move_file\<close>, \<^verbatim>\<open>delete_file\<close>,
  \<^verbatim>\<open>create_directory\<close>, \<^verbatim>\<open>move_directory\<close>, \<^verbatim>\<open>create_hard_link\<close>,
  \<^verbatim>\<open>create_symbolic_link\<close>, \<^verbatim>\<open>change_permissions\<close>, \<^verbatim>\<open>open_file\<close>, \<^verbatim>\<open>close_file\<close>,
  \<^verbatim>\<open>write_file\<close>, \<^verbatim>\<open>copy_file\<close> and \<^verbatim>\<open>copy_directory\<close>, and for \<^verbatim>\<open>read_file\<close> and
  \<^verbatim>\<open>seek_file\<close> on every error but one: these two report that the cursor ran past
  the last allocated block after they have moved it there. Whatever they return, they
  change nothing but the cursor of their descriptor. What a call that returns success
  has done when a nested call inside it failed is not part of the statement.
\<close>

theorem operations_fail_before_mutating:
  "(delete_directory n now dname src fs = Some (fsd, -1) \<longrightarrow> fsd = fs) \<and>
   (snd (move_file now fname src dst fs) \<noteq> None \<longrightarrow>
      fst (move_file now fname src dst fs) = fs) \<and>
   (snd (delete_file now fname src fs) \<noteq> None \<longrightarrow> fst (delete_file now fname src fs) = fs) \<and>
   (snd (create_directory now dname src fs) = -1 \<longrightarrow>
      fst (create_directory now dname src fs) = fs) \<and>
   (snd (move_directory now dname src dst fs) = -1 \<longrightarrow>
      fst (move_directory now dname src dst fs) = fs) \<and>
   (snd (create_hard_link link_name fname src dst fs) = -1 \<longrightarrow>
      fst (create_hard_link link_name fname src dst fs) = fs) \<and>
   (snd (create_symbolic_link now link_name target src fs) = -1 \<longrightarrow>
      fst (create_symbolic_link now link_name target src fs) = fs) \<and>
   (snd (change_permissions now fname perms src fs) = -1 \<longrightarrow>
      fst (change_permissions now fname perms src fs) = fs) \<and>
   (snd (open_file fname src fs) = -1 \<longrightarrow> fst (open_file fname src fs) = fs) \<and>
   (snd (close_file desc fs) \<noteq> None \<longrightarrow> fst (close_file desc fs) = fs) \<and>
   (write_file desc texte sz fs = Some (fsw, -1) \<longrightarrow> fsw = fs) \<and>
   (copy_file now uninit fname newname src dst fs = Some (fsc, -1) \<longrightarrow> fsc = fs) \<and>
   (copy_directory n now uninit dname newname src dst fs = Some (fsr, -1) \<longrightarrow> fsr = fs) \<and>
   (snd (snd (read_file desc buf sz fs)) \<noteq> None \<and>
    snd (snd (read_file desc buf sz fs)) \<noteq> Some EndOfFile \<longrightarrow>
      fst (read_file desc buf sz fs) = fs) \<and>
   (snd (seek_file desc off whence fs) \<noteq> None \<and>
    snd (seek_file desc off whence fs) \<noteq> Some OutOfFile \<longrightarrow>
      fst (seek_file desc off whence fs) = fs) \<and>
   (\<exists>c. fst (read_file desc buf sz fs) =
      fs\<lparr>opened_file := (opened_file fs)
           (desc := (opened_file fs desc)\<lparr>tete_lecture := c\<rparr>)\<rparr>) \<and>
   (\<exists>c. fst (seek_file desc off whence fs) =
      fs\<lparr>opened_file := (opened_file fs)
           (desc := (opened_file fs desc)\<lparr>tete_lecture := c\<rparr>)\<rparr>)"
proof (intro conjI impI)
  show "fsd = fs" if "delete_directory n now dname src fs = Some (fsd, -1)"
    using that by (rule delete_directory_failure)
  show "fst (move_file now fname src dst fs) = fs" if "snd (move_file now fname src dst fs) \<noteq> None"
    using that by (rule move_file_failure)
  show "fst (delete_file now fname src fs) = fs" if "snd (delete_file now fname src fs) \<noteq> None"
    using that by (rule delete_file_failure)
  show "fst (create_directory now dname src fs) = fs"
    if "snd (create_directory now dname src fs) = -1"
    using that by (rule create_directory_failure)
  show "fst (move_directory now dname src dst fs) = fs"
    if "snd (move_directory now dname src dst fs) = -1"
    using that by (rule move_directory_failure)
  show "fst (create_hard_link link_name fname src dst fs) = fs"
    if "snd (create_hard_link link_name fname src dst fs) = -1"
    using that by (rule create_hard_link_failure)
  show "fst (create_symbolic_link now link_name target src fs) = fs"
    if "snd (create_symbolic_link now link_name target src fs) = -1"
    using that by (rule create_symbolic_link_failure)
  show "fst (change_permissions now fname perms src fs) = fs"
    if "snd (change_permissions now fname perms src fs) = -1"
    using that by (rule change_permissions_failure)
  show "fst (open_file fname src fs) = fs" if "snd (open_file fname src fs) = -1"
    using that by (rule open_file_failure)
  show "fst (close_file desc fs) = fs" if "snd (close_file desc fs) \<noteq> None"
    using that by (rule close_file_failure)
  show "fsw = fs" if "write_file desc texte sz fs = Some (fsw, -1)"
    using that by (rule write_file_failure)
  show "fsc = fs" if "copy_file now uninit fname newname src dst fs = Some (fsc, -1)"
    using that by (rule copy_file_failure)
  show "fsr = fs" if "copy_directory n now uninit dname newname src dst fs = Some (fsr, -1)"
    using that by (rule copy_directory_failure)
  show "fst (read_file desc buf sz fs) = fs"
    if "snd (snd (read_file desc buf sz fs)) \<noteq> None \<and>
        snd (snd (read_file desc buf sz fs)) \<noteq> Some EndOfFile"
    using that by (auto intro: read_file_failure)
  show "fst (seek_file desc off whence fs) = fs"
    if "snd (seek_file desc off whence fs) \<noteq> None \<and>
        snd (seek_file desc off whence fs) \<noteq> Some OutOfFile"
    using that by (auto intro: seek_file_failure)
  show "\<exists>c. fst (read_file desc buf sz fs) =
      fs\<lparr>opened_file := (opened_file fs)
           (desc := (opened_file fs desc)\<lparr>tete_lecture := c\<rparr>)\<rparr>"
    by (rule read_file_cursor_only)
  show "\<exists>c. fst (seek_file desc off whence fs) =
      fs\<lparr>opened_file := (opened_file fs)
           (desc := (opened_file fs desc)\<lparr>tete_lecture := c\<rparr>)\<rparr>"
    by (rule seek_file_cursor_only)
qed

text \<open>
  The theorem on the image that holds the one file \<open>a\<close>, with no file open: each of
  the fifteen operations fails there on the arguments given, and the state stays.
\<close>

lemma one_file_closed: "inode (opened_file fs_one_file 0) = -1"
  by (simp add: fs_one_file_def)

theorem operations_fail_before_mutating_witness:
  "delete_directory 1 0 ''a'' 0 fs_one_file = Some (fs_one_file, -1) \<and>
   snd (move_file 0 ''x'' 0 0 fs_one_file) = Some NotFound \<and>
   fst (move_file 0 ''x'' 0 0 fs_one_file) = fs_one_file \<and>
   snd (delete_file 0 ''x'' 0 fs_one_file) = Some NotFound \<and>
   fst (delete_file 0 ''x'' 0 fs_one_file) = fs_one_file \<and>
   create_directory 0 ''a'' 0 fs_one_file = (fs_one_file, -1) \<and>
   move_directory 0 ''a'' 0 0 fs_one_file = (fs_one_file, -1) \<and>
   create_hard_link ''b'' ''x'' 0 0 fs_one_file = (fs_one_file, -1) \<and>
   create_symbolic_link 0 ''b'' ''x'' 0 fs_one_file = (fs_one_file, -1) \<and>
   change_permissions 0 ''x'' ''rwx'' 0 fs_one_file = (fs_one_file, -1) \<and>
   open_file ''x'' 0 fs_one_file = (fs_one_file, -1) \<and>
   close_file 0 fs_one_file = (fs_one_file, Some InvalidDescriptor) \<and>
   write_file 0 ''y'' 1 fs_one_file = Some (fs_one_file, -1) \<and>
   copy_file 0 (\<lambda>k. []) ''x'' ''y'' 0 0 fs_one_file = Some (fs_one_file, -1) \<and>
   copy_directory 1 0 (\<lambda>k. []) ''a'' ''y'' 0 0 fs_one_file = Some (fs_one_file, -1) \<and>
   snd (snd (read_file 0 ''zz'' 1 fs_one_file)) = Some InvalidDescriptor \<and>
   fst (read_file 0 ''zz'' 1 fs_one_file) = fs_one_file \<and>
   snd (seek_file 0 1 0 fs_one_file) = Some InvalidDescriptor \<and>
   fst (seek_file 0 1 0 fs_one_file) = fs_one_file"
proof -
  have x: "rechInode ''x'' (directories fs_one_file 0) = -1"
    by (rule rechInode_one_file_absent) simp
  note t = inode_one_file(1)
  have g: "get_inode_from_path fs_one_file ''x'' 0 = -1"
    by (simp add: get_inode_from_path_def strncpy_str_def path_loop.simps strtok_def x)
  have a1: "delete_directory 1 0 ''a'' 0 fs_one_file = Some (fs_one_file, -1)"
    by (simp add: rechInode_one_file t)
  have a2: "snd (move_file 0 ''x'' 0 0 fs_one_file) = Some NotFound"
    by (simp add: move_file_def x)
  have a3: "snd (delete_file 0 ''x'' 0 fs_one_file) = Some NotFound"
    by (simp add: delete_file_def x)
  have a4: "snd (create_directory 0 ''a'' 0 fs_one_file) = -1"
    by (simp add: create_directory_def one_file_free rechInode_one_file)
  have a5: "snd (move_directory 0 ''a'' 0 0 fs_one_file) = -1"
    by (simp add: move_directory_def rechInode_one_file t)
  have a6: "snd (create_hard_link ''b'' ''x'' 0 0 fs_one_file) = -1"
    by (simp add: create_hard_link_def x)
  have a7: "snd (create_symbolic_link 0 ''b'' ''x'' 0 fs_one_file) = -1"
    by (simp add: create_symbolic_link_def rechInode_one_file_absent g)
  have a8: "snd (change_permissions 0 ''x'' ''rwx'' 0 fs_one_file) = -1"
    by (simp add: change_permissions_def x)
  have a9: "snd (open_file ''x'' 0 fs_one_file) = -1"
    by (simp add: open_file_def x)
  have a10: "snd (close_file 0 fs_one_file) = Some InvalidDescriptor"
    by (simp add: close_file_def one_file_closed)
  have a11: "\<exists>fs'. write_file 0 ''y'' 1 fs_one_file = Some (fs', -1)"
    by (simp add: write_file_def one_file_closed)
  have a12: "\<exists>fs'. copy_file 0 (\<lambda>k. []) ''x'' ''y'' 0 0 fs_one_file = Some (fs', -1)"
    by (simp add: copy_file_def x)
  have a13: "\<exists>fs'. copy_directory 1 0 (\<lambda>k. []) ''a'' ''y'' 0 0 fs_one_file = Some (fs', -1)"
    by (simp add: rechInode_one_file t)
  have a14: "snd (snd (read_file 0 ''zz'' 1 fs_one_file)) = Some InvalidDescriptor"
    by (simp add: read_file_def one_file_closed)
  have a15: "snd (seek_file 0 1 0 fs_one_file) = Some InvalidDescriptor"
    by (simp add: seek_file_def one_file_closed)
  obtain w where w: "write_file 0 ''y'' 1 fs_one_file = Some (w, -1)" using a11 by blast
  obtain c where c: "copy_file 0 (\<lambda>k. []) ''x'' ''y'' 0 0 fs_one_file = Some (c, -1)"
    using a12 by blast
  obtain d where d: "copy_directory 1 0 (\<lambda>k. []) ''a'' ''y'' 0 0 fs_one_file = Some (d, -1)"
    using a13 by blast
  note th = operations_fail_before_mutating
    [where n = 1 and now = 0 and dname = "''a''" and src = 0 and dst = 0 and fs = fs_one_file
       and fsd = fs_one_file and fname = "''x''" and link_name = "''b''" and target = "''x''"
       and perms = "''rwx''" and desc = 0 and texte = "''y''" and sz = 1 and fsw = w
       and uninit = "\<lambda>k. []" and newname = "''y''" and fsc = c and fsr = d
       and buf = "''zz''" and off = 1 and whence = 0]
  have n: "Some NotFound \<noteq> (None :: error option)"
      "Some InvalidDescriptor \<noteq> (None :: error option)"
      "Some InvalidDescriptor \<noteq> Some EndOfFile" "Some InvalidDescriptor \<noteq> Some OutOfFile"
    by simp_all
  have b1: "delete_directory 1 0 ''a'' 0 fs_one_file = Some (fs_one_file, -1)" by (rule a1)
  have b2: "fst (move_file 0 ''x'' 0 0 fs_one_file) = fs_one_file"
    using th a2 n(1) by metis
  have b3: "fst (delete_file 0 ''x'' 0 fs_one_file) = fs_one_file"
    using th a3 n(1) by metis
  have b4: "create_directory 0 ''a'' 0 fs_one_file = (fs_one_file, -1)"
    using th a4 by (metis prod.collapse)
  have b5: "move_directory 0 ''a'' 0 0 fs_one_file = (fs_one_file, -1)"
    using th a5 by (metis prod.collapse)
  have b6: "create_hard_link ''b'' ''x'' 0 0 fs_one_file = (fs_one_file, -1)"
    using th a6 by (metis prod.collapse)
  have b7: "create_symbolic_link 0 ''b'' ''x'' 0 fs_one_file = (fs_one_file, -1)"
    using th a7 by (metis prod.collapse)
  have b8: "change_permissions 0 ''x'' ''rwx'' 0 fs_one_file = (fs_one_file, -1)"
    using th a8 by (metis prod.collapse)
  have b9: "open_file ''x'' 0 fs_one_file = (fs_one_file, -1)"
    using th a9 by (metis prod.collapse)
  have b10: "close_file 0 fs_one_file = (fs_one_file, Some InvalidDescriptor)"
    using th a10 n(2) by (metis prod.collapse)
  have b11: "write_file 0 ''y'' 1 fs_one_file = Some (fs_one_file, -1)"
    using th w by metis
  have b12: "copy_file 0 (\<lambda>k. []) ''x'' ''y'' 0 0 fs_one_file = Some (fs_one_file, -1)"
    using th c by metis
  have b13: "copy_directory 1 0 (\<lambda>k. []) ''a'' ''y'' 0 0 fs_one_file = Some (fs_one_file, -1)"
    using th d by metis
  have b14: "fst (read_file 0 ''zz'' 1 fs_one_file) = fs_one_file"
    using th a14 n(2,3) by metis
  have b15: "fst (seek_file 0 1 0 fs_one_file) = fs_one_file"
    using th a15 n(2,4) by metis
  show ?thesis
    using b1 b2 b3 b4 b5 b6 b7 b8 b9 b10 b11 b12 b13 b14 b15 a2 a3 a14 a15 by blast
qed


subsection \<open>A seek that reports its error after moving the cursor\<close>

lemma seek_block_stop:
  "\<not> (j < off \<and> lecteur \<le> SIZEOF_FILESYSTEM + (num_block + 1) * BLOCK_SIZE) \<Longrightarrow>
     seek_block off num_block (j, lecteur) = (j, lecteur)"
  by (subst seek_block.simps) auto

lemma seek_block_run:
  "j + int k \<le> off \<Longrightarrow> l + int k \<le> SIZEOF_FILESYSTEM + (num_block + 1) * BLOCK_SIZE + 1 \<Longrightarrow>
     seek_block off num_block (j, l) = seek_block off num_block (j + int k, l + int k)"
proof (induction k arbitrary: j l)
  case 0
  show ?case by simp
next
  case (Suc k)
  have "seek_block off num_block (j, l) = seek_block off num_block (j + 1, l + 1)"
    using Suc.prems by (subst seek_block.simps) auto
  also have "\<dots> = seek_block off num_block (j + 1 + int k, l + 1 + int k)"
    using Suc.prems by (intro Suc.IH) auto
  finally show ?case by (simp add: add.commute add.left_commute)
qed

text \<open>
  Claim C6 as stated fails at \<^verbatim>\<open>seek_file(fd, 514, 0)\<close> on the new file \<open>a\<close>, which
  holds one block. The cursor advances over the 513 positions the block is given, the
  next entry of the block list is \<open>-1\<close>, and the error is reported with the cursor left
  513 bytes after the start of the file, where it was at the start before the call.
\<close>

theorem seek_file_moves_cursor_counterexample:
  "snd (seek_file 0 514 0 fs_open) = Some OutOfFile \<and>
   tete_lecture (opened_file fs_open 0) = SIZEOF_FILESYSTEM \<and>
   tete_lecture (opened_file (fst (seek_file 0 514 0 fs_open)) 0) = SIZEOF_FILESYSTEM + 513 \<and>
   fst (seek_file 0 514 0 fs_open) \<noteq> fs_open"
proof -
  let ?blks = "blocks (inodes fs_one_file 1)"
  have r: "seek_block 514 0 (0, SIZEOF_FILESYSTEM) = (513, SIZEOF_FILESYSTEM + 513)"
    using seek_block_run [of 0 513 514 SIZEOF_FILESYSTEM 0]
    by (simp add: seek_block_stop)
  have s1: "seek_blocks ?blks 514 (0, SIZEOF_FILESYSTEM) 0 =
      seek_blocks ?blks 514 (513, SIZEOF_FILESYSTEM + 513) 1"
    by (subst seek_blocks.simps) (simp add: inode_one_file r)
  have s2: "seek_blocks ?blks 514 (513, SIZEOF_FILESYSTEM + 513) 1 =
      (513, SIZEOF_FILESYSTEM + 513, True)"
    by (subst seek_blocks.simps) (simp add: inode_one_file)
  have s: "seek_file 0 514 0 fs_open =
      (fs_open\<lparr>opened_file := (opened_file fs_open)
          (0 := (opened_file fs_open 0)\<lparr>tete_lecture := SIZEOF_FILESYSTEM + 513\<rparr>)\<rparr>,
       Some OutOfFile)"
    by (simp add: seek_file_def Let_def fs_open_fields inode_one_file s1 [simplified] s2 [simplified])
  have c: "tete_lecture (opened_file fs_open 0) = SIZEOF_FILESYSTEM"
    by (simp add: fs_open_fields)
  have m: "tete_lecture (opened_file (fst (seek_file 0 514 0 fs_open)) 0) =
      SIZEOF_FILESYSTEM + 513"
    unfolding s by simp
  have "fst (seek_file 0 514 0 fs_open) \<noteq> fs_open"
    using c m by auto
  then show ?thesis using s c m by simp
qed

end
